theory Spec2Isabelle
  imports Complex_Main
begin

section \<open>Conventions of the embedding\<close>

text \<open>
  The development embeds the quasi-one-dimensional flow residual engine of
  \<^verbatim>\<open>src/oneD/StFlow.cpp\<close> (classes \<^verbatim>\<open>StFlow\<close>, \<^verbatim>\<open>AxiStagnFlow\<close>, \<^verbatim>\<open>FreeFlame\<close>,
  \<^verbatim>\<open>PorousFlow\<close>).

  \<^item> A \<^verbatim>\<open>doublereal\<close> is idealised as a \<^typ>\<open>real\<close>: rounding, infinities and NaN are
    not modelled.
  \<^item> A \<^verbatim>\<open>size_t\<close> is a \<^typ>\<open>nat\<close>; where the source subtracts, the wrap-around modulo
    \<open>2 ^ 64\<close> is written out (\<open>size_sub\<close>).
  \<^item> A \<^verbatim>\<open>std::vector\<close> is a list; \<^verbatim>\<open>Array2D\<close> is the flat column-major list of its
    data, entry \<open>(k, j)\<close> at position \<open>nrows * j + k\<close>.
  \<^item> A C++ exception is the \<open>Inl\<close> branch of a sum type.
  \<^item> The class hierarchy is flattened into one record; the fields of the derived classes
    are only touched by the member functions of those classes.
\<close>

datatype error =
    CanteraError string string   \<comment> \<open>\<^verbatim>\<open>CanteraError(procedure, message)\<close>\<close>
  | StdLengthError               \<comment> \<open>\<^verbatim>\<open>std::length_error\<close> of \<^verbatim>\<open>std::vector::resize\<close>\<close>
  | IntException int             \<comment> \<open>\<^verbatim>\<open>throw 10\<close>\<close>

definition size_t_mod :: nat where
  "size_t_mod = 2 ^ 64"

definition npos :: nat where
  "npos = size_t_mod - 1"

definition size_sub :: "nat \<Rightarrow> nat \<Rightarrow> nat" where
  "size_sub a b = (if b \<le> a then a - b else a + size_t_mod - b)"

definition vector_max_size :: nat where
  "vector_max_size = 2 ^ 60 - 1"

definition vresize :: "nat \<Rightarrow> 'a \<Rightarrow> 'a list \<Rightarrow> 'a list" where
  "vresize n v xs = take n xs @ replicate (n - length xs) v"

text \<open>State of the thermodynamic provider object: what \<^verbatim>\<open>setTemperature\<close>,
  \<^verbatim>\<open>setMassFractions_NoNorm\<close> and \<^verbatim>\<open>setPressure\<close> last stored.\<close>

record gas =
  g_T :: real
  g_Y :: "real list"
  g_P :: real

record flow =
  \<comment> \<open>\<^verbatim>\<open>Domain1D\<close> and its container\<close>
  m_nv :: nat
  m_points :: nat
  m_iloc :: nat
  m_jstart :: nat
  m_z :: "real list"
  dosolid :: int
  logged :: "string list"
  m_refine_criteria :: "real \<times> real \<times> real \<times> real"
  m_refine_gridmin :: real
  m_refine_extra :: "real list"
  \<comment> \<open>\<^verbatim>\<open>StFlow\<close>\<close>
  m_press :: real
  m_nsp :: nat
  m_wt :: "real list"
  m_thermo :: gas
  m_dz :: "real list"
  m_rho :: "real list"
  m_wtm :: "real list"
  m_cp :: "real list"
  m_visc :: "real list"
  m_tcon :: "real list"
  m_diff :: "real list"
  m_multidiff :: "real list"
  m_dthermal :: "real list"
  m_flux :: "real list"
  m_wdot :: "real list"
  m_ybar :: "real list"
  m_do_energy :: "bool list"
  m_do_species :: "bool list"
  m_qdotRadiation :: "real list"
  m_fixedtemp :: "real list"
  m_zfix :: "real list"
  m_tfix :: "real list"
  m_transport_option :: int
  m_do_soret :: bool
  m_do_radiation :: bool
  m_dovisc :: bool
  m_kRadiating :: "nat list"
  m_epsilon_left :: real
  m_epsilon_right :: real
  \<comment> \<open>\<^verbatim>\<open>FreeFlame\<close>\<close>
  m_zfixed :: real
  m_tfixed :: real
  \<comment> \<open>\<^verbatim>\<open>PorousFlow\<close>\<close>
  Tw :: "real list"
  dq :: "real list"
  Twprev :: "real list"
  pore :: "real list"
  diam :: "real list"
  scond :: "real list"
  hconv :: "real list"
  pore1 :: real
  pore2 :: real
  diam1 :: real
  diam2 :: real
  scond1 :: real
  scond2 :: real
  Omega1 :: real
  Omega2 :: real
  srho :: real
  sCp :: real
  m_zmid :: real
  m_dzmid :: real

text \<open>The two transport options. The constants are declared in the header
  \<^verbatim>\<open>StFlow.h\<close>; only that they differ from each other and from the constructor's
  \<open>-1\<close> matters here.\<close>

definition c_Mixav_Transport :: int where
  "c_Mixav_Transport = 0"

definition c_Multi_Transport :: int where
  "c_Multi_Transport = 1"

section \<open>External collaborators and accessors\<close>

text \<open>
  The thermodynamic, transport and kinetics providers are external collaborators: what
  they return is a function of the gas state last set. So are the inline helpers
  declared in the header \<^verbatim>\<open>StFlow.h\<close> and in \<^verbatim>\<open>funcs.h\<close> that are not part of the
  sources and whose values the properties below do not depend on. So are the physical
  constants of \<^verbatim>\<open>ct_defs.h\<close>. They are parameters of the model, collected in one
  record.
\<close>

record env =
  th_density :: "gas \<Rightarrow> real"
  th_meanMolecularWeight :: "gas \<Rightarrow> real"
  th_cp_mass :: "gas \<Rightarrow> real"
  th_enthalpy_RT_ref :: "gas \<Rightarrow> real list"
  th_cp_R_ref :: "gas \<Rightarrow> real list"
  th_speciesNames :: "string list"
  tr_model :: int
  tr_viscosity :: "gas \<Rightarrow> real"
  tr_thermalConductivity :: "gas \<Rightarrow> real"
  tr_mixDiffCoeffs :: "gas \<Rightarrow> real list"
  tr_multiDiffCoeffs :: "gas \<Rightarrow> real list"
  tr_thermalDiffCoeffs :: "gas \<Rightarrow> real list"
  kin_netProductionRates :: "gas \<Rightarrow> real list"
  hd_shear :: "flow \<Rightarrow> real list \<Rightarrow> nat \<Rightarrow> real"
  hd_dVdz :: "flow \<Rightarrow> real list \<Rightarrow> nat \<Rightarrow> real"
  hd_dYdz :: "flow \<Rightarrow> real list \<Rightarrow> nat \<Rightarrow> nat \<Rightarrow> real"
  hd_dTdz :: "flow \<Rightarrow> real list \<Rightarrow> nat \<Rightarrow> real"
  hd_divHeatFlux :: "flow \<Rightarrow> real list \<Rightarrow> nat \<Rightarrow> real"
  hd_V_prev :: "flow \<Rightarrow> nat \<Rightarrow> real"
  hd_Y_prev :: "flow \<Rightarrow> nat \<Rightarrow> nat \<Rightarrow> real"
  hd_T_prev :: "flow \<Rightarrow> nat \<Rightarrow> real"
  hd_linearInterp :: "real \<Rightarrow> real list \<Rightarrow> real list \<Rightarrow> real"
  c_GasConstant :: real
  c_StefanBoltz :: real
  c_OneAtm :: real

text \<open>
  The layout of the solution array: component \<open>n\<close> of point \<open>j\<close> is at
  \<open>m_nv * j + n\<close> (the pointer arithmetic of \<^verbatim>\<open>setGas\<close>), with the components
  \<open>u, V, T, lambda\<close> at \<open>0, 1, 2, 3\<close> and the species from \<open>4\<close> on
  (\<^verbatim>\<open>componentName\<close>, \<^verbatim>\<open>restore\<close>). The accessors themselves are declared in the
  header; they read the array at these positions.
\<close>

definition c_offset_U :: nat where "c_offset_U = 0"
definition c_offset_V :: nat where "c_offset_V = 1"
definition c_offset_T :: nat where "c_offset_T = 2"
definition c_offset_L :: nat where "c_offset_L = 3"
definition c_offset_Y :: nat where "c_offset_Y = 4"

definition index :: "flow \<Rightarrow> nat \<Rightarrow> nat \<Rightarrow> nat" where
  "index s n j = m_nv s * j + n"

definition u_vel :: "flow \<Rightarrow> real list \<Rightarrow> nat \<Rightarrow> real" where
  "u_vel s x j = x ! index s c_offset_U j"

definition V :: "flow \<Rightarrow> real list \<Rightarrow> nat \<Rightarrow> real" where
  "V s x j = x ! index s c_offset_V j"

definition T :: "flow \<Rightarrow> real list \<Rightarrow> nat \<Rightarrow> real" where
  "T s x j = x ! index s c_offset_T j"

definition lambda :: "flow \<Rightarrow> real list \<Rightarrow> nat \<Rightarrow> real" where
  "lambda s x j = x ! index s c_offset_L j"

definition Y :: "flow \<Rightarrow> real list \<Rightarrow> nat \<Rightarrow> nat \<Rightarrow> real" where
  "Y s x k j = x ! index s (c_offset_Y + k) j"

text \<open>\<^verbatim>\<open>z(j)\<close> and \<^verbatim>\<open>grid(j)\<close> both read \<^verbatim>\<open>m_z[j]\<close>; the model writes \<open>grid\<close>
  for both, and \<open>u_vel\<close> for the accessor \<^verbatim>\<open>u\<close>.\<close>

definition grid :: "flow \<Rightarrow> nat \<Rightarrow> real" where
  "grid s j = m_z s ! j"

definition density :: "flow \<Rightarrow> nat \<Rightarrow> real" where
  "density s j = m_rho s ! j"

definition T_fixed :: "flow \<Rightarrow> nat \<Rightarrow> real" where
  "T_fixed s j = m_fixedtemp s ! j"

definition rho_u :: "flow \<Rightarrow> real list \<Rightarrow> nat \<Rightarrow> real" where
  "rho_u s x j = m_rho s ! j * u_vel s x j"

text \<open>Modelled from the spec: the mole-fraction accessor \<^verbatim>\<open>X\<close> is declared in the
  header \<^verbatim>\<open>StFlow.h\<close>, which is not part of the sources. The mole fraction of species
  \<open>k\<close> at point \<open>j\<close> is its mass fraction times the cached mean molecular weight of
  the point over the molecular weight of the species.\<close>

definition X :: "flow \<Rightarrow> real list \<Rightarrow> nat \<Rightarrow> nat \<Rightarrow> real" where
  "X s x k j = m_wtm s ! j * Y s x k j / m_wt s ! k"

text \<open>Positions in the \<^verbatim>\<open>Array2D\<close> members (\<open>m_nsp\<close> rows, one column per point) and
  in the block of multicomponent coefficients of a point.\<close>

definition aidx :: "flow \<Rightarrow> nat \<Rightarrow> nat \<Rightarrow> nat" where
  "aidx s k j = m_nsp s * j + k"

definition mindex :: "flow \<Rightarrow> nat \<Rightarrow> nat \<Rightarrow> nat \<Rightarrow> nat" where
  "mindex s k m j = j * m_nsp s * m_nsp s + m_nsp s * m + k"

definition firstPoint :: "flow \<Rightarrow> nat" where
  "firstPoint s = m_jstart s"

definition lastPoint :: "flow \<Rightarrow> nat" where
  "lastPoint s = size_sub (m_jstart s + m_points s) 1"

definition loc :: "flow \<Rightarrow> nat" where
  "loc s = m_iloc s"

definition nPoints :: "flow \<Rightarrow> nat" where
  "nPoints s = m_points s"

text \<open>Writing \<open>n\<close> values through a pointer to position \<open>off\<close> of a vector.\<close>

definition write_block :: "nat \<Rightarrow> nat \<Rightarrow> 'a list \<Rightarrow> 'a list \<Rightarrow> 'a list" where
  "write_block off n vs xs = fold (\<lambda>k l. l[off + k := vs ! k]) [0..<n] xs"

section \<open>Property cache\<close>

definition setGas :: "real list \<Rightarrow> nat \<Rightarrow> flow \<Rightarrow> flow" where
  "setGas x j s =
     s\<lparr>m_thermo := \<lparr>g_T = T s x j,
                     g_Y = map (\<lambda>k. x ! (m_nv s * j + c_offset_Y + k)) [0..<m_nsp s],
                     g_P = m_press s\<rparr>\<rparr>"

definition setGasAtMidpoint :: "real list \<Rightarrow> nat \<Rightarrow> flow \<Rightarrow> flow" where
  "setGasAtMidpoint x j s =
     (let ybar = fold (\<lambda>k l. l[k := 0.5 * (x ! (m_nv s * j + c_offset_Y + k)
                                         + x ! (m_nv s * (j + 1) + c_offset_Y + k))])
                   [0..<m_nsp s] (m_ybar s)
      in s\<lparr>m_ybar := ybar,
           m_thermo := \<lparr>g_T = 0.5 * (T s x j + T s x (j + 1)),
                        g_Y = take (m_nsp s) ybar,
                        g_P = m_press s\<rparr>\<rparr>)"

text \<open>Modelled from the spec: \<^verbatim>\<open>updateThermo\<close> is defined in the header. For each
  point in \<open>[j0, j1]\<close> it sets the thermodynamic state from the solution vector and
  reads back density, mean molecular weight and heat capacity.\<close>

definition updateThermo :: "env \<Rightarrow> real list \<Rightarrow> nat \<Rightarrow> nat \<Rightarrow> flow \<Rightarrow> flow" where
  "updateThermo E x j0 j1 s0 =
     fold (\<lambda>j s. let s = setGas x j s
                  in s\<lparr>m_rho := (m_rho s)[j := th_density E (m_thermo s)],
                       m_wtm := (m_wtm s)[j := th_meanMolecularWeight E (m_thermo s)],
                       m_cp := (m_cp s)[j := th_cp_mass E (m_thermo s)]\<rparr>)
       [j0..<j1 + 1] s0"

definition updateTransport_mix :: "env \<Rightarrow> real list \<Rightarrow> nat \<Rightarrow> flow \<Rightarrow> flow" where
  "updateTransport_mix E x j s0 =
     (let s = setGasAtMidpoint x j s0
      in s\<lparr>m_visc := (m_visc s)[j := (if m_dovisc s then tr_viscosity E (m_thermo s) else 0)],
           m_diff := write_block (j * m_nsp s) (m_nsp s) (tr_mixDiffCoeffs E (m_thermo s))
                       (m_diff s),
           m_tcon := (m_tcon s)[j := tr_thermalConductivity E (m_thermo s)]\<rparr>)"

definition updateTransport_multi :: "env \<Rightarrow> real list \<Rightarrow> nat \<Rightarrow> flow \<Rightarrow> flow" where
  "updateTransport_multi E x j s0 =
     (let s = setGasAtMidpoint x j s0;
          wtm = th_meanMolecularWeight E (m_thermo s);
          rho = th_density E (m_thermo s)
      in s\<lparr>m_visc := (m_visc s)[j := (if m_dovisc s then tr_viscosity E (m_thermo s) else 0)],
           m_multidiff := write_block (mindex s 0 0 j) (m_nsp s * m_nsp s)
                            (tr_multiDiffCoeffs E (m_thermo s)) (m_multidiff s),
           m_diff := fold (\<lambda>k l. l[k + j * m_nsp s := m_wt s ! k * rho / (wtm * wtm)])
                       [0..<m_nsp s] (m_diff s),
           m_tcon := (m_tcon s)[j := tr_thermalConductivity E (m_thermo s)],
           m_dthermal := (if m_do_soret s
                          then write_block (j * m_nsp s) (m_nsp s)
                                 (tr_thermalDiffCoeffs E (m_thermo s)) (m_dthermal s)
                          else m_dthermal s)\<rparr>)"

definition updateTransport :: "env \<Rightarrow> real list \<Rightarrow> nat \<Rightarrow> nat \<Rightarrow> flow \<Rightarrow> flow" where
  "updateTransport E x j0 j1 s =
     (if m_transport_option s = c_Mixav_Transport
      then fold (updateTransport_mix E x) [j0..<j1] s
      else if m_transport_option s = c_Multi_Transport
      then fold (updateTransport_multi E x) [j0..<j1] s
      else s)"

text \<open>
  \<^verbatim>\<open>StFlow::updateDiffFluxes\<close>. The only member written is \<^verbatim>\<open>m_flux\<close>, so the loops
  are functions on the flux array that read the rest of the state. \<open>mixav_first\<close> is the
  body of the first loop over the species of the mixture-averaged case (with the running
  \<^verbatim>\<open>sum\<close>, here \<open>sum1\<close>), \<open>mixav_second\<close> the body of the correction loop.
\<close>

definition mixav_first ::
  "flow \<Rightarrow> real list \<Rightarrow> nat \<Rightarrow> real \<Rightarrow> real \<Rightarrow> real \<Rightarrow> nat \<Rightarrow> real list \<times> real \<Rightarrow> real list \<times> real" where
  "mixav_first s x j wtm rho dz k = (\<lambda>(F, sum1).
     (let F = F[aidx s k j := m_wt s ! k * (rho * m_diff s ! (k + m_nsp s * j) / wtm)];
          F = F[aidx s k j := F ! aidx s k j * ((X s x k j - X s x k (j + 1)) / dz)]
      in (F, sum1 - F ! aidx s k j)))"

definition mixav_second :: "flow \<Rightarrow> real list \<Rightarrow> nat \<Rightarrow> real \<Rightarrow> nat \<Rightarrow> real list \<Rightarrow> real list" where
  "mixav_second s x j sum1 k F = F[aidx s k j := F ! aidx s k j + sum1 * Y s x k j]"

definition mixav_col :: "flow \<Rightarrow> real list \<Rightarrow> nat \<Rightarrow> real list \<Rightarrow> real list" where
  "mixav_col s x j F0 =
     (let wtm = m_wtm s ! j;
          rho = density s j;
          dz = grid s (j + 1) - grid s j;
          (F, sum1) = fold (mixav_first s x j wtm rho dz) [0..<m_nsp s] (F0, 0)
      in fold (mixav_second s x j sum1) [0..<m_nsp s] F)"

definition multi_col :: "flow \<Rightarrow> real list \<Rightarrow> nat \<Rightarrow> real list \<Rightarrow> real list" where
  "multi_col s x j F0 =
     (let dz = grid s (j + 1) - grid s j
      in fold (\<lambda>k F.
           (let sum1 = fold (\<lambda>m sum1. sum1 + m_wt s ! m * m_multidiff s ! mindex s k m j
                                          * (X s x m (j + 1) - X s x m j))
                        [0..<m_nsp s] 0
            in F[aidx s k j := sum1 * m_diff s ! (k + j * m_nsp s) / dz]))
           [0..<m_nsp s] F0)"

definition soret_col :: "flow \<Rightarrow> real list \<Rightarrow> nat \<Rightarrow> real list \<Rightarrow> real list" where
  "soret_col s x m F0 =
     (let gradlogT = 2.0 * (T s x (m + 1) - T s x m) /
                       ((T s x (m + 1) + T s x m) * (grid s (m + 1) - grid s m))
      in fold (\<lambda>k F. F[aidx s k m := F ! aidx s k m - m_dthermal s ! aidx s k m * gradlogT])
           [0..<m_nsp s] F0)"

definition updateDiffFluxes :: "real list \<Rightarrow> nat \<Rightarrow> nat \<Rightarrow> flow \<Rightarrow> error + flow" where
  "updateDiffFluxes x j0 j1 s =
     (case (if m_transport_option s = c_Mixav_Transport
            then Inr (fold (mixav_col s x) [j0..<j1] (m_flux s))
            else if m_transport_option s = c_Multi_Transport
            then Inr (fold (multi_col s x) [j0..<j1] (m_flux s))
            else Inl (CanteraError ''updateDiffFluxes'' ''unknown transport model''))
      of Inl e \<Rightarrow> Inl e
       | Inr F \<Rightarrow> Inr (s\<lparr>m_flux := (if m_do_soret s
                                     then fold (soret_col s x) [j0..<j1] F
                                     else F)\<rparr>))"

text \<open>The flux of species \<open>k\<close> across interval \<open>j\<close> that the first loop of the
  mixture-averaged case stores, before the correction.\<close>

definition mixav_raw :: "flow \<Rightarrow> real list \<Rightarrow> nat \<Rightarrow> nat \<Rightarrow> real" where
  "mixav_raw s x j k =
     m_wt s ! k * (density s j * m_diff s ! (k + m_nsp s * j) / m_wtm s ! j)
       * ((X s x k j - X s x k (j + 1)) / (grid s (j + 1) - grid s j))"

section \<open>Grid state\<close>

text \<open>Modelled from the spec: \<^verbatim>\<open>Domain1D::resize\<close> is declared in a header that is
  not part of the sources; it records the number of components and the point count.\<close>

definition Domain1D_resize :: "nat \<Rightarrow> nat \<Rightarrow> flow \<Rightarrow> flow" where
  "Domain1D_resize nv np s = s\<lparr>m_nv := nv, m_points := np\<rparr>"

text \<open>\<^verbatim>\<open>StFlow::resize\<close>. The request \<^verbatim>\<open>m_points-1\<close> for \<^verbatim>\<open>m_dz\<close> is computed in
  \<^verbatim>\<open>size_t\<close>; a request beyond \<^verbatim>\<open>max_size()\<close> makes \<^verbatim>\<open>std::vector::resize\<close> throw.
  Every other allocation is assumed to succeed.\<close>

definition resize :: "nat \<Rightarrow> nat \<Rightarrow> flow \<Rightarrow> error + flow" where
  "resize ncomponents points s0 =
    (let s = Domain1D_resize ncomponents points s0;
         p = m_points s;
         s = s\<lparr>m_rho := vresize p 0 (m_rho s),
               m_wtm := vresize p 0 (m_wtm s),
               m_cp := vresize p 0 (m_cp s),
               m_visc := vresize p 0 (m_visc s),
               m_tcon := vresize p 0 (m_tcon s)\<rparr>;
         s = (if m_transport_option s = c_Mixav_Transport
              then s\<lparr>m_diff := vresize (m_nsp s * p) 0 (m_diff s)\<rparr>
              else s\<lparr>m_multidiff := vresize (m_nsp s * m_nsp s * p) 0 (m_multidiff s),
                     m_diff := vresize (m_nsp s * p) 0 (m_diff s),
                     m_dthermal := vresize (m_nsp s * p) 0 (m_dthermal s)\<rparr>);
         s = s\<lparr>m_flux := vresize (m_nsp s * p) 0 (m_flux s),
               m_wdot := vresize (m_nsp s * p) 0 (m_wdot s),
               m_do_energy := vresize p False (m_do_energy s),
               m_qdotRadiation := vresize p 0 (m_qdotRadiation s),
               m_fixedtemp := vresize p 0 (m_fixedtemp s)\<rparr>
     in if size_sub p 1 > vector_max_size then Inl StdLengthError
        else Inr (s\<lparr>m_dz := vresize (size_sub p 1) 0 (m_dz s),
                    m_z := vresize p 0 (m_z s)\<rparr>))"

text \<open>The loop of \<^verbatim>\<open>StFlow::setupGrid\<close> over \<open>j = 1, ..., m_points - 1\<close>, given as the
  list of the indices still to visit.\<close>

fun setupGrid_loop :: "real list \<Rightarrow> nat list \<Rightarrow> flow \<Rightarrow> error + flow" where
  "setupGrid_loop z [] s = Inr s"
| "setupGrid_loop z (j # js) s =
    (if z ! j \<le> z ! (j - 1)
     then Inl (CanteraError ''StFlow::setupGrid''
                 ''grid points must be monotonically increasing'')
     else (let s = s\<lparr>m_z := (m_z s)[j := z ! j]\<rparr>;
               s = s\<lparr>m_dz := (m_dz s)[j - 1 := m_z s ! j - m_z s ! (j - 1)]\<rparr>
           in setupGrid_loop z js s))"

definition setupGrid :: "nat \<Rightarrow> real list \<Rightarrow> flow \<Rightarrow> error + flow" where
  "setupGrid n z s0 =
    (case resize (m_nv s0) n s0 of
       Inl e \<Rightarrow> Inl e
     | Inr s \<Rightarrow> setupGrid_loop z [1..<m_points s] (s\<lparr>m_z := (m_z s)[0 := z ! 0]\<rparr>))"

section \<open>Finalisation and the flame anchor\<close>

text \<open>The constant \<^verbatim>\<open>Undef\<close> is declared in a header that is not part of the sources
  (\<^verbatim>\<open>ct_defs.h\<close>); it marks an anchor that has not been set.\<close>

definition Undef :: real where
  "Undef = - 999.1234"

text \<open>Modelled from the spec: \<^verbatim>\<open>solveEnergyEqn\<close> is defined in the header. Called
  without a point, it enables the energy equation at every grid point.\<close>

definition solveEnergyEqn :: "flow \<Rightarrow> flow" where
  "solveEnergyEqn s =
     s\<lparr>m_do_energy := fold (\<lambda>i l. l[i := True]) [0..<m_points s] (m_do_energy s)\<rparr>"

text \<open>\<^verbatim>\<open>StFlow::_finalize\<close>; \<open>fixedtemp_at\<close> is the body of its loop over the grid
  points.\<close>

definition fixedtemp_at :: "env \<Rightarrow> real list \<Rightarrow> bool \<Rightarrow> nat \<Rightarrow> nat \<Rightarrow> flow \<Rightarrow> flow" where
  "fixedtemp_at E x e nz j s =
     (if e \<or> nz = 0
      then s\<lparr>m_fixedtemp := (m_fixedtemp s)[j := T s x j]\<rparr>
      else (let zz = (grid s j - grid s 0)
                      / (grid s (size_sub (m_points s) 1) - grid s 0);
                tt = hd_linearInterp E zz (m_zfix s) (m_tfix s)
            in s\<lparr>m_fixedtemp := (m_fixedtemp s)[j := tt]\<rparr>))"

definition StFlow_finalize :: "env \<Rightarrow> real list \<Rightarrow> flow \<Rightarrow> flow" where
  "StFlow_finalize E x s0 =
     (let nz = length (m_zfix s0);
          e = m_do_energy s0 ! 0;
          s = fold (fixedtemp_at E x e nz) [0..<m_points s0] s0
      in if e then solveEnergyEqn s else s)"

text \<open>The two loops of \<^verbatim>\<open>FreeFlame::_finalize\<close>, over the indices still to visit: the
  first tells whether a grid point lies at the anchor coordinate, the second relocates
  the anchor at the first interval where the profile crosses the anchor temperature.\<close>

fun anchor_on_grid :: "flow \<Rightarrow> nat list \<Rightarrow> bool" where
  "anchor_on_grid s [] = False"
| "anchor_on_grid s (j # js) = (if grid s j = m_zfixed s then True else anchor_on_grid s js)"

fun relocate_anchor :: "real list \<Rightarrow> nat list \<Rightarrow> flow \<Rightarrow> flow" where
  "relocate_anchor x [] s = s"
| "relocate_anchor x (j # js) s =
     (if (T s x j - m_tfixed s) * (T s x (j + 1) - m_tfixed s) \<le> 0.0
      then s\<lparr>m_tfixed := T s x (j + 1), m_zfixed := grid s (j + 1)\<rparr>
      else relocate_anchor x js s)"

definition FreeFlame_finalize :: "env \<Rightarrow> real list \<Rightarrow> flow \<Rightarrow> flow" where
  "FreeFlame_finalize E x s0 =
     (let s = StFlow_finalize E x s0
      in if m_tfixed s \<noteq> Undef
         then (if anchor_on_grid s [0..<m_points s] then s
               else relocate_anchor x [0..<size_sub (m_points s) 1] s)
         else s)"

section \<open>The porous solid subsolver\<close>

text \<open>
  \<^verbatim>\<open>PorousFlow::solid\<close>. Its arguments \<^verbatim>\<open>hconv\<close>, \<^verbatim>\<open>scond\<close>, \<^verbatim>\<open>RK\<close>, \<^verbatim>\<open>Omega\<close>,
  \<^verbatim>\<open>srho\<close>, \<^verbatim>\<open>sCp\<close> are written \<open>hc\<close>, \<open>sc\<close>, \<open>rk\<close>, \<open>om\<close>, \<open>rho_s\<close>, \<open>cp_s\<close>, since
  some of these names are also members of the class. The local vectors have
  \<^verbatim>\<open>length = m_points\<close> entries.

  \<open>vec_upd n f v\<close> is a loop \<^verbatim>\<open>for (i = 0; i <= n-1; i++) v[i] = f(i, v[i])\<close>.
\<close>

definition vec_upd :: "nat \<Rightarrow> (nat \<Rightarrow> 'a \<Rightarrow> 'a) \<Rightarrow> 'a list \<Rightarrow> 'a list" where
  "vec_upd n f v = fold (\<lambda>i l. l[i := f i (l ! i)]) [0..<n] v"

definition sigma :: real where
  "sigma = 5.67 / 10 ^ 8"

text \<open>The coefficients \<^verbatim>\<open>edia[i]\<close>, \<^verbatim>\<open>fdia[i]\<close>, \<^verbatim>\<open>gdia[i]\<close>, \<^verbatim>\<open>rhs[i]\<close> that the
  population loop stores for row \<open>i\<close> of the tridiagonal system.\<close>

definition tri_row ::
  "flow \<Rightarrow> real list \<Rightarrow> real list \<Rightarrow> real list \<Rightarrow> real \<Rightarrow> real \<Rightarrow> real \<Rightarrow> nat
     \<Rightarrow> real \<times> real \<times> real \<times> real" where
  "tri_row s x hc sc rho_s cp_s rdt i =
     (if i = 0 then (0, 1, - 1, 0)
      else if i = m_points s - 1 then (- 1, 1, 0, 0)
      else ((2 * sc ! i) / ((grid s i - grid s (i - 1)) * (grid s (i + 1) - grid s (i - 1))),
            - (2 * sc ! i) / ((grid s (i + 1) - grid s i) * (grid s (i + 1) - grid s (i - 1)))
              - (2 * sc ! i) / ((grid s i - grid s (i - 1)) * (grid s (i + 1) - grid s (i - 1)))
              - hc ! i - rho_s * cp_s * rdt,
            (2 * sc ! i) / ((grid s (i + 1) - grid s i) * (grid s (i + 1) - grid s (i - 1))),
            - hc ! i * T s x i + dq s ! i - rho_s * cp_s * rdt * Twprev s ! i))"

definition tri_edia ::
  "flow \<Rightarrow> real list \<Rightarrow> real list \<Rightarrow> real list \<Rightarrow> real \<Rightarrow> real \<Rightarrow> real \<Rightarrow> real list" where
  "tri_edia s x hc sc rho_s cp_s rdt =
     map (\<lambda>i. fst (tri_row s x hc sc rho_s cp_s rdt i)) [0..<m_points s]"

definition tri_fdia ::
  "flow \<Rightarrow> real list \<Rightarrow> real list \<Rightarrow> real list \<Rightarrow> real \<Rightarrow> real \<Rightarrow> real \<Rightarrow> real list" where
  "tri_fdia s x hc sc rho_s cp_s rdt =
     map (\<lambda>i. fst (snd (tri_row s x hc sc rho_s cp_s rdt i))) [0..<m_points s]"

definition tri_gdia ::
  "flow \<Rightarrow> real list \<Rightarrow> real list \<Rightarrow> real list \<Rightarrow> real \<Rightarrow> real \<Rightarrow> real \<Rightarrow> real list" where
  "tri_gdia s x hc sc rho_s cp_s rdt =
     map (\<lambda>i. fst (snd (snd (tri_row s x hc sc rho_s cp_s rdt i)))) [0..<m_points s]"

definition tri_rhs ::
  "flow \<Rightarrow> real list \<Rightarrow> real list \<Rightarrow> real list \<Rightarrow> real \<Rightarrow> real \<Rightarrow> real \<Rightarrow> real list" where
  "tri_rhs s x hc sc rho_s cp_s rdt =
     map (\<lambda>i. snd (snd (snd (tri_row s x hc sc rho_s cp_s rdt i)))) [0..<m_points s]"

text \<open>Decomposition, forward substitution and back substitution.\<close>

definition tri_decomp :: "nat \<Rightarrow> real list \<Rightarrow> real list \<Rightarrow> real list \<Rightarrow> real list \<times> real list" where
  "tri_decomp n edia fdia gdia =
     fold (\<lambda>i (e, f). (let e = e[i := e ! i / f ! (i - 1)];
                           f = f[i := f ! i - e ! i * gdia ! (i - 1)]
                       in (e, f)))
       [1..<n] (edia, fdia)"

definition tri_forward :: "nat \<Rightarrow> real list \<Rightarrow> real list \<Rightarrow> real list" where
  "tri_forward n edia rhs = fold (\<lambda>i r. r[i := r ! i - edia ! i * r ! (i - 1)]) [1..<n] rhs"

definition tri_back :: "nat \<Rightarrow> real list \<Rightarrow> real list \<Rightarrow> real list \<Rightarrow> real list \<Rightarrow> real list" where
  "tri_back n fdia gdia rhs tw =
     fold (\<lambda>i t. t[i := (rhs ! i - gdia ! i * t ! (i + 1)) / fdia ! i])
       (rev [0..<n - 1]) (tw[n - 1 := rhs ! (n - 1) / fdia ! (n - 1)])"

text \<open>The solid temperature field after building and solving the tridiagonal system.\<close>

definition solid_conduction ::
  "flow \<Rightarrow> real list \<Rightarrow> real list \<Rightarrow> real list \<Rightarrow> real \<Rightarrow> real \<Rightarrow> real \<Rightarrow> real list" where
  "solid_conduction s x hc sc rho_s cp_s rdt =
     (let n = m_points s;
          gdia = tri_gdia s x hc sc rho_s cp_s rdt;
          (edia, fdia) = tri_decomp n (tri_edia s x hc sc rho_s cp_s rdt)
                           (tri_fdia s x hc sc rho_s cp_s rdt) gdia;
          rhs = tri_forward n edia (tri_rhs s x hc sc rho_s cp_s rdt)
      in tri_back n fdia gdia rhs (Tw s))"

text \<open>The two-flux radiative transfer: the initial intensities, the forward and the
  backward sweep, and the iteration. One call of \<open>s2_loop\<close> is one execution of the body
  of the inner \<^verbatim>\<open>while\<close> loop followed by the test of its condition; the loop is entered
  with \<^verbatim>\<open>change2 = 1\<close>. At the head of the body \<^verbatim>\<open>qpnew\<close> equals \<^verbatim>\<open>qplus\<close> and
  \<^verbatim>\<open>qmnew\<close> equals \<^verbatim>\<open>qminus\<close> (by the initialisation, and by the copy that ends the
  body), so the iteration carries one pair of vectors. The result is \<^verbatim>\<open>qplus\<close>, \<^verbatim>\<open>qminus\<close> and whether \<^verbatim>\<open>fail\<close> was
  set.\<close>

definition s2_qp_init :: "flow \<Rightarrow> real list \<Rightarrow> real list" where
  "s2_qp_init s x =
     map (\<lambda>i. if i = 0 then sigma * (T s x 0) ^ 4 else 0) [0..<m_points s]"

definition s2_qm_init :: "flow \<Rightarrow> real list \<Rightarrow> real list" where
  "s2_qm_init s x =
     map (\<lambda>i. if i = 0 then 0
              else if i = m_points s - 1 then sigma * (T s x 0) ^ 4 else 0) [0..<m_points s]"

definition s2_forward ::
  "flow \<Rightarrow> real list \<Rightarrow> real list \<Rightarrow> real list \<Rightarrow> real list \<Rightarrow> real list \<Rightarrow> real list" where
  "s2_forward s rk om tw qminus qpnew =
     fold (\<lambda>i qp. qp[i := (qp ! (i - 1)
                            + rk ! i * (grid s i - grid s (i - 1)) * om ! i * qminus ! i
                            + 2 * rk ! i * (grid s i - grid s (i - 1)) * (1 - om ! i)
                                * sigma * (tw ! i) ^ 4)
                           / (1 + (grid s i - grid s (i - 1)) * rk ! i * (2 - om ! i))])
       [1..<m_points s] qpnew"

definition s2_backward ::
  "flow \<Rightarrow> real list \<Rightarrow> real list \<Rightarrow> real list \<Rightarrow> real list \<Rightarrow> real list \<Rightarrow> real list" where
  "s2_backward s rk om tw qpnew qmnew =
     fold (\<lambda>i qm. qm[i := (qm ! (i + 1)
                            + rk ! i * (grid s (i + 1) - grid s i) * om ! i * qpnew ! i
                            + 2 * rk ! i * (grid s (i + 1) - grid s i) * (1 - om ! i)
                                * sigma * (tw ! i) ^ 4)
                           / (1 + (grid s (i + 1) - grid s i) * rk ! i * (2 - om ! i))])
       (rev [0..<m_points s - 1]) qmnew"

definition sq_dist :: "nat \<Rightarrow> real list \<Rightarrow> real list \<Rightarrow> real" where
  "sq_dist n a b = (\<Sum>i\<leftarrow>[0..<n]. (a ! i - b ! i) * (a ! i - b ! i))"

function s2_loop ::
  "flow \<Rightarrow> real list \<Rightarrow> real list \<Rightarrow> real list \<Rightarrow> nat \<Rightarrow> real list \<Rightarrow> real list
     \<Rightarrow> real list \<times> real list \<times> bool" where
  "s2_loop s rk om tw count qplus qminus =
     (let count = count + 1;
          qpnew = s2_forward s rk om tw qminus qplus;
          qmnew = s2_backward s rk om tw qpnew qminus;
          norm1 = sqrt (sq_dist (m_points s) qpnew qplus);
          norm2 = sqrt (sq_dist (m_points s) qmnew qminus)
      in if count > 100 then (qpnew, qmnew, True)
         else if max norm1 norm2 > 0.000001 then s2_loop s rk om tw count qpnew qmnew
         else (qpnew, qmnew, False))"
  by pat_completeness auto
termination
  by (relation "measure (\<lambda>(s, rk, om, tw, count, qplus, qminus). 101 - count)") auto

declare s2_loop.simps [simp del]

text \<open>One pass of the outer loop: the conduction solve, the radiative iteration, the
  new net flux \<^verbatim>\<open>dqnew\<close>, and the relaxation of \<^verbatim>\<open>dq\<close> with \<^verbatim>\<open>a = 0.1\<close>. The result
  is the state, the sum of squares \<^verbatim>\<open>norm\<close>, and whether the radiative iteration
  stalled.\<close>

definition solid_pass ::
  "real list \<Rightarrow> real list \<Rightarrow> real list \<Rightarrow> real list \<Rightarrow> real list \<Rightarrow> real \<Rightarrow> real \<Rightarrow> real
     \<Rightarrow> flow \<Rightarrow> flow \<times> real \<times> bool" where
  "solid_pass x hc sc rk om rho_s cp_s rdt s =
     (let n = m_points s;
          tw = solid_conduction s x hc sc rho_s cp_s rdt;
          (qplus, qminus, fail) = s2_loop s rk om tw 0 (s2_qp_init s x) (s2_qm_init s x);
          dqnew = (if fail then map (\<lambda>i. dq s ! i) [0..<n]
                   else map (\<lambda>i. 4 * rk ! i * (1 - om ! i)
                                   * (sigma * (tw ! i) ^ 4 - 0.5 * qplus ! i - 0.5 * qminus ! i))
                          [0..<n]);
          a = 0.1
      in (s\<lparr>Tw := tw,
            dq := vec_upd n (\<lambda>i d. a * dqnew ! i + (1 - a) * d) (dq s),
            logged := (if fail then logged s @ [''Rad Stall''] else logged s)\<rparr>,
          sq_dist n dqnew (dq s), fail))"

text \<open>The outer loop, entered with \<^verbatim>\<open>change1 = 1\<close>: one call is one pass followed by
  the test of the condition. The result is the state and whether \<^verbatim>\<open>fail1\<close> was set.\<close>

function solid_loop ::
  "real list \<Rightarrow> real list \<Rightarrow> real list \<Rightarrow> real list \<Rightarrow> real list \<Rightarrow> real \<Rightarrow> real \<Rightarrow> real
     \<Rightarrow> nat \<Rightarrow> flow \<Rightarrow> flow \<times> bool" where
  "solid_loop x hc sc rk om rho_s cp_s rdt count1 s =
     (let count1 = count1 + 1;
          (s', nrm, stalled) = solid_pass x hc sc rk om rho_s cp_s rdt s
      in if count1 > 400 then (s', True)
         else if sqrt nrm > 0.000001 then solid_loop x hc sc rk om rho_s cp_s rdt count1 s'
         else (s', False))"
  by pat_completeness auto
termination
  by (relation "measure (\<lambda>(x, hc, sc, rk, om, rho_s, cp_s, rdt, count1, s). 401 - count1)")
     auto

declare solid_loop.simps [simp del]

definition solid ::
  "real list \<Rightarrow> real list \<Rightarrow> real list \<Rightarrow> real list \<Rightarrow> real list \<Rightarrow> real \<Rightarrow> real \<Rightarrow> real
     \<Rightarrow> flow \<Rightarrow> flow" where
  "solid x hc sc rk om rho_s cp_s rdt s0 =
     (let n = m_points s0;
          s = s0\<lparr>Twprev := Tw s0, dq := vec_upd n (\<lambda>i d. 0) (dq s0)\<rparr>;
          (s, fail1) = solid_loop x hc sc rk om rho_s cp_s rdt 0 s;
          s = (if fail1
               then s\<lparr>Tw := vec_upd n (\<lambda>i t. Twprev s ! i) (Tw s),
                      logged := logged s @ [''Rad not Converged'']\<rparr>
               else s)
      in s\<lparr>m_refine_extra := Tw s\<rparr>)"


section \<open>The residual engine\<close>

text \<open>
  The residual and flag buffers belong to the caller; the domain writes at the offset
  \<^verbatim>\<open>loc()\<close>. The assignments of a row are collected in the order in which the source
  performs them, as pairs of a local position and a value, and applied to the buffer by
  \<open>apply_writes\<close>. Where the source builds a value by compound assignments to the same
  entry, the pair holds the final value. The solution array is not written.
\<close>

type_synonym 'a writes = "(nat \<times> 'a) list"

definition apply_writes :: "nat \<Rightarrow> 'a writes \<Rightarrow> 'a list \<Rightarrow> 'a list" where
  "apply_writes off ws l = fold (\<lambda>(i, v) l. l[off + i := v]) ws l"

text \<open>The dynamic type of the domain decides which continuity and right-boundary
  rows \<^verbatim>\<open>StFlow::eval\<close> calls.\<close>

datatype flow_kind = AxiStagnFlow | FreeFlame

text \<open>Modelled from the spec: \<^verbatim>\<open>getWdot\<close> and \<^verbatim>\<open>wdot\<close> are defined in the header. The
  first sets the gas state of point \<open>j\<close> and stores the net production rates in column
  \<open>j\<close> of \<^verbatim>\<open>m_wdot\<close>; the second reads an entry.\<close>

definition getWdot :: "env \<Rightarrow> real list \<Rightarrow> nat \<Rightarrow> flow \<Rightarrow> flow" where
  "getWdot E x j s0 =
     (let s = setGas x j s0
      in s\<lparr>m_wdot := write_block (aidx s 0 j) (m_nsp s)
                         (kin_netProductionRates E (m_thermo s)) (m_wdot s)\<rparr>)"

definition wdot :: "flow \<Rightarrow> nat \<Rightarrow> nat \<Rightarrow> real" where
  "wdot s k j = m_wdot s ! aidx s k j"

subsection \<open>Boundary and continuity rows\<close>

definition evalLeftBoundary :: "flow \<Rightarrow> real list \<Rightarrow> real writes" where
  "evalLeftBoundary s x =
     [(index s c_offset_U 0,
         - (rho_u s x 1 - rho_u s x 0) / m_dz s ! 0
         - (density s 1 * V s x 1 + density s 0 * V s x 0)),
      (index s c_offset_V 0, V s x 0),
      (index s c_offset_T 0, T s x 0),
      (index s c_offset_L 0, - rho_u s x 0)]
     @ map (\<lambda>k. (index s (c_offset_Y + k) 0,
                   - (m_flux s ! aidx s k 0 + rho_u s x 0 * Y s x k 0))) [0..<m_nsp s]
     @ [(index s c_offset_Y 0, 1.0 - (\<Sum>k\<leftarrow>[0..<m_nsp s]. Y s x k 0))]"

definition AxiStagnFlow_evalRightBoundary :: "flow \<Rightarrow> real list \<Rightarrow> real writes \<times> int writes" where
  "AxiStagnFlow_evalRightBoundary s x =
     (let j = size_sub (m_points s) 1
      in ([(index s 0 j, rho_u s x j),
           (index s 1 j, V s x j),
           (index s 2 j, T s x j),
           (index s c_offset_L j, lambda s x j - lambda s x (j - 1))]
          @ map (\<lambda>k. (index s (k + 4) j,
                        m_flux s ! aidx s k (j - 1) + rho_u s x j * Y s x k j)) [0..<m_nsp s]
          @ [(index s 4 j, 1.0 - (\<Sum>k\<leftarrow>[0..<m_nsp s]. Y s x k j))],
          [(index s c_offset_L j, 0), (index s 4 j, 0)]))"

definition FreeFlame_evalRightBoundary :: "flow \<Rightarrow> real list \<Rightarrow> real writes \<times> int writes" where
  "FreeFlame_evalRightBoundary s x =
     (let j = size_sub (m_points s) 1
      in ([(index s 0 j, rho_u s x j - rho_u s x (j - 1)),
           (index s 1 j, V s x j),
           (index s 2 j, T s x j - T s x (j - 1)),
           (index s c_offset_L j, lambda s x j - lambda s x (j - 1))]
          @ map (\<lambda>k. (index s (k + 4) j,
                        m_flux s ! aidx s k (j - 1) + rho_u s x j * Y s x k j)) [0..<m_nsp s]
          @ [(index s 4 j, 1.0 - (\<Sum>k\<leftarrow>[0..<m_nsp s]. Y s x k j))],
          [(index s c_offset_L j, 0), (index s 4 j, 0)]))"

definition evalRightBoundary :: "flow_kind \<Rightarrow> flow \<Rightarrow> real list \<Rightarrow> real writes \<times> int writes" where
  "evalRightBoundary kind s x =
     (case kind of AxiStagnFlow \<Rightarrow> AxiStagnFlow_evalRightBoundary s x
                 | FreeFlame \<Rightarrow> FreeFlame_evalRightBoundary s x)"

definition AxiStagnFlow_evalContinuity ::
  "flow \<Rightarrow> real list \<Rightarrow> nat \<Rightarrow> real writes \<times> int writes" where
  "AxiStagnFlow_evalContinuity s x j =
     ([(index s c_offset_U j,
          - (rho_u s x (j + 1) - rho_u s x j) / m_dz s ! j
          - (density s (j + 1) * V s x (j + 1) + density s j * V s x j))],
      [(index s c_offset_U j, 0)])"

definition FreeFlame_evalContinuity ::
  "flow \<Rightarrow> real list \<Rightarrow> nat \<Rightarrow> real writes \<times> int writes" where
  "FreeFlame_evalContinuity s x j =
     ((if grid s j > m_zfixed s
       then [(index s c_offset_U j,
                - (rho_u s x j - rho_u s x (j - 1)) / m_dz s ! (j - 1)
                - (density s (j - 1) * V s x (j - 1) + density s j * V s x j))]
       else if grid s j = m_zfixed s
       then (if m_do_energy s ! j
             then [(index s c_offset_U j, T s x j - m_tfixed s)]
             else [(index s c_offset_U j, rho_u s x j - m_rho s ! 0 * 0.3)])
       else if grid s j < m_zfixed s
       then [(index s c_offset_U j,
                - (rho_u s x (j + 1) - rho_u s x j) / m_dz s ! j
                - (density s (j + 1) * V s x (j + 1) + density s j * V s x j))]
       else []),
      [(index s c_offset_U j, 0)])"

definition evalContinuity ::
  "flow_kind \<Rightarrow> flow \<Rightarrow> real list \<Rightarrow> nat \<Rightarrow> real writes \<times> int writes" where
  "evalContinuity kind s x j =
     (case kind of AxiStagnFlow \<Rightarrow> AxiStagnFlow_evalContinuity s x j
                 | FreeFlame \<Rightarrow> FreeFlame_evalContinuity s x j)"

subsection \<open>Interior rows of \<^verbatim>\<open>StFlow::eval\<close>\<close>

definition momentum_row :: "env \<Rightarrow> real list \<Rightarrow> real \<Rightarrow> nat \<Rightarrow> flow \<Rightarrow> nat \<times> real" where
  "momentum_row E x rdt j s =
     (index s c_offset_V j,
      (hd_shear E s x j - lambda s x j - rho_u s x j * hd_dVdz E s x j
         - m_rho s ! j * V s x j * V s x j) / m_rho s ! j
      - rdt * (V s x j - hd_V_prev E s j))"

definition species_rows :: "env \<Rightarrow> real list \<Rightarrow> real \<Rightarrow> nat \<Rightarrow> flow \<Rightarrow> real writes" where
  "species_rows E x rdt j s =
     map (\<lambda>k. (let convec = rho_u s x j * hd_dYdz E s x k j;
                    diffus = 2.0 * (m_flux s ! aidx s k j - m_flux s ! aidx s k (j - 1))
                               / (grid s (j + 1) - grid s (j - 1))
                in (index s (c_offset_Y + k) j,
                    (m_wt s ! k * wdot s k j - convec - diffus) / m_rho s ! j
                    - rdt * (Y s x k j - hd_Y_prev E s k j))))
       [0..<m_nsp s]"

definition species_flags :: "nat \<Rightarrow> flow \<Rightarrow> int writes" where
  "species_flags j s = map (\<lambda>k. (index s (c_offset_Y + k) j, 1)) [0..<m_nsp s]"

text \<open>The energy row: the state after \<^verbatim>\<open>setGas\<close> (when the energy equation is enabled
  at the point), the residual entry and the flag entry.\<close>

definition energy_row ::
  "env \<Rightarrow> real list \<Rightarrow> real \<Rightarrow> nat \<Rightarrow> flow \<Rightarrow> flow \<times> (nat \<times> real) \<times> (nat \<times> int)" where
  "energy_row E x rdt j s0 =
     (if m_do_energy s0 ! j
      then (let s = setGas x j s0;
                h_RT = th_enthalpy_RT_ref E (m_thermo s);
                cp_R = th_cp_R_ref E (m_thermo s);
                sum1 = (\<Sum>k\<leftarrow>[0..<m_nsp s]. wdot s k j * h_RT ! k)
                         * (c_GasConstant E * T s x j);
                dtdzj = hd_dTdz E s x j;
                sum2 = (\<Sum>k\<leftarrow>[0..<m_nsp s].
                          0.5 * (m_flux s ! aidx s k (j - 1) + m_flux s ! aidx s k j)
                            * cp_R ! k / m_wt s ! k)
                         * (c_GasConstant E * dtdzj)
            in (s,
                (index s c_offset_T j,
                 (- m_cp s ! j * rho_u s x j * dtdzj - hd_divHeatFlux E s x j - sum1 - sum2)
                    / (m_rho s ! j * m_cp s ! j)
                 - rdt * (T s x j - hd_T_prev E s j)
                 - m_qdotRadiation s ! j / (m_rho s ! j * m_cp s ! j)),
                (index s c_offset_T j, 1)))
      else (s0, (index s0 c_offset_T j, T s0 x j - T_fixed s0 j), (index s0 c_offset_T j, 0)))"

definition interior_rows ::
  "env \<Rightarrow> flow_kind \<Rightarrow> real list \<Rightarrow> real \<Rightarrow> nat \<Rightarrow> flow \<Rightarrow> flow \<times> real writes \<times> int writes" where
  "interior_rows E kind x rdt j s0 =
     (let (cr, cd) = evalContinuity kind s0 x j;
          vr = momentum_row E x rdt j s0;
          s1 = getWdot E x j s0;
          (s2, er, ed) = energy_row E x rdt j s1
      in (s2,
          cr @ [vr] @ species_rows E x rdt j s1 @ [er]
             @ [(index s2 c_offset_L j, lambda s2 x j - lambda s2 x (j - 1))],
          cd @ [(index s0 c_offset_V j, 1)] @ species_flags j s1 @ [ed]
             @ [(index s2 c_offset_L j, 0)]))"

text \<open>The body of the loop over the points \<open>jmin, ..., jmax\<close>.\<close>

definition eval_point ::
  "env \<Rightarrow> flow_kind \<Rightarrow> real list \<Rightarrow> real \<Rightarrow> nat \<Rightarrow> flow \<times> real list \<times> int list
     \<Rightarrow> flow \<times> real list \<times> int list" where
  "eval_point E kind x rdt j = (\<lambda>(s, rg, diagg).
     if j = 0
     then (s, apply_writes (loc s) (evalLeftBoundary s x) rg, diagg)
     else if j = size_sub (m_points s) 1
     then (let (rw, dw) = evalRightBoundary kind s x
           in (s, apply_writes (loc s) rw rg, apply_writes (loc s) dw diagg))
     else (let (s', rw, dw) = interior_rows E kind x rdt j s
           in (s', apply_writes (loc s) rw rg, apply_writes (loc s) dw diagg)))"

subsection \<open>The radiation sink\<close>

definition c_H2O :: "real list" where
  "c_H2O = [- 0.23093, - 1.12390, 9.41530, - 2.99880, 0.51382, - 1.86840 / 10 ^ 5]"

definition c_CO2 :: "real list" where
  "c_CO2 = [18.741, - 121.310, 273.500, - 194.050, 56.310, - 5.8169]"

definition radiative_heat_loss :: "env \<Rightarrow> real list \<Rightarrow> flow \<Rightarrow> nat \<Rightarrow> real" where
  "radiative_heat_loss E x s j =
     (let k_P_ref = 1.0 * c_OneAtm E;
          boundary_Rad_left = m_epsilon_left s * c_StefanBoltz E * (T s x 0) ^ 4;
          boundary_Rad_right = m_epsilon_right s * c_StefanBoltz E
                                 * (T s x (size_sub (m_points s) 1)) ^ 4;
          k_P = 0;
          k_P = (if m_kRadiating s ! 1 \<noteq> npos
                 then k_P + m_press s * X s x (m_kRadiating s ! 1) j
                        * ((\<Sum>n\<leftarrow>[0..<6]. c_H2O ! n * (1000 / T s x j) ^ n) / k_P_ref)
                 else k_P);
          k_P = (if m_kRadiating s ! 0 \<noteq> npos
                 then k_P + m_press s * X s x (m_kRadiating s ! 0) j
                        * ((\<Sum>n\<leftarrow>[0..<6]. c_CO2 ! n * (1000 / T s x j) ^ n) / k_P_ref)
                 else k_P)
      in 2 * k_P * (2 * c_StefanBoltz E * (T s x j) ^ 4
                     - boundary_Rad_left - boundary_Rad_right))"

definition update_radiation :: "env \<Rightarrow> real list \<Rightarrow> nat \<Rightarrow> nat \<Rightarrow> flow \<Rightarrow> flow" where
  "update_radiation E x jmin jmax s =
     (if m_do_radiation s
      then s\<lparr>m_qdotRadiation :=
               fold (\<lambda>j q. q[j := radiative_heat_loss E x s j]) [jmin..<jmax] (m_qdotRadiation s)\<rparr>
      else s)"

subsection \<open>\<^verbatim>\<open>StFlow::eval\<close>\<close>

definition size_add :: "nat \<Rightarrow> nat \<Rightarrow> nat" where
  "size_add a b = (a + b) mod size_t_mod"

text \<open>The test that ends a Jacobian evaluation for a global point outside the domain of
  influence of this domain.\<close>

definition outside_influence :: "flow \<Rightarrow> nat \<Rightarrow> bool" where
  "outside_influence s jg \<longleftrightarrow>
     jg \<noteq> npos \<and> (size_add jg 1 < firstPoint s \<or> jg > size_add (lastPoint s) 1)"

text \<open>The points \<open>jmin, jmax\<close> at which residuals are evaluated and the points
  \<open>j0, j1\<close> between which properties are computed.\<close>

definition eval_jmin :: "flow \<Rightarrow> nat \<Rightarrow> nat" where
  "eval_jmin s jg =
     (if jg = npos then 0
      else (let jpt = (if jg = 0 then 0 else size_sub jg (firstPoint s))
            in max jpt 1 - 1))"

definition eval_jmax :: "flow \<Rightarrow> nat \<Rightarrow> nat" where
  "eval_jmax s jg =
     (if jg = npos then size_sub (m_points s) 1
      else (let jpt = (if jg = 0 then 0 else size_sub jg (firstPoint s))
            in min (jpt + 1) (size_sub (m_points s) 1)))"

definition eval_j0 :: "flow \<Rightarrow> nat \<Rightarrow> nat" where
  "eval_j0 s jg = max (eval_jmin s jg) 1 - 1"

definition eval_j1 :: "flow \<Rightarrow> nat \<Rightarrow> nat" where
  "eval_j1 s jg = min (eval_jmax s jg + 1) (size_sub (m_points s) 1)"

text \<open>The update of the property cache and of the diffusive fluxes at the head of
  \<^verbatim>\<open>eval\<close>.\<close>

definition update_properties :: "env \<Rightarrow> nat \<Rightarrow> real list \<Rightarrow> flow \<Rightarrow> error + flow" where
  "update_properties E jg x s0 =
     (let j0 = eval_j0 s0 jg;
          j1 = eval_j1 s0 jg;
          s = updateThermo E x j0 j1 s0;
          s = (if jg = npos then updateTransport E x j0 j1 s else s)
      in updateDiffFluxes x j0 j1 s)"

definition StFlow_eval ::
  "env \<Rightarrow> flow_kind \<Rightarrow> nat \<Rightarrow> real list \<Rightarrow> real list \<Rightarrow> int list \<Rightarrow> real \<Rightarrow> flow
     \<Rightarrow> error + flow \<times> real list \<times> int list" where
  "StFlow_eval E kind jg xg rg diagg rdt0 s0 =
     (if outside_influence s0 jg then Inr (s0, rg, diagg)
      else (let rdt = (if jg \<noteq> npos then 0.0 else rdt0);
                x = drop (loc s0) xg;
                jmin = eval_jmin s0 jg;
                jmax = eval_jmax s0 jg
            in case update_properties E jg x s0 of
                 Inl e \<Rightarrow> Inl e
               | Inr s \<Rightarrow>
                   Inr (fold (eval_point E kind x rdt) [jmin..<jmax + 1]
                          (update_radiation E x jmin jmax s, rg, diagg))))"

subsection \<open>\<^verbatim>\<open>PorousFlow::eval\<close>\<close>

text \<open>The porosity and pore-diameter profiles, and the quantities derived from them
  point by point. The vectors are resized to the point count and then every entry is
  assigned.\<close>

definition porous_pore :: "flow \<Rightarrow> nat \<Rightarrow> real" where
  "porous_pore s i =
     (if grid s i < m_zmid s - m_dzmid s then pore1 s
      else if grid s i > m_zmid s + m_dzmid s then pore2 s
      else (((pore2 s - pore1 s) / (2 * m_dzmid s)) * (grid s i - (m_zmid s - m_dzmid s)))
             + pore1 s)"

definition porous_diam :: "flow \<Rightarrow> nat \<Rightarrow> real" where
  "porous_diam s i =
     (if grid s i < m_zmid s - m_dzmid s then diam1 s
      else if grid s i > m_zmid s + m_dzmid s then diam2 s
      else (((diam2 s - diam1 s) / (2 * m_dzmid s)) * (grid s i - (m_zmid s - m_dzmid s)))
             + diam1 s)"

definition porous_profiles :: "flow \<Rightarrow> flow" where
  "porous_profiles s =
     s\<lparr>hconv := vresize (m_points s) 0 (hconv s),
       pore := map (porous_pore s) [0..<m_points s],
       diam := map (porous_diam s) [0..<m_points s],
       scond := map (\<lambda>i. 0.188 - 17.5 * porous_diam s i) [0..<m_points s]\<rparr>"

definition porous_RK :: "flow \<Rightarrow> real list" where
  "porous_RK s = map (\<lambda>i. 3 * (1 - pore s ! i) / diam s ! i) [0..<m_points s]"

definition porous_Cmult :: "flow \<Rightarrow> real list" where
  "porous_Cmult s = map (\<lambda>i. - 400 * diam s ! i + 0.687) [0..<m_points s]"

definition porous_mpow :: "flow \<Rightarrow> real list" where
  "porous_mpow s = map (\<lambda>i. 443.7 * diam s ! i + 0.361) [0..<m_points s]"

definition porous_Omega :: "flow \<Rightarrow> real list" where
  "porous_Omega s = map (\<lambda>i. if grid s i < m_zmid s then Omega1 s else Omega2 s) [0..<m_points s]"

text \<open>The convective heat-transfer coefficients of the points \<open>jmin, ..., jmax\<close>;
  \<^verbatim>\<open>pow\<close> with a real exponent is \<open>powr\<close>. The local \<^verbatim>\<open>solidenergy\<close> is set to \<open>1\<close>
  before it is tested, so the coefficients are always computed.\<close>

definition porous_hconv :: "real list \<Rightarrow> nat \<Rightarrow> nat \<Rightarrow> flow \<Rightarrow> flow" where
  "porous_hconv x jmin jmax s =
     s\<lparr>hconv := fold (\<lambda>j h.
                  (let lam = m_tcon s ! j;
                       visc = m_visc s ! j;
                       Re = (rho_u s x j * pore s ! j * diam s ! j) / visc;
                       nusselt = porous_Cmult s ! j * (Re powr (porous_mpow s ! j))
                   in h[j := (lam * nusselt) / (diam s ! j) ^ 2]))
                [jmin..<jmax + 1] (hconv s)\<rparr>"

text \<open>The call of the solid subsolver, guarded by the trigger flag of the container.\<close>

definition porous_solid :: "real list \<Rightarrow> real \<Rightarrow> flow \<Rightarrow> flow" where
  "porous_solid x rdt s =
     (if dosolid s = 1
      then (solid x (hconv s) (scond s) (porous_RK s) (porous_Omega s) (srho s) (sCp s) rdt s)
             \<lparr>dosolid := 0\<rparr>
      else s)"

definition porous_continuity :: "flow \<Rightarrow> real list \<Rightarrow> nat \<Rightarrow> real writes \<times> int writes" where
  "porous_continuity s x j =
     ([(index s c_offset_U j,
          - (rho_u s x (j + 1) * pore s ! (j + 1) - rho_u s x j * pore s ! j) / m_dz s ! j
          - (density s (j + 1) * V s x (j + 1) + density s j * V s x j))],
      [(index s c_offset_U j, 0)])"

definition porous_species_rows :: "env \<Rightarrow> real list \<Rightarrow> real \<Rightarrow> nat \<Rightarrow> flow \<Rightarrow> real writes" where
  "porous_species_rows E x rdt j s =
     map (\<lambda>k. (let convec = rho_u s x j * hd_dYdz E s x k j * pore s ! j;
                    diffus = 2.0 * (m_flux s ! aidx s k j * pore s ! j
                                     - m_flux s ! aidx s k (j - 1) * pore s ! (j - 1))
                               / (grid s (j + 1) - grid s (j - 1))
                in (index s (c_offset_Y + k) j,
                    (m_wt s ! k * (wdot s k j * pore s ! j) - convec - diffus)
                       / (m_rho s ! j * pore s ! j)
                    - rdt * (Y s x k j - hd_Y_prev E s k j))))
       [0..<m_nsp s]"

definition porous_energy_row ::
  "env \<Rightarrow> real list \<Rightarrow> real \<Rightarrow> nat \<Rightarrow> flow \<Rightarrow> flow \<times> (nat \<times> real) \<times> (nat \<times> int)" where
  "porous_energy_row E x rdt j s0 =
     (if m_do_energy s0 ! j
      then (let s = setGas x j s0;
                h_RT = th_enthalpy_RT_ref E (m_thermo s);
                cp_R = th_cp_R_ref E (m_thermo s);
                sum1 = (\<Sum>k\<leftarrow>[0..<m_nsp s]. wdot s k j * h_RT ! k)
                         * (c_GasConstant E * T s x j);
                dtdzj = hd_dTdz E s x j;
                sum2 = (\<Sum>k\<leftarrow>[0..<m_nsp s].
                          0.5 * (m_flux s ! aidx s k (j - 1) + m_flux s ! aidx s k j)
                            * cp_R ! k / m_wt s ! k)
                         * (c_GasConstant E * dtdzj)
            in (s,
                (index s c_offset_T j,
                 (- m_cp s ! j * rho_u s x j * dtdzj - hd_divHeatFlux E s x j - sum1 - sum2
                    - (hconv s ! j * (T s x j - Tw s ! j)) / pore s ! j)
                    / (m_rho s ! j * m_cp s ! j)
                 - rdt * (T s x j - hd_T_prev E s j)),
                (index s c_offset_T j, 1)))
      else (s0, (index s0 c_offset_T j, T s0 x j - T_fixed s0 j), (index s0 c_offset_T j, 0)))"

definition porous_interior_rows ::
  "env \<Rightarrow> real list \<Rightarrow> real \<Rightarrow> nat \<Rightarrow> flow \<Rightarrow> flow \<times> real writes \<times> int writes" where
  "porous_interior_rows E x rdt j s0 =
     (let (cr, cd) = porous_continuity s0 x j;
          vr = momentum_row E x rdt j s0;
          s1 = getWdot E x j s0;
          (s2, er, ed) = porous_energy_row E x rdt j s1
      in (s2,
          cr @ [vr] @ porous_species_rows E x rdt j s1 @ [er]
             @ [(index s2 c_offset_L j, lambda s2 x j - lambda s2 x (j - 1))],
          cd @ [(index s0 c_offset_V j, 1)] @ species_flags j s1 @ [ed]
             @ [(index s2 c_offset_L j, 0)]))"

definition porous_eval_point ::
  "env \<Rightarrow> real list \<Rightarrow> real \<Rightarrow> nat \<Rightarrow> flow \<times> real list \<times> int list
     \<Rightarrow> flow \<times> real list \<times> int list" where
  "porous_eval_point E x rdt j = (\<lambda>(s, rg, diagg).
     if j = 0
     then (s, apply_writes (loc s) (evalLeftBoundary s x) rg, diagg)
     else if j = size_sub (m_points s) 1
     then (let (rw, dw) = AxiStagnFlow_evalRightBoundary s x
           in (s, apply_writes (loc s) rw rg, apply_writes (loc s) dw diagg))
     else (let (s', rw, dw) = porous_interior_rows E x rdt j s
           in (s', apply_writes (loc s) rw rg, apply_writes (loc s) dw diagg)))"

definition PorousFlow_eval ::
  "env \<Rightarrow> nat \<Rightarrow> real list \<Rightarrow> real list \<Rightarrow> int list \<Rightarrow> real \<Rightarrow> flow
     \<Rightarrow> error + flow \<times> real list \<times> int list" where
  "PorousFlow_eval E jg xg rg diagg rdt0 s0 =
     (if outside_influence s0 jg then Inr (s0, rg, diagg)
      else (let rdt = (if jg \<noteq> npos then 0.0 else rdt0);
                x = drop (loc s0) xg;
                jmin = eval_jmin s0 jg;
                jmax = eval_jmax s0 jg
            in case update_properties E jg x (s0\<lparr>m_dovisc := True\<rparr>) of
                 Inl e \<Rightarrow> Inl e
               | Inr s \<Rightarrow>
                   Inr (fold (porous_eval_point E x rdt) [jmin..<jmax + 1]
                          (porous_solid x rdt (porous_hconv x jmin jmax (porous_profiles s)),
                           rg, diagg))))"

section \<open>Projections of the state\<close>

text \<open>
  Groups of members used to say what an operation leaves alone: the members that fix the
  layout of the buffers and select the equations, the cached transport properties, the
  cached thermodynamic properties, and the members of the porous variant.
\<close>

definition layout_of ::
  "flow \<Rightarrow> nat \<times> nat \<times> nat \<times> nat \<times> nat \<times> bool list \<times> real list \<times> int \<times> bool" where
  "layout_of s = (m_nv s, m_nsp s, m_points s, m_iloc s, m_jstart s, m_do_energy s,
                  m_fixedtemp s, m_transport_option s, m_do_soret s)"



text \<open>All positions of a list of assignments lie in \<open>[lo, hi)\<close>.\<close>

definition writes_within :: "nat \<Rightarrow> nat \<Rightarrow> 'a writes \<Rightarrow> bool" where
  "writes_within lo hi ws \<longleftrightarrow> (\<forall>(i, v)\<in>set ws. lo \<le> i \<and> i < hi)"

text \<open>A function that evaluates the rows of a point \<open>j\<close> respects the layout when,
  on a domain with \<open>m_nv = m_nsp + 4\<close> and at least one species, it keeps the layout
  members and the lengths of the buffers and writes only to the entries of point \<open>j\<close>.\<close>

type_synonym point_fun = "nat \<Rightarrow> flow \<times> real list \<times> int list \<Rightarrow> flow \<times> real list \<times> int list"

definition point_frame :: "point_fun \<Rightarrow> bool" where
  "point_frame f \<longleftrightarrow>
     (\<forall>j s rg dg. m_nv s = m_nsp s + 4 \<and> 0 < m_nsp s \<longrightarrow>
        (case f j (s, rg, dg) of (s', rg', dg') \<Rightarrow>
           layout_of s' = layout_of s \<and> length rg' = length rg \<and> length dg' = length dg
           \<and> (\<forall>p. \<not> (loc s + m_nv s * j \<le> p \<and> p < loc s + m_nv s * j + m_nv s) \<longrightarrow>
                  rg' ! p = rg ! p \<and> dg' ! p = dg ! p)))"



text \<open>The members that the solid subsolver of the porous variant reads and writes, with
  the grid and the parameters of the profiles.\<close>

definition solid_of ::
  "flow \<Rightarrow> (nat \<times> nat \<times> real list \<times> nat)
            \<times> (real list \<times> real list \<times> real list \<times> string list \<times> int)
            \<times> (real \<times> real \<times> real \<times> real \<times> real \<times> real)
            \<times> (real \<times> real \<times> real \<times> real)" where
  "solid_of s = ((m_points s, m_nv s, m_z s, m_iloc s),
                 (Tw s, dq s, Twprev s, logged s, dosolid s),
                 (pore1 s, pore2 s, diam1 s, diam2 s, m_zmid s, m_dzmid s),
                 (Omega1 s, Omega2 s, srho s, sCp s))"
section \<open>Restoring a saved solution\<close>

text \<open>
  \<^verbatim>\<open>restore\<close> reads a domain from an XML document through the helpers
  \<^verbatim>\<open>getFloat\<close>, \<^verbatim>\<open>getFloatArray\<close>, \<^verbatim>\<open>getOptionalFloat\<close>, \<^verbatim>\<open>hasChild\<close>, which are not
  part of the sources. A document is represented by what these helpers read from it: a
  child that \<^verbatim>\<open>restore\<close> reads without a test is a field, a child whose presence it
  tests is an option, and the \<^verbatim>\<open>floatArray\<close> children of \<^verbatim>\<open>grid_data\<close> are the list
  of their titles and values in document order. The errors the helpers raise on a
  malformed document are not modelled.
\<close>

record xml_solid =
  so_pore1 :: real
  so_pore2 :: real
  so_diam1 :: real
  so_diam2 :: real
  so_scond1 :: real
  so_scond2 :: real
  so_Omega1 :: real
  so_Omega2 :: real
  so_rho :: real
  so_Cp :: real
  so_zmid :: real
  so_dzmid :: real
  so_Tsolid :: "real list"
  so_Radiation :: "real list"
  so_Porosity :: "real list"
  so_Diameter :: "real list"
  so_SolidConductivity :: "real list"
  so_Hconv :: "real list"

record xml_node =
  dom_strings :: "(string \<times> string) list"          \<comment> \<open>title and value of each \<^verbatim>\<open>string\<close> child\<close>
  dom_pressure :: real
  dom_grid_data :: "(string \<times> real list) list"
  dom_energy_enabled :: "real list option"
  dom_species_enabled :: "real list option"
  dom_refine_criteria :: "(real \<times> real \<times> real \<times> real \<times> real) option"
    \<comment> \<open>\<^verbatim>\<open>ratio\<close>, \<^verbatim>\<open>slope\<close>, \<^verbatim>\<open>curve\<close>, \<^verbatim>\<open>prune\<close>, \<^verbatim>\<open>grid_min\<close>\<close>
  dom_Solid :: "xml_solid option"
  dom_t_fixed :: "real option"
  dom_z_fixed :: "real option"

text \<open>Decimal formatting of a \<^verbatim>\<open>size_t\<close>, for \<^verbatim>\<open>int2str\<close> and for the \<^verbatim>\<open>{}\<close> fields
  of the formatted messages.\<close>

fun int2str :: "nat \<Rightarrow> string" where
  "int2str n = (if n < 10 then [''0123456789'' ! n]
                else int2str (n div 10) @ [''0123456789'' ! (n mod 10)])"

declare int2str.simps [simp del]

definition writelog :: "string \<Rightarrow> flow \<Rightarrow> flow" where
  "writelog msg s = s\<lparr>logged := logged s @ [msg]\<rparr>"

definition debuglog :: "string \<Rightarrow> bool \<Rightarrow> flow \<Rightarrow> flow" where
  "debuglog msg c s = (if c then writelog msg s else s)"

text \<open>The species lookup of the thermodynamic provider: the position of the name in
  its list of species names, \<^verbatim>\<open>npos\<close> if it is not there.\<close>

definition speciesIndex :: "env \<Rightarrow> string \<Rightarrow> nat" where
  "speciesIndex E nm =
     (case find (\<lambda>k. th_speciesNames E ! k = nm) [0..<length (th_speciesNames E)] of
        None \<Rightarrow> npos
      | Some k \<Rightarrow> k)"

text \<open>Modelled from the spec: \<^verbatim>\<open>setPressure\<close>, \<^verbatim>\<open>setFixedTempProfile\<close>, \<^verbatim>\<open>zmin\<close> and
  \<^verbatim>\<open>zmax\<close> are declared in headers that are not part of the sources. They store the
  pressure, store the prescribed temperature profile, and read the first and the last
  grid coordinate.\<close>

definition setPressure :: "real \<Rightarrow> flow \<Rightarrow> flow" where
  "setPressure p s = s\<lparr>m_press := p\<rparr>"

definition setFixedTempProfile :: "real list \<Rightarrow> real list \<Rightarrow> flow \<Rightarrow> flow" where
  "setFixedTempProfile zfixed tfixed s = s\<lparr>m_zfix := zfixed, m_tfix := tfixed\<rparr>"

definition zmin :: "flow \<Rightarrow> real" where
  "zmin s = m_z s ! 0"

definition zmax :: "flow \<Rightarrow> real" where
  "zmax s = m_z s ! (m_points s - 1)"

text \<open>The first loop over the arrays of \<^verbatim>\<open>grid_data\<close>: every array titled \<^verbatim>\<open>z\<close> sets up
  the grid, through the \<^verbatim>\<open>setupGrid\<close> of the class of the object (the parameter
  \<open>sg\<close>). The state of the loop is the domain, \<^verbatim>\<open>np\<close> and \<^verbatim>\<open>readgrid\<close>.\<close>

fun restore_grid ::
  "(nat \<Rightarrow> real list \<Rightarrow> flow \<Rightarrow> error + flow) \<Rightarrow> int \<Rightarrow> (string \<times> real list) list
     \<Rightarrow> flow \<times> nat \<times> bool \<Rightarrow> error + flow \<times> nat \<times> bool" where
  "restore_grid sg loglevel [] st = Inr st"
| "restore_grid sg loglevel ((nm, x) # d) (s, np, readgrid) =
     (if nm = ''z''
      then (let np = length x;
                s = debuglog (''Grid contains '' @ int2str np @ '' points.\<newline>'')
                      (loglevel \<ge> 2) s
            in case sg np x s of
                 Inl e \<Rightarrow> Inl e
               | Inr s \<Rightarrow> restore_grid sg loglevel d (s, np, True))
      else restore_grid sg loglevel d (s, np, readgrid))"

text \<open>\<^verbatim>\<open>for (j = 0; j < np; j++) soln[index(n,j)] = x[j];\<close>\<close>

definition restore_component :: "flow \<Rightarrow> nat \<Rightarrow> nat \<Rightarrow> real list \<Rightarrow> real list \<Rightarrow> real list" where
  "restore_component s n np x soln = fold (\<lambda>j so. so[index s n j := x ! j]) [0..<np] soln"

text \<open>One pass of the body of the second loop, for the array \<open>x\<close> titled \<open>nm\<close>. The state
  of the loop is the domain, the solution array, \<^verbatim>\<open>did_species\<close> and \<^verbatim>\<open>ignored\<close>.\<close>

definition restore_dataset ::
  "env \<Rightarrow> int \<Rightarrow> nat \<Rightarrow> string \<times> real list \<Rightarrow> flow \<times> real list \<times> int list \<times> string list
     \<Rightarrow> error + flow \<times> real list \<times> int list \<times> string list" where
  "restore_dataset E loglevel np = (\<lambda>(nm, x) (s, soln, did_species, ignored).
     if nm = ''u''
     then (let s = debuglog ''axial velocity   '' (loglevel \<ge> 2) s
           in if length x \<noteq> np
              then Inl (CanteraError ''StFlow::restore'' ''axial velocity array size error'')
              else Inr (s, restore_component s 0 np x soln, did_species, ignored))
     else if nm = ''z''
     then Inr (s, soln, did_species, ignored)
     else if nm = ''V''
     then (let s = debuglog ''radial velocity   '' (loglevel \<ge> 2) s
           in if length x \<noteq> np
              then Inl (CanteraError ''StFlow::restore'' ''radial velocity array size error'')
              else Inr (s, restore_component s 1 np x soln, did_species, ignored))
     else if nm = ''T''
     then (let s = debuglog ''temperature   '' (loglevel \<ge> 2) s
           in if length x \<noteq> np
              then Inl (CanteraError ''StFlow::restore'' ''temperature array size error'')
              else (let soln = restore_component s 2 np x soln;
                        zz = map (\<lambda>jj. (grid s jj - zmin s) / (zmax s - zmin s)) [0..<np]
                    in Inr (setFixedTempProfile zz x s, soln, did_species, ignored)))
     else if nm = ''L''
     then (let s = debuglog ''lambda   '' (loglevel \<ge> 2) s
           in if length x \<noteq> np
              then Inl (CanteraError ''StFlow::restore'' ''lambda arary size error'')
              else Inr (s, restore_component s 3 np x soln, did_species, ignored))
     else if speciesIndex E nm \<noteq> npos
     then (let s = debuglog (nm @ ''   '') (loglevel \<ge> 2) s
           in if length x = np
              then (let k = speciesIndex E nm
                    in Inr (s, restore_component s (k + 4) np x soln,
                            did_species[k := 1], ignored))
              else Inr (s, soln, did_species, ignored))
     else Inr (s, soln, did_species, ignored @ [nm]))"

fun restore_datasets ::
  "env \<Rightarrow> int \<Rightarrow> nat \<Rightarrow> (string \<times> real list) list
     \<Rightarrow> flow \<times> real list \<times> int list \<times> string list
     \<Rightarrow> error + flow \<times> real list \<times> int list \<times> string list" where
  "restore_datasets E loglevel np [] st = Inr st"
| "restore_datasets E loglevel np (fa # d) st =
     (case restore_dataset E loglevel np fa st of
        Inl e \<Rightarrow> Inl e
      | Inr st \<Rightarrow> restore_datasets E loglevel np d st)"

text \<open>The two reports that follow the loop.\<close>

definition restore_log_ignored :: "int \<Rightarrow> string list \<Rightarrow> flow \<Rightarrow> flow" where
  "restore_log_ignored loglevel ignored s =
     (if loglevel \<ge> 2 \<and> ignored \<noteq> []
      then fold (\<lambda>n s. writelog (ignored ! n @ ''   '') s) [0..<length ignored]
             (writelog ''Ignoring datasets:\<newline>'' (writelog ''\<newline>\<newline>'' s))
      else s)"

definition restore_log_missing :: "env \<Rightarrow> int \<Rightarrow> int list \<Rightarrow> flow \<Rightarrow> flow" where
  "restore_log_missing E loglevel did_species s =
     (if loglevel \<ge> 1
      then fst (fold (\<lambda>ks (s, wrote_header).
                        if did_species ! ks = 0
                        then (writelog (th_speciesNames E ! ks @ '' '')
                                (if \<not> wrote_header
                                 then writelog ''Missing data for species:\<newline>'' s else s),
                              True)
                        else (s, wrote_header))
                  [0..<length (th_speciesNames E)] (s, False))
      else s)"

text \<open>The four errors that the second loop raises.\<close>

definition restore_size_errors :: "error set" where
  "restore_size_errors =
     {CanteraError ''StFlow::restore'' ''axial velocity array size error'',
      CanteraError ''StFlow::restore'' ''radial velocity array size error'',
      CanteraError ''StFlow::restore'' ''temperature array size error'',
      CanteraError ''StFlow::restore'' ''lambda arary size error''}"

text \<open>The part of \<^verbatim>\<open>StFlow::restore\<close> up to the end of the first loop: the call of
  \<^verbatim>\<open>Domain1D::restore\<close>, the log of the \<^verbatim>\<open>string\<close> children, the pressure, and the
  grid. \<^verbatim>\<open>Domain1D::restore\<close> is not part of the sources: it is the parameter \<open>base\<close>.
  The result is the domain, \<^verbatim>\<open>np\<close> and \<^verbatim>\<open>readgrid\<close>.\<close>

definition restore_grid_stage ::
  "(nat \<Rightarrow> real list \<Rightarrow> flow \<Rightarrow> error + flow) \<Rightarrow> (xml_node \<Rightarrow> int \<Rightarrow> flow \<Rightarrow> error + flow)
     \<Rightarrow> xml_node \<Rightarrow> int \<Rightarrow> flow \<Rightarrow> error + flow \<times> nat \<times> bool" where
  "restore_grid_stage sg base doc loglevel s0 =
     (case base doc loglevel s0 of
        Inl e \<Rightarrow> Inl e
      | Inr s \<Rightarrow>
          (let s = fold (\<lambda>nd s. writelog (fst nd @ '': '' @ snd nd @ ''\<newline>'') s)
                     (dom_strings doc) s;
               s = setPressure (dom_pressure doc) s
           in restore_grid sg loglevel (dom_grid_data doc) (s, 0, False)))"

text \<open>The part of \<^verbatim>\<open>StFlow::restore\<close> up to the two reports: the test of
  \<^verbatim>\<open>readgrid\<close> and the second loop follow the first.\<close>

definition restore_import ::
  "(nat \<Rightarrow> real list \<Rightarrow> flow \<Rightarrow> error + flow) \<Rightarrow> env \<Rightarrow> (xml_node \<Rightarrow> int \<Rightarrow> flow \<Rightarrow> error + flow)
     \<Rightarrow> xml_node \<Rightarrow> real list \<Rightarrow> int \<Rightarrow> flow \<Rightarrow> error + flow \<times> real list" where
  "restore_import sg E base doc soln loglevel s0 =
     (case restore_grid_stage sg base doc loglevel s0 of
        Inl e \<Rightarrow> Inl e
      | Inr (s, np, readgrid) \<Rightarrow>
          if \<not> readgrid
          then Inl (CanteraError ''StFlow::restore'' ''domain contains no grid points.'')
          else (case restore_datasets E loglevel np (dom_grid_data doc)
                       (debuglog ''Importing datasets:\<newline>'' (loglevel \<ge> 2) s, soln,
                        replicate (length (th_speciesNames E)) 0, []) of
                  Inl e \<Rightarrow> Inl e
                | Inr (s, soln, did_species, ignored) \<Rightarrow>
                    Inr (restore_log_missing E loglevel did_species
                           (restore_log_ignored loglevel ignored s), soln)))"

text \<open>The three blocks that end \<^verbatim>\<open>StFlow::restore\<close>. A \<^verbatim>\<open>double\<close> is stored into a
  flag as whether it is not zero.\<close>

definition restore_energy_enabled :: "xml_node \<Rightarrow> flow \<Rightarrow> error + flow" where
  "restore_energy_enabled doc s =
     (case dom_energy_enabled doc of
        None \<Rightarrow> Inr s
      | Some x \<Rightarrow>
          if length x = nPoints s
          then Inr (s\<lparr>m_do_energy := vec_upd (length x) (\<lambda>i b. x ! i \<noteq> 0) (m_do_energy s)\<rparr>)
          else if x \<noteq> []
          then Inl (CanteraError ''StFlow::restore''
                      (''energy_enabled is length '' @ int2str (length x)
                       @ ''but should be length '' @ int2str (nPoints s)))
          else Inr s)"

definition restore_species_enabled :: "int \<Rightarrow> xml_node \<Rightarrow> flow \<Rightarrow> flow" where
  "restore_species_enabled loglevel doc s =
     (case dom_species_enabled doc of
        None \<Rightarrow> s
      | Some x \<Rightarrow>
          if length x = m_nsp s
          then s\<lparr>m_do_species := vec_upd (length x) (\<lambda>i b. x ! i \<noteq> 0) (m_do_species s)\<rparr>
          else if x \<noteq> []
          then (debuglog (''\<newline>Warning: StFlow::restore: species_enabled is length ''
                            @ int2str (length x) @ '' but should be length ''
                            @ int2str (m_nsp s)
                            @ ''. Enabling all species equations by default.'')
                  (loglevel > 0) s)
                 \<lparr>m_do_species := replicate (m_nsp s) True\<rparr>
          else s)"

definition restore_refine_criteria :: "xml_node \<Rightarrow> flow \<Rightarrow> flow" where
  "restore_refine_criteria doc s =
     (case dom_refine_criteria doc of
        None \<Rightarrow> s
      | Some (ratio, slope, curve, prune, grid_min) \<Rightarrow>
          s\<lparr>m_refine_criteria := (ratio, slope, curve, prune), m_refine_gridmin := grid_min\<rparr>)"

definition StFlow_restore ::
  "(nat \<Rightarrow> real list \<Rightarrow> flow \<Rightarrow> error + flow) \<Rightarrow> env \<Rightarrow> (xml_node \<Rightarrow> int \<Rightarrow> flow \<Rightarrow> error + flow)
     \<Rightarrow> xml_node \<Rightarrow> real list \<Rightarrow> int \<Rightarrow> flow \<Rightarrow> error + flow \<times> real list" where
  "StFlow_restore sg E base doc soln loglevel s0 =
     (case restore_import sg E base doc soln loglevel s0 of
        Inl e \<Rightarrow> Inl e
      | Inr (s, soln) \<Rightarrow>
          (case restore_energy_enabled doc s of
             Inl e \<Rightarrow> Inl e
           | Inr s \<Rightarrow>
               Inr (restore_refine_criteria doc (restore_species_enabled loglevel doc s),
                    soln)))"

text \<open>\<^verbatim>\<open>FreeFlame::restore\<close>; a free flame has the \<^verbatim>\<open>setupGrid\<close> of \<^verbatim>\<open>StFlow\<close>.\<close>

definition FreeFlame_restore ::
  "env \<Rightarrow> (xml_node \<Rightarrow> int \<Rightarrow> flow \<Rightarrow> error + flow) \<Rightarrow> xml_node \<Rightarrow> real list \<Rightarrow> int \<Rightarrow> flow
     \<Rightarrow> error + flow \<times> real list" where
  "FreeFlame_restore E base doc soln loglevel s0 =
     (case StFlow_restore setupGrid E base doc soln loglevel s0 of
        Inl e \<Rightarrow> Inl e
      | Inr (s, soln) \<Rightarrow>
          (let s = (case dom_t_fixed doc of None \<Rightarrow> s | Some v \<Rightarrow> s\<lparr>m_tfixed := v\<rparr>);
               s = (case dom_z_fixed doc of None \<Rightarrow> s | Some v \<Rightarrow> s\<lparr>m_zfixed := v\<rparr>)
           in Inr (s, soln)))"

text \<open>\<^verbatim>\<open>PorousFlow::setupGrid\<close>. The search \<^verbatim>\<open>while (z[i] > m_z[j+1])\<close> keeps its position
  \<open>j\<close> from one new grid point to the next; it raises the integer \<open>10\<close> when it runs
  past the old grid. The comparison \<^verbatim>\<open>j+1 > m_points-1\<close> is made in \<^verbatim>\<open>size_t\<close>.\<close>

function PorousFlow_search :: "flow \<Rightarrow> real \<Rightarrow> nat \<Rightarrow> error + nat" where
  "PorousFlow_search s zi j =
     (if zi > m_z s ! (j + 1)
      then (let j = j + 1
            in if j + 1 > size_sub (m_points s) 1 then Inl (IntException 10)
               else PorousFlow_search s zi j)
      else Inr j)"
  by pat_completeness auto
termination
  by (relation "measure (\<lambda>(s, zi, j). size_sub (m_points s) 1 - j)") auto

declare PorousFlow_search.simps [simp del]

fun PorousFlow_interpolate ::
  "flow \<Rightarrow> real list \<Rightarrow> nat list \<Rightarrow> real list \<times> real list \<times> nat
     \<Rightarrow> error + real list \<times> real list \<times> nat" where
  "PorousFlow_interpolate s z [] st = Inr st"
| "PorousFlow_interpolate s z (i # rest) (tw, d, j) =
     (if z ! i \<le> m_z s ! 0
      then PorousFlow_interpolate s z rest (tw[i := Tw s ! 0], d[i := dq s ! 0], j)
      else if z ! i \<ge> m_z s ! (size_sub (m_points s) 1)
      then PorousFlow_interpolate s z rest
             (tw[i := Tw s ! (size_sub (m_points s) 1)],
              d[i := dq s ! (size_sub (m_points s) 1)], j)
      else (case PorousFlow_search s (z ! i) j of
              Inl e \<Rightarrow> Inl e
            | Inr j \<Rightarrow>
                (let tmp = (z ! i - m_z s ! j) / (m_z s ! (j + 1) - m_z s ! j)
                 in PorousFlow_interpolate s z rest
                      (tw[i := (1.0 - tmp) * Tw s ! j + tmp * Tw s ! (j + 1)],
                       d[i := (1.0 - tmp) * dq s ! j + tmp * dq s ! (j + 1)], j))))"

definition PorousFlow_setupGrid :: "nat \<Rightarrow> real list \<Rightarrow> flow \<Rightarrow> error + flow" where
  "PorousFlow_setupGrid n z s =
     (case PorousFlow_interpolate s z [0..<n] (vresize n 0 (Tw s), vresize n 0 (dq s), 0) of
        Inl e \<Rightarrow> Inl e
      | Inr (tw, d, j) \<Rightarrow> setupGrid n z (s\<lparr>Tw := tw, dq := d\<rparr>))"

text \<open>\<^verbatim>\<open>PorousFlow::restore\<close>. One of its six array blocks: resize the member to the
  point count, copy an array of that length, raise on an array of another length that
  is not empty. The result is the new value of the member.\<close>

definition restore_solid_array ::
  "string \<Rightarrow> real list \<Rightarrow> flow \<Rightarrow> real list \<Rightarrow> error + real list" where
  "restore_solid_array nm x s vec =
     (let vec = vresize (nPoints s) 0 vec
      in if length x = nPoints s
         then Inr (vec_upd (length x) (\<lambda>i v. x ! i) vec)
         else if x \<noteq> []
         then Inl (CanteraError ''PorousFlow::restore''
                     (nm @ '' is of length'' @ int2str (length x)
                      @ ''but should be length'' @ int2str (nPoints s)))
         else Inr vec)"

definition restore_Solid :: "xml_solid \<Rightarrow> flow \<Rightarrow> error + flow" where
  "restore_Solid ref s0 =
     (let s = s0\<lparr>pore1 := so_pore1 ref, pore2 := so_pore2 ref,
                 diam1 := so_diam1 ref, diam2 := so_diam2 ref,
                 scond1 := so_scond1 ref, scond2 := so_scond2 ref,
                 Omega1 := so_Omega1 ref, Omega2 := so_Omega2 ref,
                 srho := so_rho ref, sCp := so_Cp ref,
                 m_zmid := so_zmid ref, m_dzmid := so_dzmid ref\<rparr>
      in case restore_solid_array ''Tw'' (so_Tsolid ref) s (Tw s) of
           Inl e \<Rightarrow> Inl e
         | Inr v \<Rightarrow>
      (let s = s\<lparr>Tw := v\<rparr>
       in case restore_solid_array ''dq'' (so_Radiation ref) s (dq s) of
            Inl e \<Rightarrow> Inl e
          | Inr v \<Rightarrow>
      (let s = s\<lparr>dq := v\<rparr>
       in case restore_solid_array ''Porosity'' (so_Porosity ref) s (pore s) of
            Inl e \<Rightarrow> Inl e
          | Inr v \<Rightarrow>
      (let s = s\<lparr>pore := v\<rparr>
       in case restore_solid_array ''diam'' (so_Diameter ref) s (diam s) of
            Inl e \<Rightarrow> Inl e
          | Inr v \<Rightarrow>
      (let s = s\<lparr>diam := v\<rparr>
       in case restore_solid_array ''scond'' (so_SolidConductivity ref) s (scond s) of
            Inl e \<Rightarrow> Inl e
          | Inr v \<Rightarrow>
      (let s = s\<lparr>scond := v\<rparr>
       in case restore_solid_array ''hconv'' (so_Hconv ref) s (hconv s) of
            Inl e \<Rightarrow> Inl e
          | Inr v \<Rightarrow> Inr (s\<lparr>hconv := v\<rparr>)))))))"

definition PorousFlow_restore ::
  "env \<Rightarrow> (xml_node \<Rightarrow> int \<Rightarrow> flow \<Rightarrow> error + flow) \<Rightarrow> xml_node \<Rightarrow> real list \<Rightarrow> int \<Rightarrow> flow
     \<Rightarrow> error + flow \<times> real list" where
  "PorousFlow_restore E base doc soln loglevel s0 =
     (case StFlow_restore PorousFlow_setupGrid E base doc soln loglevel s0 of
        Inl e \<Rightarrow> Inl e
      | Inr (s, soln) \<Rightarrow>
          (case dom_Solid doc of
             None \<Rightarrow> Inr (s, soln)
           | Some ref \<Rightarrow>
               (case restore_Solid ref s of
                  Inl e \<Rightarrow> Inl e
                | Inr s \<Rightarrow> Inr (s, soln))))"

section \<open>Concrete states for running the operations\<close>

text \<open>A flow domain with two species and no grid points yet, used to run the
  operations on concrete inputs.\<close>

definition flow0 :: flow where
  "flow0 = \<lparr>
     m_nv = 6, m_points = 0, m_iloc = 0, m_jstart = 0, m_z = [],
     dosolid = 0, logged = [], m_refine_criteria = (10, 0.8, 0.8, -0.1),
     m_refine_gridmin = 0, m_refine_extra = [],
     m_press = 101325, m_nsp = 2, m_wt = [2, 32],
     m_thermo = \<lparr>g_T = 300, g_Y = [0, 1], g_P = 101325\<rparr>,
     m_dz = [], m_rho = [], m_wtm = [], m_cp = [], m_visc = [], m_tcon = [],
     m_diff = [], m_multidiff = [], m_dthermal = [], m_flux = [], m_wdot = [],
     m_ybar = [0, 0], m_do_energy = [], m_do_species = [True, True],
     m_qdotRadiation = [], m_fixedtemp = [], m_zfix = [], m_tfix = [],
     m_transport_option = c_Mixav_Transport, m_do_soret = False,
     m_do_radiation = False, m_dovisc = True, m_kRadiating = [npos, npos],
     m_epsilon_left = 0, m_epsilon_right = 0,
     m_zfixed = 0, m_tfixed = 0,
     Tw = [], dq = [], Twprev = [], pore = [], diam = [], scond = [], hconv = [],
     pore1 = 0, pore2 = 0, diam1 = 0, diam2 = 0, scond1 = 0, scond2 = 0,
     Omega1 = 0, Omega2 = 0, srho = 0, sCp = 0, m_zmid = 0, m_dzmid = 0 \<rparr>"


text \<open>The same domain on the three-point grid \<open>0, 1, 2\<close>, with unit molecular weights,
  densities and mean molecular weights, and the diffusion coefficients \<open>1\<close> and \<open>2\<close> of
  the two species at every point.\<close>

definition flow3 :: flow where
  "flow3 = flow0\<lparr>
     m_points := 3, m_z := [0, 1, 2], m_dz := [1, 1], m_wt := [1, 1],
     m_rho := [1, 1, 1], m_wtm := [1, 1, 1], m_cp := [1, 1, 1],
     m_visc := [1, 1, 1], m_tcon := [1, 1, 1],
     m_diff := [1, 2, 1, 2, 1, 2], m_flux := [0, 0, 0, 0, 0, 0],
     m_wdot := [0, 0, 0, 0, 0, 0], m_do_energy := [False, False, False],
     m_qdotRadiation := [0, 0, 0], m_fixedtemp := [300, 350, 500]\<rparr>"

text \<open>Two solution arrays for it, six components per point (\<open>u, V, T, lambda\<close> and two
  mass fractions). In the first the mass fractions of every point sum to one; in the
  second those of point \<open>0\<close> sum to \<open>3/4\<close>.\<close>

definition soln3 :: "real list" where
  "soln3 = [1, 0, 300, 0, 1/2, 1/2,
            1, 0, 400, 0, 1/4, 3/4,
            1, 0, 500, 0, 0, 1]"

definition soln3_bad :: "real list" where
  "soln3_bad = [1, 0, 300, 0, 1/2, 1/4,
                1, 0, 400, 0, 1/4, 1/4,
                1, 0, 500, 0, 0, 1]"

text \<open>Providers and header helpers that return constants, to run the operations that
  take them as parameters.\<close>

definition env0 :: env where
  "env0 = \<lparr>
     th_density = (\<lambda>g. 1), th_meanMolecularWeight = (\<lambda>g. 1), th_cp_mass = (\<lambda>g. 1),
     th_enthalpy_RT_ref = (\<lambda>g. [0, 0]), th_cp_R_ref = (\<lambda>g. [1, 1]),
     th_speciesNames = [''H2'', ''O2''], tr_model = 0,
     tr_viscosity = (\<lambda>g. 1), tr_thermalConductivity = (\<lambda>g. 1),
     tr_mixDiffCoeffs = (\<lambda>g. [1, 2]), tr_multiDiffCoeffs = (\<lambda>g. [1, 1, 1, 1]),
     tr_thermalDiffCoeffs = (\<lambda>g. [0, 0]), kin_netProductionRates = (\<lambda>g. [0, 0]),
     hd_shear = (\<lambda>s x j. 0), hd_dVdz = (\<lambda>s x j. 0), hd_dYdz = (\<lambda>s x k j. 0),
     hd_dTdz = (\<lambda>s x j. 0), hd_divHeatFlux = (\<lambda>s x j. 0),
     hd_V_prev = (\<lambda>s j. 0), hd_Y_prev = (\<lambda>s k j. 0), hd_T_prev = (\<lambda>s j. 0),
     hd_linearInterp = (\<lambda>zz zfix tfix. 0),
     c_GasConstant = 8314.4621, c_StefanBoltz = 5.670373 / 10 ^ 8, c_OneAtm = 101325 \<rparr>"

text \<open>The three-point domain as a free flame whose anchor temperature is \<open>450\<close>: with the
  anchor at the grid point \<open>1\<close>, and with the anchor at \<open>1/2\<close>, between grid points.\<close>

definition flame3_on :: flow where
  "flame3_on = flow3\<lparr>m_zfixed := 1, m_tfixed := 450\<rparr>"

definition flame3_off :: flow where
  "flame3_off = flow3\<lparr>m_zfixed := 1/2, m_tfixed := 450\<rparr>"

text \<open>The three-point domain as a porous burner: uniform porosity \<open>0.8\<close> and pore
  diameter \<open>1/1000\<close>, solid temperature \<open>300\<close>, no pending request for the solid
  subsolver.\<close>

definition porous3 :: flow where
  "porous3 = flow3\<lparr>
     Tw := [300, 300, 300], dq := [0, 0, 0], Twprev := [300, 300, 300],
     pore1 := 0.8, pore2 := 0.8, diam1 := 0.001, diam2 := 0.001,
     Omega1 := 0.8, Omega2 := 0.8, srho := 510, sCp := 824, m_zmid := 1, m_dzmid := 0.5\<rparr>"




text \<open>Documents to restore from, all with the grid \<open>0, 1, 2\<close> and a temperature array:
  one whose species flags have three entries for the two species, one whose energy flags
  have two entries for the three points, and one for the porous variant whose solid
  temperature array has two entries for the three points. The base-class part of
  \<^verbatim>\<open>restore\<close> is taken to change nothing.\<close>

definition base0 :: "xml_node \<Rightarrow> int \<Rightarrow> flow \<Rightarrow> error + flow" where
  "base0 doc loglevel s = Inr s"

definition doc3 :: xml_node where
  "doc3 = \<lparr>
     dom_strings = [], dom_pressure = 101325,
     dom_grid_data = [(''z'', [0, 1, 2]), (''T'', [300, 400, 500])],
     dom_energy_enabled = Some [1, 1, 1], dom_species_enabled = Some [1, 0, 1],
     dom_refine_criteria = None, dom_Solid = None,
     dom_t_fixed = None, dom_z_fixed = None \<rparr>"

definition doc3_energy :: xml_node where
  "doc3_energy = doc3\<lparr>dom_energy_enabled := Some [1, 0]\<rparr>"

definition solid3 :: xml_solid where
  "solid3 = \<lparr>
     so_pore1 = 0.8, so_pore2 = 0.8, so_diam1 = 0.001, so_diam2 = 0.001,
     so_scond1 = 1, so_scond2 = 1, so_Omega1 = 0.8, so_Omega2 = 0.8,
     so_rho = 510, so_Cp = 824, so_zmid = 1, so_dzmid = 0.5,
     so_Tsolid = [300, 300], so_Radiation = [0, 0, 0], so_Porosity = [],
     so_Diameter = [], so_SolidConductivity = [], so_Hconv = [] \<rparr>"

definition doc3_solid :: xml_node where
  "doc3_solid = doc3\<lparr>dom_species_enabled := None, dom_Solid := Some solid3\<rparr>"

text \<open>Two more documents: one with an axial velocity array of two entries, one with an
  array for the species \<^verbatim>\<open>H2\<close> of two entries.\<close>

definition doc3_u :: xml_node where
  "doc3_u = doc3\<lparr>dom_grid_data :=
              [(''z'', [0, 1, 2]), (''u'', [1, 1]), (''T'', [300, 400, 500])]\<rparr>"

definition doc3_H2 :: xml_node where
  "doc3_H2 = doc3\<lparr>dom_grid_data :=
               [(''z'', [0, 1, 2]), (''H2'', [1, 1]), (''T'', [300, 400, 500])]\<rparr>"



definition porous3_cap :: flow where
  "porous3_cap = porous3\<lparr>
     Tw := [1000, 1000, 1000], pore1 := 0.7, diam1 := 3 / 10 ^ 10, pore2 := 1,
     diam2 := 0.001, Omega1 := 0, Omega2 := 0, m_zmid := 0.5, m_dzmid := 0.25,
     srho := 287, sCp := 1000, dosolid := 1\<rparr>"

definition soln3_cap :: "real list" where
  "soln3_cap = [0, 0, 300, 0, 1/2, 1/2,
                1000, 0, 400, 0, 1/4, 3/4,
                0, 0, 500, 0, 0, 1]"

definition cap_flux :: real where
  "cap_flux = 4 * 3000000000
                * (1361367 / 100 - 45927 / 200
                   - (45927 / 100 + 2 * 3000000000 * (1361367 / 100))
                       / (1 + 2 * 3000000000) / 2)"
section \<open>Properties of the grid state\<close>

lemma length_vresize: "length (vresize n v xs) = n"
  by (simp add: vresize_def)

lemma setupGrid_loop_ok:
  "\<forall>j\<in>set js. z ! (j - 1) < z ! j \<Longrightarrow>
   \<exists>zs dzs. setupGrid_loop z js s = Inr (s\<lparr>m_z := zs, m_dz := dzs\<rparr>)
     \<and> zs = fold (\<lambda>j l. l[j := z ! j]) js (m_z s)
     \<and> length dzs = length (m_dz s)"
proof (induction js arbitrary: s)
  case Nil
  show ?case by (rule exI[of _ "m_z s"], rule exI[of _ "m_dz s"]) simp
next
  case (Cons j js)
  let ?s1 = "s\<lparr>m_z := (m_z s)[j := z ! j],
               m_dz := (m_dz s)[j - 1 := (m_z s)[j := z ! j] ! j - (m_z s)[j := z ! j] ! (j - 1)]\<rparr>"
  from Cons.prems have a: "\<forall>j\<in>set js. z ! (j - 1) < z ! j" and b: "\<not> z ! j \<le> z ! (j - 1)"
    by auto
  from Cons.IH[OF a, of ?s1] obtain zs dzs where
    r: "setupGrid_loop z js ?s1 = Inr (?s1\<lparr>m_z := zs, m_dz := dzs\<rparr>)"
       "zs = fold (\<lambda>j l. l[j := z ! j]) js (m_z ?s1)"
       "length dzs = length (m_dz ?s1)"
    by blast
  show ?case
    apply (rule exI[of _ zs], rule exI[of _ dzs])
    using r b by (simp add: Let_def)
qed





lemma resize_ok:
  assumes "0 < n" "n \<le> vector_max_size"
  shows "\<exists>s'. resize nv n s = Inr s' \<and> m_points s' = n \<and> m_nv s' = nv
     \<and> m_nsp s' = m_nsp s
     \<and> length (m_rho s') = n \<and> length (m_wtm s') = n \<and> length (m_cp s') = n
     \<and> length (m_visc s') = n \<and> length (m_tcon s') = n
     \<and> length (m_do_energy s') = n \<and> length (m_qdotRadiation s') = n
     \<and> length (m_fixedtemp s') = n \<and> length (m_z s') = n
     \<and> length (m_dz s') = n - 1
     \<and> length (m_diff s') = m_nsp s * n \<and> length (m_flux s') = m_nsp s * n
     \<and> length (m_wdot s') = m_nsp s * n"
  using assms
  by (simp add: resize_def Domain1D_resize_def Let_def length_vresize size_sub_def)




section \<open>The zero-net-flux correction\<close>

lemma mixav_first_step:
  "aidx s k j < length F \<Longrightarrow>
   mixav_first s x j (m_wtm s ! j) (density s j) (grid s (j + 1) - grid s j) k (F, c) =
     (F[aidx s k j := mixav_raw s x j k], c - mixav_raw s x j k)"
  by (simp add: mixav_first_def mixav_raw_def Let_def add.commute)

lemma mixav_first_fold:
  assumes "m_nsp s * j + n \<le> length F"
  shows "case fold (mixav_first s x j (m_wtm s ! j) (density s j) (grid s (j + 1) - grid s j))
                [0..<n] (F, c) of
           (F', c') \<Rightarrow> length F' = length F \<and> c' = c - (\<Sum>k<n. mixav_raw s x j k)
             \<and> (\<forall>i. F' ! i = (if m_nsp s * j \<le> i \<and> i < m_nsp s * j + n
                               then mixav_raw s x j (i - m_nsp s * j) else F ! i))"
  using assms
proof (induction n)
  case 0
  then show ?case by simp
next
  case (Suc n)
  obtain Fn cn where f: "fold (mixav_first s x j (m_wtm s ! j) (density s j)
       (grid s (j + 1) - grid s j)) [0..<n] (F, c) = (Fn, cn)"
    by (cases "fold (mixav_first s x j (m_wtm s ! j) (density s j)
       (grid s (j + 1) - grid s j)) [0..<n] (F, c)")
  from Suc f have ih: "length Fn = length F" "cn = c - (\<Sum>k<n. mixav_raw s x j k)"
    "\<And>i. Fn ! i = (if m_nsp s * j \<le> i \<and> i < m_nsp s * j + n
                               then mixav_raw s x j (i - m_nsp s * j) else F ! i)"
    by auto
  have "aidx s n j < length Fn" using Suc.prems ih(1) by (simp add: aidx_def)
  from mixav_first_step[OF this] f ih Suc.prems show ?case
    by (auto simp: aidx_def nth_list_update)
qed

lemma mixav_second_fold:
  assumes "m_nsp s * j + n \<le> length F"
  shows "length (fold (mixav_second s x j c) [0..<n] F) = length F
       \<and> (\<forall>i. fold (mixav_second s x j c) [0..<n] F ! i =
               (if m_nsp s * j \<le> i \<and> i < m_nsp s * j + n
                then F ! i + c * Y s x (i - m_nsp s * j) j else F ! i))"
  using assms
proof (induction n)
  case 0
  then show ?case by simp
next
  case (Suc n)
  then show ?case
    by (auto simp: mixav_second_def aidx_def nth_list_update less_Suc_eq)
qed

lemma mixav_col_nth:
  assumes "m_nsp s * j + m_nsp s \<le> length F"
  shows "length (mixav_col s x j F) = length F"
    and "mixav_col s x j F ! i =
          (if m_nsp s * j \<le> i \<and> i < m_nsp s * j + m_nsp s
           then mixav_raw s x j (i - m_nsp s * j)
                  - (\<Sum>k<m_nsp s. mixav_raw s x j k) * Y s x (i - m_nsp s * j) j
           else F ! i)"
proof -
  obtain F1 c1 where f: "fold (mixav_first s x j (m_wtm s ! j) (density s j)
       (grid s (j + 1) - grid s j)) [0..<m_nsp s] (F, 0) = (F1, c1)"
    by (cases "fold (mixav_first s x j (m_wtm s ! j) (density s j)
       (grid s (j + 1) - grid s j)) [0..<m_nsp s] (F, 0)")
  from mixav_first_fold[OF assms, where x=x and c=0] f
  have a: "length F1 = length F" "c1 = - (\<Sum>k<m_nsp s. mixav_raw s x j k)"
    "\<And>i. F1 ! i = (if m_nsp s * j \<le> i \<and> i < m_nsp s * j + m_nsp s
                               then mixav_raw s x j (i - m_nsp s * j) else F ! i)"
    by auto
  have c: "mixav_col s x j F = fold (mixav_second s x j c1) [0..<m_nsp s] F1"
    using f by (simp add: mixav_col_def Let_def)
  from assms a(1) have "m_nsp s * j + m_nsp s \<le> length F1" by simp
  from mixav_second_fold[OF this, where x=x and c=c1] a c
  show "length (mixav_col s x j F) = length F"
    and "mixav_col s x j F ! i =
          (if m_nsp s * j \<le> i \<and> i < m_nsp s * j + m_nsp s
           then mixav_raw s x j (i - m_nsp s * j)
                  - (\<Sum>k<m_nsp s. mixav_raw s x j k) * Y s x (i - m_nsp s * j) j
           else F ! i)"
    by auto
qed

lemma aidx_other_col:
  assumes "k < m_nsp s" "j' \<noteq> j"
  shows "\<not> (m_nsp s * j' \<le> m_nsp s * j + k \<and> m_nsp s * j + k < m_nsp s * j' + m_nsp s)"
proof
  assume a: "m_nsp s * j' \<le> m_nsp s * j + k \<and> m_nsp s * j + k < m_nsp s * j' + m_nsp s"
  from assms(2) consider "j' < j" | "j < j'" by linarith
  then show False
  proof cases
    case 1
    then have "Suc j' \<le> j" by simp
    then have "m_nsp s * Suc j' \<le> m_nsp s * j" by (rule mult_le_mono2)
    with a show False by simp
  next
    case 2
    then have "Suc j \<le> j'" by simp
    then have "m_nsp s * Suc j \<le> m_nsp s * j'" by (rule mult_le_mono2)
    with a assms(1) show False by simp
  qed
qed

lemma mixav_fold_len:
  "\<forall>j'\<in>set js. m_nsp s * j' + m_nsp s \<le> length F \<Longrightarrow>
   length (fold (mixav_col s x) js F) = length F"
proof (induction js arbitrary: F)
  case Nil
  then show ?case by simp
next
  case (Cons a js)
  from Cons.prems have r: "m_nsp s * a + m_nsp s \<le> length F" by simp
  with Cons show ?case by (simp add: mixav_col_nth(1))
qed

lemma mixav_fold_cols:
  assumes "\<forall>j'\<in>set js. m_nsp s * j' + m_nsp s \<le> length F" "k < m_nsp s"
  shows "length (fold (mixav_col s x) js F) = length F
       \<and> fold (mixav_col s x) js F ! (m_nsp s * j + k) =
          (if j \<in> set js
           then mixav_raw s x j k - (\<Sum>k<m_nsp s. mixav_raw s x j k) * Y s x k j
           else F ! (m_nsp s * j + k))"
  using assms(1)
proof (induction js arbitrary: F)
  case Nil
  then show ?case by simp
next
  case (Cons a js)
  from Cons.prems have r: "m_nsp s * a + m_nsp s \<le> length F" by simp
  note c = mixav_col_nth[OF r, of x]
  from Cons.prems c(1) have "\<forall>j'\<in>set js. m_nsp s * j' + m_nsp s \<le> length (mixav_col s x a F)"
    by simp
  from Cons.IH[OF this] have ih:
    "length (fold (mixav_col s x) js (mixav_col s x a F)) = length (mixav_col s x a F)"
    "fold (mixav_col s x) js (mixav_col s x a F) ! (m_nsp s * j + k) =
          (if j \<in> set js
           then mixav_raw s x j k - (\<Sum>k<m_nsp s. mixav_raw s x j k) * Y s x k j
           else mixav_col s x a F ! (m_nsp s * j + k))"
    by auto
  show ?case
  proof (cases "j = a")
    case True
    then show ?thesis using ih c assms(2) by simp
  next
    case False
    from aidx_other_col[OF assms(2), of a j] False
    have n: "\<not> (m_nsp s * a \<le> m_nsp s * j + k \<and> m_nsp s * j + k < m_nsp s * a + m_nsp s)"
      by blast
    have "mixav_col s x a F ! (m_nsp s * j + k) = F ! (m_nsp s * j + k)"
      by (simp only: c(2) n if_False)
    then show ?thesis using ih c(1) False by simp
  qed
qed

text \<open>What the correction achieves for an arbitrary solution array: the net flux of an
  interval is the net uncorrected flux times the defect of the mass fractions.\<close>

lemma updateDiffFluxes_mixav_sum:
  assumes opt: "m_transport_option s = c_Mixav_Transport" and nos: "\<not> m_do_soret s"
    and j: "j0 \<le> j" "j < j1" and len: "m_nsp s * j1 \<le> length (m_flux s)"
  shows "\<exists>s'. updateDiffFluxes x j0 j1 s = Inr s' \<and> s' = s\<lparr>m_flux := m_flux s'\<rparr>
     \<and> length (m_flux s') = length (m_flux s)
     \<and> (\<Sum>k<m_nsp s. m_flux s' ! aidx s k j) =
         (\<Sum>k<m_nsp s. mixav_raw s x j k) * (1 - (\<Sum>k<m_nsp s. Y s x k j))"
proof -
  let ?F = "fold (mixav_col s x) [j0..<j1] (m_flux s)"
  have u: "updateDiffFluxes x j0 j1 s = Inr (s\<lparr>m_flux := ?F\<rparr>)"
    using opt nos by (simp add: updateDiffFluxes_def)
  have r: "\<forall>j'\<in>set [j0..<j1]. m_nsp s * j' + m_nsp s \<le> length (m_flux s)"
  proof
    fix j' assume "j' \<in> set [j0..<j1]"
    then have "Suc j' \<le> j1" by simp
    then have "m_nsp s * Suc j' \<le> m_nsp s * j1" by (rule mult_le_mono2)
    with len show "m_nsp s * j' + m_nsp s \<le> length (m_flux s)" by simp
  qed
  have e: "\<And>k. k < m_nsp s \<Longrightarrow> ?F ! aidx s k j =
      mixav_raw s x j k - (\<Sum>k<m_nsp s. mixav_raw s x j k) * Y s x k j"
    using mixav_fold_cols[OF r, where x=x and j=j] j by (simp add: aidx_def)
  have l: "length ?F = length (m_flux s)"
    using mixav_fold_cols[OF r, where x=x and j=j and k=0] 
    by (cases "m_nsp s = 0") (simp_all add: mixav_fold_len)
  have "(\<Sum>k<m_nsp s. ?F ! aidx s k j) =
      (\<Sum>k<m_nsp s. mixav_raw s x j k - (\<Sum>k<m_nsp s. mixav_raw s x j k) * Y s x k j)"
    by (rule sum.cong) (simp_all add: e)
  also have "\<dots> = (\<Sum>k<m_nsp s. mixav_raw s x j k) * (1 - (\<Sum>k<m_nsp s. Y s x k j))"
    by (simp add: sum_subtractf sum_distrib_left algebra_simps)
  finally show ?thesis using u l by simp
qed


lemma flow3_simps:
  "m_transport_option flow3 = c_Mixav_Transport" "\<not> m_do_soret flow3" "m_nsp flow3 = 2"
  "m_nv flow3 = 6" "m_flux flow3 = [0, 0, 0, 0, 0, 0]" "m_wt flow3 = [1, 1]"
  "m_rho flow3 = [1, 1, 1]" "m_wtm flow3 = [1, 1, 1]" "m_diff flow3 = [1, 2, 1, 2, 1, 2]"
  "m_z flow3 = [0, 1, 2]"
  by (simp_all add: flow3_def flow0_def)

lemma lessThan_2_sum: "(\<Sum>k<(2::nat). f k) = f 0 + (f 1 :: real)"
  by (simp add: numeral_2_eq_2)

text \<open>
  Claim C1, as amended. Under the mixture-averaged transport model with the Soret term
  disabled, for every interval \<open>j\<close> of the updated window \<open>[j0, j1)\<close> at whose left point
  the species mass fractions of the solution array sum to one, the species diffusive
  mass fluxes that \<^verbatim>\<open>updateDiffFluxes\<close> leaves in \<^verbatim>\<open>m_flux\<close> sum to zero over the
  species. (The flux array holds the columns of the window.)
\<close>

theorem updateDiffFluxes_zero_net_flux:
  assumes "m_transport_option s = c_Mixav_Transport" "\<not> m_do_soret s"
    and "j0 \<le> j" "j < j1" "m_nsp s * j1 \<le> length (m_flux s)"
    and "(\<Sum>k<m_nsp s. Y s x k j) = 1"
  shows "\<exists>s'. updateDiffFluxes x j0 j1 s = Inr s'
           \<and> (\<Sum>k<m_nsp s'. m_flux s' ! aidx s' k j) = 0"
proof -
  from updateDiffFluxes_mixav_sum[OF assms(1-5), of x] obtain s' where
    s': "updateDiffFluxes x j0 j1 s = Inr s'" "s' = s\<lparr>m_flux := m_flux s'\<rparr>"
      "(\<Sum>k<m_nsp s. m_flux s' ! aidx s k j) =
         (\<Sum>k<m_nsp s. mixav_raw s x j k) * (1 - (\<Sum>k<m_nsp s. Y s x k j))"
    by blast
  have "m_nsp (s\<lparr>m_flux := m_flux s'\<rparr>) = m_nsp s" by simp
  with s'(2) have n: "m_nsp s' = m_nsp s" by simp
  then have "\<And>k. aidx s' k j = aidx s k j" by (simp add: aidx_def)
  with s'(1,3) n assms(6) show ?thesis by simp
qed

text \<open>The theorem at interval \<open>0\<close> of the three-point domain, for the solution array
  whose mass fractions sum to one.\<close>

theorem updateDiffFluxes_zero_net_flux_witness:
  "m_transport_option flow3 = c_Mixav_Transport \<and> \<not> m_do_soret flow3
   \<and> m_nsp flow3 * 2 \<le> length (m_flux flow3)
   \<and> (\<Sum>k<m_nsp flow3. Y flow3 soln3 k 0) = 1
   \<and> (\<exists>s'. updateDiffFluxes soln3 0 2 flow3 = Inr s'
           \<and> (\<Sum>k<m_nsp s'. m_flux s' ! aidx s' k 0) = 0)"
proof -
  have y: "(\<Sum>k<m_nsp flow3. Y flow3 soln3 k 0) = 1"
    by (simp add: flow3_simps lessThan_2_sum Y_def index_def c_offset_Y_def soln3_def)
  from updateDiffFluxes_zero_net_flux[of flow3 0 0 2 soln3] y
  show ?thesis by (simp add: flow3_simps)
qed

text \<open>
  Claim C1 as stated, for every solution array, fails: with the mass fractions
  \<open>1/2\<close> and \<open>1/4\<close> at point \<open>0\<close> the corrected fluxes of interval \<open>0\<close> are \<open>1/8\<close>
  and \<open>-1/16\<close>.
\<close>

theorem updateDiffFluxes_counterexample:
  "m_transport_option flow3 = c_Mixav_Transport \<and> \<not> m_do_soret flow3
   \<and> (case updateDiffFluxes soln3_bad 0 2 flow3 of
         Inl e \<Rightarrow> False
       | Inr s' \<Rightarrow> m_flux s' ! aidx s' 0 0 + m_flux s' ! aidx s' 1 0 = 1/16)"
proof -
  from updateDiffFluxes_mixav_sum[of flow3 0 0 2 soln3_bad] obtain s' where
    s': "updateDiffFluxes soln3_bad 0 2 flow3 = Inr s'"
      "(\<Sum>k<m_nsp flow3. m_flux s' ! aidx flow3 k 0) =
         (\<Sum>k<m_nsp flow3. mixav_raw flow3 soln3_bad 0 k)
           * (1 - (\<Sum>k<m_nsp flow3. Y flow3 soln3_bad k 0))"
      "s' = flow3\<lparr>m_flux := m_flux s'\<rparr>"
    by (auto simp: flow3_simps)
  have "m_nsp (flow3\<lparr>m_flux := m_flux s'\<rparr>) = 2" by (simp add: flow3_simps)
  with s'(3) have n: "m_nsp s' = 2" by simp
  have "m_flux s' ! aidx s' 0 0 + m_flux s' ! aidx s' 1 0 = 1/16"
    using s'(2) n
    by (simp add: flow3_simps lessThan_2_sum mixav_raw_def aidx_def density_def grid_def
        X_def Y_def index_def c_offset_Y_def soln3_bad_def)
  with s'(1) show ?thesis by (simp add: flow3_simps)
qed

section \<open>Relocation of the flame anchor\<close>

lemma fold_fixedtemp_frame:
  "\<exists>ft. fold (fixedtemp_at E x e nz) js s = s\<lparr>m_fixedtemp := ft\<rparr>"
proof (induction js arbitrary: s)
  case Nil
  show ?case by (rule exI[of _ "m_fixedtemp s"]) simp
next
  case (Cons a js)
  obtain v where v: "fixedtemp_at E x e nz a s = s\<lparr>m_fixedtemp := v\<rparr>"
    by (cases "e \<or> nz = 0") (simp_all add: fixedtemp_at_def Let_def)
  from Cons[of "s\<lparr>m_fixedtemp := v\<rparr>"] obtain ft where
    "fold (fixedtemp_at E x e nz) js (s\<lparr>m_fixedtemp := v\<rparr>) = s\<lparr>m_fixedtemp := v, m_fixedtemp := ft\<rparr>"
    by blast
  then have "fold (fixedtemp_at E x e nz) (a # js) s = s\<lparr>m_fixedtemp := ft\<rparr>"
    by (simp add: v)
  then show ?case by (rule exI)
qed

lemma StFlow_finalize_frame:
  "\<exists>ft de. StFlow_finalize E x s = s\<lparr>m_fixedtemp := ft, m_do_energy := de\<rparr>"
proof -
  obtain ft where ft: "fold (fixedtemp_at E x (m_do_energy s ! 0) (length (m_zfix s)))
      [0..<m_points s] s = s\<lparr>m_fixedtemp := ft\<rparr>"
    using fold_fixedtemp_frame by blast
  show ?thesis
  proof (cases "m_do_energy s ! 0")
    case True
    with ft have "StFlow_finalize E x s = s\<lparr>m_fixedtemp := ft,
        m_do_energy := fold (\<lambda>i l. l[i := True]) [0..<m_points s] (m_do_energy s)\<rparr>"
      by (simp add: StFlow_finalize_def solveEnergyEqn_def)
    then show ?thesis by blast
  next
    case False
    with ft have "StFlow_finalize E x s = s\<lparr>m_fixedtemp := ft, m_do_energy := m_do_energy s\<rparr>"
      by (simp add: StFlow_finalize_def)
    then show ?thesis by blast
  qed
qed

lemma anchor_on_grid_iff: "anchor_on_grid s js \<longleftrightarrow> (\<exists>j\<in>set js. grid s j = m_zfixed s)"
  by (induction js) auto

lemma relocate_anchor_first:
  assumes "js = pre @ j # post" "\<forall>i\<in>set pre. (T s x i - m_tfixed s) * (T s x (i + 1) - m_tfixed s) > 0"
    "(T s x j - m_tfixed s) * (T s x (j + 1) - m_tfixed s) \<le> 0"
  shows "relocate_anchor x js s = s\<lparr>m_tfixed := T s x (j + 1), m_zfixed := grid s (j + 1)\<rparr>"
  using assms by (induction pre arbitrary: js) auto

lemma frame_accessors:
  "T (s\<lparr>m_fixedtemp := ft, m_do_energy := de\<rparr>) x j = T s x j"
  "grid (s\<lparr>m_fixedtemp := ft, m_do_energy := de\<rparr>) j = grid s j"
  by (simp_all add: T_def grid_def index_def)

text \<open>
  Claim C8. For the free-propagating-flame variant with an anchor temperature set
  (\<open>m_tfixed \<noteq> Undef\<close>): if some grid point coordinate equals the anchor coordinate,
  \<^verbatim>\<open>_finalize\<close> leaves the anchor unchanged; otherwise, if the temperature profile
  crosses the anchor temperature in the interval \<open>[j, j+1]\<close> and in no other interval,
  \<^verbatim>\<open>_finalize\<close> sets the anchor coordinate to \<open>z(j+1)\<close> and the anchor temperature to
  \<open>T(x,j+1)\<close>.
\<close>

theorem FreeFlame_finalize_anchor:
  assumes "m_tfixed s \<noteq> Undef"
  shows "((\<exists>j<m_points s. grid s j = m_zfixed s) \<longrightarrow>
            m_zfixed (FreeFlame_finalize E x s) = m_zfixed s
          \<and> m_tfixed (FreeFlame_finalize E x s) = m_tfixed s)
       \<and> ((\<forall>i<m_points s. grid s i \<noteq> m_zfixed s) \<and> j + 1 < m_points s
          \<and> (T s x j - m_tfixed s) * (T s x (j + 1) - m_tfixed s) \<le> 0
          \<and> (\<forall>i. i + 1 < m_points s \<and> i \<noteq> j \<longrightarrow>
                 (T s x i - m_tfixed s) * (T s x (i + 1) - m_tfixed s) > 0) \<longrightarrow>
            m_zfixed (FreeFlame_finalize E x s) = grid s (j + 1)
          \<and> m_tfixed (FreeFlame_finalize E x s) = T s x (j + 1))"
proof -
  obtain ft de where f: "StFlow_finalize E x s = s\<lparr>m_fixedtemp := ft, m_do_energy := de\<rparr>"
    using StFlow_finalize_frame by blast
  let ?s1 = "s\<lparr>m_fixedtemp := ft, m_do_energy := de\<rparr>"
  have og: "anchor_on_grid ?s1 [0..<m_points s] \<longleftrightarrow> (\<exists>j<m_points s. grid s j = m_zfixed s)"
    by (auto simp: anchor_on_grid_iff frame_accessors)
  show ?thesis
  proof (intro conjI impI)
    assume "\<exists>j<m_points s. grid s j = m_zfixed s"
    with og assms f show "m_zfixed (FreeFlame_finalize E x s) = m_zfixed s"
      and "m_tfixed (FreeFlame_finalize E x s) = m_tfixed s"
      by (simp_all add: FreeFlame_finalize_def)
  next
    assume h: "(\<forall>i<m_points s. grid s i \<noteq> m_zfixed s) \<and> j + 1 < m_points s
          \<and> (T s x j - m_tfixed s) * (T s x (j + 1) - m_tfixed s) \<le> 0
          \<and> (\<forall>i. i + 1 < m_points s \<and> i \<noteq> j \<longrightarrow>
                 (T s x i - m_tfixed s) * (T s x (i + 1) - m_tfixed s) > 0)"
    then have ng: "\<not> anchor_on_grid ?s1 [0..<m_points s]" using og by auto
    from h have p: "size_sub (m_points s) 1 = m_points s - 1" by (simp add: size_sub_def)
    from h have sp: "[0..<m_points s - 1] = [0..<j] @ j # [j + 1..<m_points s - 1]"
      by (metis Suc_eq_plus1 less_diff_conv upt_conv_Cons upt_add_eq_append le0 add_0 less_imp_le_nat le_add_diff_inverse)
    have pre: "\<forall>i\<in>set [0..<j]. (T ?s1 x i - m_tfixed ?s1) * (T ?s1 x (i + 1) - m_tfixed ?s1) > 0"
      using h by (auto simp: frame_accessors)
    have cr: "(T ?s1 x j - m_tfixed ?s1) * (T ?s1 x (j + 1) - m_tfixed ?s1) \<le> 0"
      using h by (simp add: frame_accessors)
    from relocate_anchor_first[OF sp pre cr]
    have "relocate_anchor x [0..<m_points s - 1] ?s1
        = ?s1\<lparr>m_tfixed := T ?s1 x (j + 1), m_zfixed := grid ?s1 (j + 1)\<rparr>" .
    with ng assms f p show "m_zfixed (FreeFlame_finalize E x s) = grid s (j + 1)"
      and "m_tfixed (FreeFlame_finalize E x s) = T s x (j + 1)"
      by (simp_all add: FreeFlame_finalize_def frame_accessors)
  qed
qed


lemma less_3_cases: "(i::nat) < 3 \<longleftrightarrow> i = 0 \<or> i = 1 \<or> i = 2"
  by auto

text \<open>The theorem on the three-point domain with the temperatures \<open>300, 400, 500\<close>:
  an anchor at grid point \<open>1\<close> stays; an anchor at \<open>1/2\<close> with temperature \<open>450\<close>
  moves to the grid point \<open>2\<close> and takes the temperature \<open>500\<close> there.\<close>

theorem FreeFlame_finalize_anchor_witness:
  "m_tfixed flame3_on \<noteq> Undef \<and> (\<exists>j<m_points flame3_on. grid flame3_on j = m_zfixed flame3_on)
   \<and> m_zfixed (FreeFlame_finalize env0 soln3 flame3_on) = 1
   \<and> m_tfixed (FreeFlame_finalize env0 soln3 flame3_on) = 450
   \<and> m_tfixed flame3_off \<noteq> Undef
   \<and> m_points flame3_off = 3
   \<and> grid flame3_off 0 \<noteq> m_zfixed flame3_off
   \<and> grid flame3_off 1 \<noteq> m_zfixed flame3_off
   \<and> grid flame3_off 2 \<noteq> m_zfixed flame3_off
   \<and> (T flame3_off soln3 1 - m_tfixed flame3_off)
        * (T flame3_off soln3 (1 + 1) - m_tfixed flame3_off) \<le> 0
   \<and> m_zfixed (FreeFlame_finalize env0 soln3 flame3_off) = 2
   \<and> m_tfixed (FreeFlame_finalize env0 soln3 flame3_off) = 500"
proof -
  have a: "m_tfixed flame3_on \<noteq> Undef" "m_tfixed flame3_off \<noteq> Undef"
    by (simp_all add: flame3_on_def flame3_off_def Undef_def)
  have b: "\<exists>j<m_points flame3_on. grid flame3_on j = m_zfixed flame3_on"
    by (rule exI[of _ 1]) (simp add: flame3_on_def flow3_def grid_def)
  have c: "\<forall>i<m_points flame3_off. grid flame3_off i \<noteq> m_zfixed flame3_off"
    by (auto simp: flame3_off_def flow3_def grid_def less_3_cases)
  have tt: "T flame3_off soln3 (1 + 1) = 500"
    by (simp add: flame3_off_def flow3_def flow0_def T_def index_def c_offset_T_def soln3_def)
  have d: "(T flame3_off soln3 1 - m_tfixed flame3_off)
        * (T flame3_off soln3 (1 + 1) - m_tfixed flame3_off) \<le> 0"
    by (simp add: flame3_off_def flow3_def flow0_def T_def index_def c_offset_T_def soln3_def)
  have e: "\<forall>i. i + 1 < m_points flame3_off \<and> i \<noteq> 1 \<longrightarrow>
     (T flame3_off soln3 i - m_tfixed flame3_off)
        * (T flame3_off soln3 (i + 1) - m_tfixed flame3_off) > 0"
  proof (intro allI impI)
    fix i assume "i + 1 < m_points flame3_off \<and> i \<noteq> 1"
    then have "i = 0" by (simp add: flame3_off_def flow3_def)
    then show "(T flame3_off soln3 i - m_tfixed flame3_off)
        * (T flame3_off soln3 (i + 1) - m_tfixed flame3_off) > 0"
      by (simp add: flame3_off_def flow3_def flow0_def T_def index_def c_offset_T_def soln3_def)
  qed
  have f: "1 + 1 < m_points flame3_off" by (simp add: flame3_off_def flow3_def)
  have g: "grid flame3_off (1 + 1) = 2" "m_zfixed flame3_on = 1" "m_tfixed flame3_on = 450"
    by (simp_all add: flame3_off_def flame3_on_def flow3_def grid_def)
  from FreeFlame_finalize_anchor[OF a(1), where E=env0 and x=soln3 and j=1] b
  have on: "m_zfixed (FreeFlame_finalize env0 soln3 flame3_on) = 1
   \<and> m_tfixed (FreeFlame_finalize env0 soln3 flame3_on) = 450"
    by (simp add: g)
  from FreeFlame_finalize_anchor[OF a(2), where E=env0 and x=soln3 and j=1] c d e f
  have off: "m_zfixed (FreeFlame_finalize env0 soln3 flame3_off) = 2
   \<and> m_tfixed (FreeFlame_finalize env0 soln3 flame3_off) = 500"
    using g(1) tt by simp
  have h: "m_points flame3_off = 3" "grid flame3_off 0 \<noteq> m_zfixed flame3_off"
    "grid flame3_off 1 \<noteq> m_zfixed flame3_off" "grid flame3_off 2 \<noteq> m_zfixed flame3_off"
    by (simp_all add: flame3_off_def flow3_def grid_def)
  from a b d h on off show ?thesis by blast
qed

section \<open>What the operations leave alone\<close>

lemma fold_preserves:
  assumes "\<And>j s. sel (g j s) = sel s"
  shows "sel (fold g js s) = sel s"
  by (induction js arbitrary: s) (simp_all add: assms)

lemma layout_setGas: "layout_of (setGas x j s) = layout_of s"
  by (simp add: layout_of_def setGas_def)

lemma layout_setGasAtMidpoint: "layout_of (setGasAtMidpoint x j s) = layout_of s"
  by (simp add: layout_of_def setGasAtMidpoint_def Let_def)

lemma layout_updateThermo: "layout_of (updateThermo E x j0 j1 s) = layout_of s"
  unfolding updateThermo_def
  by (rule fold_preserves) (simp add: layout_of_def setGas_def Let_def)

lemma layout_updateTransport: "layout_of (updateTransport E x j0 j1 s) = layout_of s"
proof -
  have a: "\<And>j s. layout_of (updateTransport_mix E x j s) = layout_of s"
    by (simp add: layout_of_def updateTransport_mix_def setGasAtMidpoint_def Let_def)
  have b: "\<And>j s. layout_of (updateTransport_multi E x j s) = layout_of s"
    by (simp add: layout_of_def updateTransport_multi_def setGasAtMidpoint_def Let_def)
  show ?thesis
    unfolding updateTransport_def
    by (simp add: fold_preserves[of layout_of, OF a] fold_preserves[of layout_of, OF b])
qed


lemma layout_updateDiffFluxes:
  "updateDiffFluxes x j0 j1 s = Inr s' \<Longrightarrow> layout_of s' = layout_of s"
  by (auto simp: updateDiffFluxes_def layout_of_def split: if_splits)

lemma layout_update_properties:
  "update_properties E jg x s = Inr s' \<Longrightarrow> layout_of s' = layout_of s"
  unfolding update_properties_def Let_def
  by (auto dest!: layout_updateDiffFluxes simp: layout_updateThermo layout_updateTransport)

lemma layout_update_radiation: "layout_of (update_radiation E x jmin jmax s) = layout_of s"
  by (simp add: update_radiation_def layout_of_def)

lemma layout_getWdot: "layout_of (getWdot E x j s) = layout_of s"
  by (simp add: getWdot_def layout_of_def setGas_def Let_def)

section \<open>Assignments to the residual and flag buffers\<close>

lemma length_apply_writes: "length (apply_writes off ws l) = length l"
  unfolding apply_writes_def by (induction ws arbitrary: l) auto

lemma apply_writes_append:
  "apply_writes off (a @ b) l = apply_writes off b (apply_writes off a l)"
  by (simp add: apply_writes_def)

lemma apply_writes_Cons:
  "apply_writes off ((i, v) # ws) l = apply_writes off ws (l[off + i := v])"
  by (simp add: apply_writes_def)

lemma apply_writes_Nil: "apply_writes off [] l = l"
  by (simp add: apply_writes_def)

lemma apply_writes_other:
  "\<forall>(i, v)\<in>set ws. off + i \<noteq> p \<Longrightarrow> apply_writes off ws l ! p = l ! p"
  unfolding apply_writes_def by (induction ws arbitrary: l) auto

lemma apply_writes_outside:
  assumes "writes_within lo hi ws" "\<not> (off + lo \<le> p \<and> p < off + hi)"
  shows "apply_writes off ws l ! p = l ! p"
proof (rule apply_writes_other)
  show "\<forall>(i, v)\<in>set ws. off + i \<noteq> p"
    using assms by (auto simp: writes_within_def)
qed

lemma apply_writes_final:
  assumes "off + i < length l" "\<forall>(i', v')\<in>set ws2. i' \<noteq> i"
  shows "apply_writes off (ws1 @ (i, v) # ws2) l ! (off + i) = v"
proof -
  have "\<forall>(i', v')\<in>set ws2. off + i' \<noteq> off + i" using assms(2) by auto
  then show ?thesis using assms(1)
    by (simp add: apply_writes_append apply_writes_Cons apply_writes_other length_apply_writes)
qed

lemma writes_within_append:
  "writes_within lo hi (a @ b) \<longleftrightarrow> writes_within lo hi a \<and> writes_within lo hi b"
  by (auto simp: writes_within_def)

lemma writes_within_Cons:
  "writes_within lo hi (w # ws) \<longleftrightarrow> lo \<le> fst w \<and> fst w < hi \<and> writes_within lo hi ws"
  by (cases w) (auto simp: writes_within_def)

lemma writes_within_Nil: "writes_within lo hi []"
  by (simp add: writes_within_def)

lemma writes_within_map:
  "writes_within lo hi (map f ks) \<longleftrightarrow> (\<forall>k\<in>set ks. lo \<le> fst (f k) \<and> fst (f k) < hi)"
  by (force simp: writes_within_def)

lemmas ww_simps = writes_within_append writes_within_Cons writes_within_Nil writes_within_map

lemmas offset_defs = c_offset_U_def c_offset_V_def c_offset_T_def c_offset_L_def c_offset_Y_def

lemma left_within:
  assumes "m_nv s = m_nsp s + 4" "0 < m_nsp s"
  shows "writes_within 0 (m_nv s) (evalLeftBoundary s x)"
  using assms by (simp add: evalLeftBoundary_def ww_simps index_def offset_defs)

lemma right_within:
  assumes "m_nv s = m_nsp s + 4" "0 < m_nsp s" "j = size_sub (m_points s) 1"
  shows "writes_within (m_nv s * j) (m_nv s * j + m_nv s) (fst (evalRightBoundary kind s x))"
    and "writes_within (m_nv s * j) (m_nv s * j + m_nv s) (snd (evalRightBoundary kind s x))"
  using assms
  by (cases kind; simp add: evalRightBoundary_def AxiStagnFlow_evalRightBoundary_def
      FreeFlame_evalRightBoundary_def Let_def ww_simps index_def offset_defs)+

lemma continuity_within:
  assumes "m_nv s = m_nsp s + 4"
  shows "writes_within (m_nv s * j) (m_nv s * j + m_nv s) (fst (evalContinuity kind s x j))"
    and "writes_within (m_nv s * j) (m_nv s * j + m_nv s) (snd (evalContinuity kind s x j))"
  using assms
  by (cases kind; simp add: evalContinuity_def AxiStagnFlow_evalContinuity_def
      FreeFlame_evalContinuity_def ww_simps index_def offset_defs)+

lemma layout_index: "layout_of s' = layout_of s \<Longrightarrow> index s' c j = index s c j"
  by (simp add: layout_of_def index_def)

lemma layout_energy_row: "layout_of (fst (energy_row E x rdt j s)) = layout_of s"
  by (simp add: energy_row_def Let_def layout_setGas)

lemma energy_row_pos:
  "fst (fst (snd (energy_row E x rdt j s))) = index s c_offset_T j"
  "fst (snd (snd (energy_row E x rdt j s))) = index s c_offset_T j"
  by (simp_all add: energy_row_def Let_def layout_index[OF layout_setGas])

lemma energy_row_disabled:
  "\<not> m_do_energy s ! j \<Longrightarrow>
   energy_row E x rdt j s
     = (s, (index s c_offset_T j, T s x j - T_fixed s j), (index s c_offset_T j, 0))"
  by (simp add: energy_row_def)

section \<open>The rows of an interior point\<close>

lemma layout_accessors:
  assumes "layout_of s' = layout_of s"
  shows "T s' x j = T s x j" "T_fixed s' j = T_fixed s j" "lambda s' x j = lambda s x j"
    "loc s' = loc s" "m_do_energy s' = m_do_energy s" "m_nv s' = m_nv s" "m_nsp s' = m_nsp s"
    "m_points s' = m_points s" "m_transport_option s' = m_transport_option s"
    "m_do_soret s' = m_do_soret s" "m_jstart s' = m_jstart s"
  using assms by (simp_all add: layout_of_def T_def T_fixed_def lambda_def index_def loc_def)

lemma species_within:
  assumes "m_nv s = m_nsp s + 4"
  shows "writes_within (m_nv s * j) (m_nv s * j + m_nv s) (species_rows E x rdt j s)"
    and "writes_within (m_nv s * j) (m_nv s * j + m_nv s) (species_flags j s)"
  using assms
  by (simp_all add: species_rows_def species_flags_def Let_def ww_simps index_def offset_defs)

lemma interior_rows_layout: "layout_of (fst (interior_rows E kind x rdt j s)) = layout_of s"
  by (simp add: interior_rows_def Let_def split_beta layout_energy_row layout_getWdot)

lemma interior_rows_within:
  assumes "m_nv s = m_nsp s + 4"
  shows "writes_within (m_nv s * j) (m_nv s * j + m_nv s) (fst (snd (interior_rows E kind x rdt j s)))"
    and "writes_within (m_nv s * j) (m_nv s * j + m_nv s) (snd (snd (interior_rows E kind x rdt j s)))"
proof -
  let ?s1 = "getWdot E x j s"
  have l1: "layout_of ?s1 = layout_of s" by (rule layout_getWdot)
  have l2: "layout_of (fst (energy_row E x rdt j ?s1)) = layout_of s"
    by (simp add: layout_energy_row l1)
  have nv1: "m_nv ?s1 = m_nsp ?s1 + 4" using assms layout_accessors(6,7)[OF l1] by simp
  have sw: "writes_within (m_nv s * j) (m_nv s * j + m_nv s) (species_rows E x rdt j ?s1)"
    "writes_within (m_nv s * j) (m_nv s * j + m_nv s) (species_flags j ?s1)"
    using species_within[OF nv1] layout_accessors(6)[OF l1] by simp_all
  have cw: "writes_within (m_nv s * j) (m_nv s * j + m_nv s) (fst (evalContinuity kind s x j))"
    "writes_within (m_nv s * j) (m_nv s * j + m_nv s) (snd (evalContinuity kind s x j))"
    using continuity_within[OF assms] by simp_all
  have ep: "fst (fst (snd (energy_row E x rdt j ?s1))) = index s c_offset_T j"
    "fst (snd (snd (energy_row E x rdt j ?s1))) = index s c_offset_T j"
    by (simp_all add: energy_row_pos layout_index[OF l1])
  have e1: "writes_within (m_nv s * j) (m_nv s * j + m_nv s) [fst (snd (energy_row E x rdt j ?s1))]"
    using ep(1) assms by (simp add: ww_simps index_def offset_defs)
  have e2: "writes_within (m_nv s * j) (m_nv s * j + m_nv s) [snd (snd (energy_row E x rdt j ?s1))]"
    using ep(2) assms by (simp add: ww_simps index_def offset_defs)
  have m: "writes_within (m_nv s * j) (m_nv s * j + m_nv s) [momentum_row E x rdt j s]"
    using assms by (simp add: momentum_row_def ww_simps index_def offset_defs)
  show "writes_within (m_nv s * j) (m_nv s * j + m_nv s) (fst (snd (interior_rows E kind x rdt j s)))"
    using cw(1) sw(1) e1 m assms
    by (simp add: interior_rows_def Let_def split_beta writes_within_append layout_index[OF l2])
       (simp add: ww_simps index_def offset_defs)
  show "writes_within (m_nv s * j) (m_nv s * j + m_nv s) (snd (snd (interior_rows E kind x rdt j s)))"
    using cw(2) sw(2) e2 assms
    by (simp add: interior_rows_def Let_def split_beta writes_within_append layout_index[OF l2])
       (simp add: ww_simps index_def offset_defs)
qed

lemma interior_rows_disabled:
  assumes "\<not> m_do_energy s ! j"
  shows "\<exists>rw dw lv. snd (interior_rows E kind x rdt j s) =
     (rw @ [(index s c_offset_T j, T s x j - T_fixed s j), (index s c_offset_L j, lv)],
      dw @ [(index s c_offset_T j, 0), (index s c_offset_L j, 0)])"
proof -
  let ?s1 = "getWdot E x j s"
  have l1: "layout_of ?s1 = layout_of s" by (rule layout_getWdot)
  have d: "\<not> m_do_energy ?s1 ! j" using assms layout_accessors(5)[OF l1] by simp
  have e: "energy_row E x rdt j ?s1
     = (?s1, (index s c_offset_T j, T s x j - T_fixed s j), (index s c_offset_T j, 0))"
    by (simp add: energy_row_disabled[OF d] layout_index[OF l1] layout_accessors(1,2)[OF l1])
  have "snd (interior_rows E kind x rdt j s) =
     ((fst (evalContinuity kind s x j) @ [momentum_row E x rdt j s] @ species_rows E x rdt j ?s1)
        @ [(index s c_offset_T j, T s x j - T_fixed s j),
           (index s c_offset_L j, lambda ?s1 x j - lambda ?s1 x (j - 1))],
      (snd (evalContinuity kind s x j) @ [(index s c_offset_V j, 1)] @ species_flags j ?s1)
        @ [(index s c_offset_T j, 0), (index s c_offset_L j, 0)])"
    by (simp add: interior_rows_def Let_def split_beta e layout_index[OF l1])
  then show ?thesis by blast
qed

section \<open>The loop over the points\<close>

lemma point_frameD:
  assumes "point_frame f" "m_nv s = m_nsp s + 4" "0 < m_nsp s"
    "f j (s, rg, dg) = (s', rg', dg')"
  shows "layout_of s' = layout_of s" "length rg' = length rg" "length dg' = length dg"
    "\<And>p. \<not> (loc s + m_nv s * j \<le> p \<and> p < loc s + m_nv s * j + m_nv s) \<Longrightarrow>
                  rg' ! p = rg ! p \<and> dg' ! p = dg ! p"
proof -
  note a = assms(1)[unfolded point_frame_def, THEN spec[of _ j], THEN spec[of _ s],
      THEN spec[of _ rg], THEN spec[of _ dg]]
  from a assms(2,3,4) show "layout_of s' = layout_of s" "length rg' = length rg"
    "length dg' = length dg" by simp_all
  fix p assume "\<not> (loc s + m_nv s * j \<le> p \<and> p < loc s + m_nv s * j + m_nv s)"
  with a assms(2,3,4) show "rg' ! p = rg ! p \<and> dg' ! p = dg ! p" by simp
qed

lemma point_frameI:
  assumes "\<And>j s rg dg. m_nv s = m_nsp s + 4 \<Longrightarrow> 0 < m_nsp s \<Longrightarrow>
      \<exists>s' rw dw. f j (s, rg, dg) = (s', apply_writes (loc s) rw rg, apply_writes (loc s) dw dg)
        \<and> layout_of s' = layout_of s
        \<and> writes_within (m_nv s * j) (m_nv s * j + m_nv s) rw
        \<and> writes_within (m_nv s * j) (m_nv s * j + m_nv s) dw"
  shows "point_frame f"
  unfolding point_frame_def
proof (intro allI impI)
  fix j and s :: flow and rg :: "real list" and dg :: "int list"
  assume "m_nv s = m_nsp s + 4 \<and> 0 < m_nsp s"
  then have a1: "m_nv s = m_nsp s + 4" and a2: "0 < m_nsp s" by simp_all
  from assms[OF a1 a2, of j rg dg] obtain s' rw dw where
    r: "f j (s, rg, dg) = (s', apply_writes (loc s) rw rg, apply_writes (loc s) dw dg)"
      "layout_of s' = layout_of s"
      "writes_within (m_nv s * j) (m_nv s * j + m_nv s) rw"
      "writes_within (m_nv s * j) (m_nv s * j + m_nv s) dw"
    by blast
  have o: "\<And>p. \<not> (loc s + m_nv s * j \<le> p \<and> p < loc s + m_nv s * j + m_nv s) \<Longrightarrow>
      apply_writes (loc s) rw rg ! p = rg ! p \<and> apply_writes (loc s) dw dg ! p = dg ! p"
  proof -
    fix p assume "\<not> (loc s + m_nv s * j \<le> p \<and> p < loc s + m_nv s * j + m_nv s)"
    then have n: "\<not> (loc s + m_nv s * j \<le> p \<and> p < loc s + (m_nv s * j + m_nv s))"
      by (simp add: add.assoc)
    show "apply_writes (loc s) rw rg ! p = rg ! p \<and> apply_writes (loc s) dw dg ! p = dg ! p"
      using apply_writes_outside[OF r(3) n] apply_writes_outside[OF r(4) n] by simp
  qed
  show "case f j (s, rg, dg) of (s', rg', dg') \<Rightarrow>
           layout_of s' = layout_of s \<and> length rg' = length rg \<and> length dg' = length dg
           \<and> (\<forall>p. \<not> (loc s + m_nv s * j \<le> p \<and> p < loc s + m_nv s * j + m_nv s) \<longrightarrow>
                  rg' ! p = rg ! p \<and> dg' ! p = dg ! p)"
    using o r(2) by (simp add: r(1) length_apply_writes)
qed

lemma point_frame_eval_point: "point_frame (eval_point E kind x rdt)"
proof (rule point_frameI)
  fix j and s :: flow and rg :: "real list" and dg :: "int list"
  assume nv: "m_nv s = m_nsp s + 4" and sp: "0 < m_nsp s"
  show "\<exists>s' rw dw. eval_point E kind x rdt j (s, rg, dg)
          = (s', apply_writes (loc s) rw rg, apply_writes (loc s) dw dg)
        \<and> layout_of s' = layout_of s
        \<and> writes_within (m_nv s * j) (m_nv s * j + m_nv s) rw
        \<and> writes_within (m_nv s * j) (m_nv s * j + m_nv s) dw"
  proof (cases "j = 0")
    case True
    have "eval_point E kind x rdt j (s, rg, dg)
          = (s, apply_writes (loc s) (evalLeftBoundary s x) rg, apply_writes (loc s) [] dg)"
      using True by (simp add: eval_point_def apply_writes_Nil)
    then show ?thesis using left_within[OF nv sp, of x] True
      by (intro exI[of _ s] exI[of _ "evalLeftBoundary s x"] exI[of _ "[]"])
         (simp add: writes_within_Nil)
  next
    case False
    show ?thesis
    proof (cases "j = size_sub (m_points s) 1")
      case True
      have "eval_point E kind x rdt j (s, rg, dg)
          = (s, apply_writes (loc s) (fst (evalRightBoundary kind s x)) rg,
                apply_writes (loc s) (snd (evalRightBoundary kind s x)) dg)"
        using False True by (simp add: eval_point_def split_beta)
      then show ?thesis using right_within[OF nv sp True, of kind x]
        by (intro exI[of _ s] exI[of _ "fst (evalRightBoundary kind s x)"]
            exI[of _ "snd (evalRightBoundary kind s x)"]) simp
    next
      case j: False
      have "eval_point E kind x rdt j (s, rg, dg)
          = (fst (interior_rows E kind x rdt j s),
             apply_writes (loc s) (fst (snd (interior_rows E kind x rdt j s))) rg,
             apply_writes (loc s) (snd (snd (interior_rows E kind x rdt j s))) dg)"
        using False j by (simp add: eval_point_def split_beta)
      then show ?thesis using interior_rows_within[OF nv, of j E kind x rdt]
        by (intro exI[of _ "fst (interior_rows E kind x rdt j s)"]
            exI[of _ "fst (snd (interior_rows E kind x rdt j s))"]
            exI[of _ "snd (snd (interior_rows E kind x rdt j s))"])
           (simp add: interior_rows_layout)
    qed
  qed
qed

lemma block_disjoint:
  assumes "j' \<noteq> j" "c < (n::nat)"
  shows "\<not> (off + n * j' \<le> off + (n * j + c) \<and> off + (n * j + c) < off + n * j' + n)"
proof
  assume a: "off + n * j' \<le> off + (n * j + c) \<and> off + (n * j + c) < off + n * j' + n"
  from assms(1) consider "j' < j" | "j < j'" by linarith
  then show False
  proof cases
    case 1
    then have "Suc j' \<le> j" by simp
    then have "n * Suc j' \<le> n * j" by (rule mult_le_mono2)
    with a show False by simp
  next
    case 2
    then have "Suc j \<le> j'" by simp
    then have "n * Suc j \<le> n * j'" by (rule mult_le_mono2)
    with a assms(2) show False by simp
  qed
qed

lemma fold_points_other:
  assumes f: "point_frame f" and wf: "m_nv s = m_nsp s + 4" "0 < m_nsp s"
    and j: "j \<notin> set js" and c: "c < m_nv s"
  shows "case fold f js (s, rg, dg) of (s', rg', dg') \<Rightarrow>
           layout_of s' = layout_of s \<and> length rg' = length rg \<and> length dg' = length dg
           \<and> rg' ! (loc s + index s c j) = rg ! (loc s + index s c j)
           \<and> dg' ! (loc s + index s c j) = dg ! (loc s + index s c j)"
  using wf j c
proof (induction js arbitrary: s rg dg)
  case Nil
  then show ?case by simp
next
  case (Cons a js)
  obtain s1 rg1 dg1 where s1: "f a (s, rg, dg) = (s1, rg1, dg1)" by (cases "f a (s, rg, dg)")
  note fr = point_frameD[OF f Cons.prems(1,2) s1]
  note la = layout_accessors[OF fr(1)]
  from Cons.prems have aj: "a \<noteq> j" and js: "j \<notin> set js" by auto
  have wf1: "m_nv s1 = m_nsp s1 + 4" "0 < m_nsp s1" "c < m_nv s1"
    using Cons.prems la by simp_all
  from Cons.IH[OF wf1(1,2) js wf1(3), of rg1 dg1]
  have ih: "case fold f js (s1, rg1, dg1) of (s', rg', dg') \<Rightarrow>
           layout_of s' = layout_of s1 \<and> length rg' = length rg1 \<and> length dg' = length dg1
           \<and> rg' ! (loc s1 + index s1 c j) = rg1 ! (loc s1 + index s1 c j)
           \<and> dg' ! (loc s1 + index s1 c j) = dg1 ! (loc s1 + index s1 c j)" .
  have keep: "rg1 ! (loc s + index s c j) = rg ! (loc s + index s c j)
            \<and> dg1 ! (loc s + index s c j) = dg ! (loc s + index s c j)"
    using fr(4)[of "loc s + index s c j"] block_disjoint[OF aj Cons.prems(4), of "loc s"]
    by (simp add: index_def)
  show ?case
    using ih keep fr(1,2,3) la(4) layout_index[OF fr(1)]
    by (simp add: s1 split_beta)
qed

lemma eval_point_target:
  assumes "0 < j" "\<not> m_do_energy s ! j" "j \<noteq> size_sub (m_points s) 1"
    "loc s + index s c_offset_T j < length rg" "loc s + index s c_offset_T j < length dg"
  shows "case eval_point E kind x rdt j (s, rg, dg) of (s', rg', dg') \<Rightarrow>
           rg' ! (loc s + index s c_offset_T j) = T s x j - T_fixed s j
         \<and> dg' ! (loc s + index s c_offset_T j) = 0"
proof -
  from interior_rows_disabled[OF assms(2), of E kind x rdt] obtain rw dw lv where
    r: "snd (interior_rows E kind x rdt j s) =
     (rw @ [(index s c_offset_T j, T s x j - T_fixed s j), (index s c_offset_L j, lv)],
      dw @ [(index s c_offset_T j, 0), (index s c_offset_L j, 0)])"
    by blast
  have ne: "index s c_offset_L j \<noteq> index s c_offset_T j"
    by (simp add: index_def offset_defs)
  have e: "eval_point E kind x rdt j (s, rg, dg)
          = (fst (interior_rows E kind x rdt j s),
             apply_writes (loc s) (fst (snd (interior_rows E kind x rdt j s))) rg,
             apply_writes (loc s) (snd (snd (interior_rows E kind x rdt j s))) dg)"
    using assms(1,3) by (simp add: eval_point_def split_beta)
  show ?thesis
    using apply_writes_final[OF assms(4), of "[(index s c_offset_L j, lv)]" rw "T s x j - T_fixed s j"]
      apply_writes_final[OF assms(5), of "[(index s c_offset_L j, 0)]" dw 0] ne
    by (simp add: e r)
qed

lemma fold_points_target:
  assumes f: "point_frame f"
    and tgt: "\<And>s rg dg. \<not> m_do_energy s ! j \<Longrightarrow> j \<noteq> size_sub (m_points s) 1 \<Longrightarrow>
        loc s + index s c_offset_T j < length rg \<Longrightarrow>
        loc s + index s c_offset_T j < length dg \<Longrightarrow>
        case f j (s, rg, dg) of (s', rg', dg') \<Rightarrow>
           rg' ! (loc s + index s c_offset_T j) = T s x j - T_fixed s j
         \<and> dg' ! (loc s + index s c_offset_T j) = 0"
    and wf: "m_nv s = m_nsp s + 4" "0 < m_nsp s"
    and j: "j \<in> set js" "distinct js"
    and en: "\<not> m_do_energy s ! j" "j \<noteq> size_sub (m_points s) 1"
    and len: "loc s + index s c_offset_T j < length rg" "loc s + index s c_offset_T j < length dg"
  shows "case fold f js (s, rg, dg) of (s', rg', dg') \<Rightarrow>
           layout_of s' = layout_of s
         \<and> rg' ! (loc s + index s c_offset_T j) = T s x j - T_fixed s j
         \<and> dg' ! (loc s + index s c_offset_T j) = 0"
  using wf j en len
proof (induction js arbitrary: s rg dg)
  case Nil
  then show ?case by simp
next
  case (Cons a js)
  obtain s1 rg1 dg1 where s1: "f a (s, rg, dg) = (s1, rg1, dg1)" by (cases "f a (s, rg, dg)")
  note fr = point_frameD[OF f Cons.prems(1,2) s1]
  note la = layout_accessors[OF fr(1)]
  note li = layout_index[OF fr(1)]
  have wf1: "m_nv s1 = m_nsp s1 + 4" "0 < m_nsp s1"
    using Cons.prems(1,2) la by simp_all
  have c: "c_offset_T < m_nv s1" using wf1 by (simp add: offset_defs)
  show ?case
  proof (cases "a = j")
    case True
    with Cons.prems have nj: "j \<notin> set js" by simp
    from tgt[OF Cons.prems(5,6,7,8)] s1 True
    have t: "rg1 ! (loc s + index s c_offset_T j) = T s x j - T_fixed s j"
      "dg1 ! (loc s + index s c_offset_T j) = 0" by simp_all
    from fold_points_other[OF f wf1 nj c, of rg1 dg1] t fr(1) la(4) li
    show ?thesis by (simp add: s1 split_beta)
  next
    case False
    with Cons.prems have jj: "j \<in> set js" "distinct js" by simp_all
    have en1: "\<not> m_do_energy s1 ! j" "j \<noteq> size_sub (m_points s1) 1"
      using Cons.prems(5,6) la by simp_all
    have len1: "loc s1 + index s1 c_offset_T j < length rg1"
      "loc s1 + index s1 c_offset_T j < length dg1"
      using Cons.prems(7,8) la(4) li fr(2,3) by simp_all
    from Cons.IH[OF wf1 jj en1 len1] fr(1) la li
    show ?thesis by (simp add: s1 split_beta)
  qed
qed

section \<open>What the porous variant leaves alone\<close>

lemma solid_pass_frame:
  "\<exists>tw d lg. fst (solid_pass x hc sc rk om rho_s cp_s rdt s) = s\<lparr>Tw := tw, dq := d, logged := lg\<rparr>"
proof -
  have "fst (solid_pass x hc sc rk om rho_s cp_s rdt s)
     = s\<lparr>Tw := Tw (fst (solid_pass x hc sc rk om rho_s cp_s rdt s)),
         dq := dq (fst (solid_pass x hc sc rk om rho_s cp_s rdt s)),
         logged := logged (fst (solid_pass x hc sc rk om rho_s cp_s rdt s))\<rparr>"
    by (simp add: solid_pass_def Let_def split_beta)
  then show ?thesis by (intro exI)
qed

lemma solid_loop_frame:
  "\<exists>tw d lg. fst (solid_loop x hc sc rk om rho_s cp_s rdt count1 s)
     = s\<lparr>Tw := tw, dq := d, logged := lg\<rparr>"
proof (induction x hc sc rk om rho_s cp_s rdt count1 s rule: solid_loop.induct)
  case (1 x hc sc rk om rho_s cp_s rdt count1 s)
  obtain s' nrm stalled where p: "solid_pass x hc sc rk om rho_s cp_s rdt s = (s', nrm, stalled)"
    by (cases "solid_pass x hc sc rk om rho_s cp_s rdt s")
  from solid_pass_frame[of x hc sc rk om rho_s cp_s rdt s] p obtain tw d lg where
    s': "s' = s\<lparr>Tw := tw, dq := d, logged := lg\<rparr>" by auto
  show ?case
  proof (cases "count1 + 1 > 400 \<or> \<not> sqrt nrm > 0.000001")
    case True
    then show ?thesis using s' p
      by (subst solid_loop.simps) (auto simp: Let_def)
  next
    case False
    from "1.IH"[OF refl p[symmetric] refl] False obtain tw2 d2 lg2 where
      "fst (solid_loop x hc sc rk om rho_s cp_s rdt (count1 + 1) s')
         = s'\<lparr>Tw := tw2, dq := d2, logged := lg2\<rparr>" by auto
    then show ?thesis using s' p False
      by (subst solid_loop.simps) (auto simp: Let_def)
  qed
qed

lemma solid_frame:
  "\<exists>tp d tw lg ex. solid x hc sc rk om rho_s cp_s rdt s
     = s\<lparr>Twprev := tp, dq := d, Tw := tw, logged := lg, m_refine_extra := ex\<rparr>"
proof -
  let ?s1 = "s\<lparr>Twprev := Tw s, dq := vec_upd (m_points s) (\<lambda>i d. 0) (dq s)\<rparr>"
  obtain s2 fail1 where l: "solid_loop x hc sc rk om rho_s cp_s rdt 0 ?s1 = (s2, fail1)"
    by (cases "solid_loop x hc sc rk om rho_s cp_s rdt 0 ?s1")
  from solid_loop_frame[of x hc sc rk om rho_s cp_s rdt 0 ?s1] l obtain tw d lg where
    s2: "s2 = ?s1\<lparr>Tw := tw, dq := d, logged := lg\<rparr>" by auto
  have "solid x hc sc rk om rho_s cp_s rdt s
     = s\<lparr>Twprev := Twprev (solid x hc sc rk om rho_s cp_s rdt s),
         dq := dq (solid x hc sc rk om rho_s cp_s rdt s),
         Tw := Tw (solid x hc sc rk om rho_s cp_s rdt s),
         logged := logged (solid x hc sc rk om rho_s cp_s rdt s),
         m_refine_extra := m_refine_extra (solid x hc sc rk om rho_s cp_s rdt s)\<rparr>"
    by (simp add: solid_def Let_def l s2)
  then show ?thesis by (intro exI)
qed

lemma porous_prepare_frame:
  "\<exists>h p d sc tp dq' tw lg ex ds.
     porous_solid x rdt (porous_hconv x jmin jmax (porous_profiles s))
       = s\<lparr>hconv := h, pore := p, diam := d, scond := sc, Twprev := tp, dq := dq', Tw := tw,
           logged := lg, m_refine_extra := ex, dosolid := ds\<rparr>"
proof -
  let ?s1 = "porous_hconv x jmin jmax (porous_profiles s)"
  have s1: "?s1 = s\<lparr>hconv := hconv ?s1, pore := pore ?s1, diam := diam ?s1, scond := scond ?s1\<rparr>"
    by (simp add: porous_hconv_def porous_profiles_def)
  show ?thesis
  proof (cases "dosolid ?s1 = 1")
    case True
    from solid_frame[of x "hconv ?s1" "scond ?s1" "porous_RK ?s1" "porous_Omega ?s1"
        "srho ?s1" "sCp ?s1" rdt ?s1]
    obtain tp d tw lg ex where
      "solid x (hconv ?s1) (scond ?s1) (porous_RK ?s1) (porous_Omega ?s1) (srho ?s1) (sCp ?s1) rdt ?s1
        = ?s1\<lparr>Twprev := tp, dq := d, Tw := tw, logged := lg, m_refine_extra := ex\<rparr>"
      by blast
    with True have "porous_solid x rdt ?s1
       = ?s1\<lparr>Twprev := tp, dq := d, Tw := tw, logged := lg, m_refine_extra := ex, dosolid := 0\<rparr>"
      by (simp add: porous_solid_def)
    also have "\<dots> = s\<lparr>hconv := hconv ?s1, pore := pore ?s1, diam := diam ?s1, scond := scond ?s1,
         Twprev := tp, dq := d, Tw := tw, logged := lg, m_refine_extra := ex, dosolid := 0\<rparr>"
      by (subst s1) simp
    finally show ?thesis by (intro exI)
  next
    case False
    then have "porous_solid x rdt ?s1 = ?s1" by (simp add: porous_solid_def)
    also have "\<dots> = s\<lparr>hconv := hconv ?s1, pore := pore ?s1, diam := diam ?s1, scond := scond ?s1,
         Twprev := Twprev s, dq := dq s, Tw := Tw s, logged := logged s,
         m_refine_extra := m_refine_extra s, dosolid := dosolid s\<rparr>"
      by (subst s1) simp
    finally show ?thesis by (intro exI)
  qed
qed

lemma layout_porous_prepare:
  "layout_of (porous_solid x rdt (porous_hconv x jmin jmax (porous_profiles s))) = layout_of s"
proof -
  from porous_prepare_frame[of x rdt jmin jmax s] obtain h p d sc tp dq' tw lg ex ds where
    "porous_solid x rdt (porous_hconv x jmin jmax (porous_profiles s))
       = s\<lparr>hconv := h, pore := p, diam := d, scond := sc, Twprev := tp, dq := dq', Tw := tw,
           logged := lg, m_refine_extra := ex, dosolid := ds\<rparr>" by blast
  then show ?thesis by (simp add: layout_of_def)
qed


section \<open>The rows of an interior point of the porous variant\<close>

lemma porous_species_within:
  assumes "m_nv s = m_nsp s + 4"
  shows "writes_within (m_nv s * j) (m_nv s * j + m_nv s) (porous_species_rows E x rdt j s)"
  using assms
  by (simp add: porous_species_rows_def Let_def ww_simps index_def offset_defs)

lemma porous_continuity_within:
  assumes "m_nv s = m_nsp s + 4"
  shows "writes_within (m_nv s * j) (m_nv s * j + m_nv s) (fst (porous_continuity s x j))"
    and "writes_within (m_nv s * j) (m_nv s * j + m_nv s) (snd (porous_continuity s x j))"
  using assms by (simp_all add: porous_continuity_def ww_simps index_def offset_defs)

lemma layout_porous_energy_row: "layout_of (fst (porous_energy_row E x rdt j s)) = layout_of s"
  by (simp add: porous_energy_row_def Let_def layout_setGas)

lemma porous_energy_row_pos:
  "fst (fst (snd (porous_energy_row E x rdt j s))) = index s c_offset_T j"
  "fst (snd (snd (porous_energy_row E x rdt j s))) = index s c_offset_T j"
  by (simp_all add: porous_energy_row_def Let_def layout_index[OF layout_setGas])

lemma porous_energy_row_disabled:
  "\<not> m_do_energy s ! j \<Longrightarrow>
   porous_energy_row E x rdt j s
     = (s, (index s c_offset_T j, T s x j - T_fixed s j), (index s c_offset_T j, 0))"
  by (simp add: porous_energy_row_def)

lemma porous_interior_rows_layout:
  "layout_of (fst (porous_interior_rows E x rdt j s)) = layout_of s"
  by (simp add: porous_interior_rows_def Let_def split_beta layout_porous_energy_row layout_getWdot)

lemma porous_interior_rows_within:
  assumes "m_nv s = m_nsp s + 4"
  shows "writes_within (m_nv s * j) (m_nv s * j + m_nv s) (fst (snd (porous_interior_rows E x rdt j s)))"
    and "writes_within (m_nv s * j) (m_nv s * j + m_nv s) (snd (snd (porous_interior_rows E x rdt j s)))"
proof -
  let ?s1 = "getWdot E x j s"
  have l1: "layout_of ?s1 = layout_of s" by (rule layout_getWdot)
  have l2: "layout_of (fst (porous_energy_row E x rdt j ?s1)) = layout_of s"
    by (simp add: layout_porous_energy_row l1)
  have nv1: "m_nv ?s1 = m_nsp ?s1 + 4" using assms layout_accessors(6,7)[OF l1] by simp
  have sw: "writes_within (m_nv s * j) (m_nv s * j + m_nv s) (porous_species_rows E x rdt j ?s1)"
    "writes_within (m_nv s * j) (m_nv s * j + m_nv s) (species_flags j ?s1)"
    using porous_species_within[OF nv1] species_within(2)[OF nv1] layout_accessors(6)[OF l1]
    by simp_all
  have cw: "writes_within (m_nv s * j) (m_nv s * j + m_nv s) (fst (porous_continuity s x j))"
    "writes_within (m_nv s * j) (m_nv s * j + m_nv s) (snd (porous_continuity s x j))"
    using porous_continuity_within[OF assms] by simp_all
  have ep: "fst (fst (snd (porous_energy_row E x rdt j ?s1))) = index s c_offset_T j"
    "fst (snd (snd (porous_energy_row E x rdt j ?s1))) = index s c_offset_T j"
    by (simp_all add: porous_energy_row_pos layout_index[OF l1])
  have e1: "writes_within (m_nv s * j) (m_nv s * j + m_nv s) [fst (snd (porous_energy_row E x rdt j ?s1))]"
    using ep(1) assms by (simp add: ww_simps index_def offset_defs)
  have e2: "writes_within (m_nv s * j) (m_nv s * j + m_nv s) [snd (snd (porous_energy_row E x rdt j ?s1))]"
    using ep(2) assms by (simp add: ww_simps index_def offset_defs)
  have m: "writes_within (m_nv s * j) (m_nv s * j + m_nv s) [momentum_row E x rdt j s]"
    using assms by (simp add: momentum_row_def ww_simps index_def offset_defs)
  show "writes_within (m_nv s * j) (m_nv s * j + m_nv s) (fst (snd (porous_interior_rows E x rdt j s)))"
    using cw(1) sw(1) e1 m assms
    by (simp add: porous_interior_rows_def Let_def split_beta writes_within_append layout_index[OF l2])
       (simp add: ww_simps index_def offset_defs)
  show "writes_within (m_nv s * j) (m_nv s * j + m_nv s) (snd (snd (porous_interior_rows E x rdt j s)))"
    using cw(2) sw(2) e2 assms
    by (simp add: porous_interior_rows_def Let_def split_beta writes_within_append layout_index[OF l2])
       (simp add: ww_simps index_def offset_defs)
qed

lemma porous_interior_rows_disabled:
  assumes "\<not> m_do_energy s ! j"
  shows "\<exists>rw dw lv. snd (porous_interior_rows E x rdt j s) =
     (rw @ [(index s c_offset_T j, T s x j - T_fixed s j), (index s c_offset_L j, lv)],
      dw @ [(index s c_offset_T j, 0), (index s c_offset_L j, 0)])"
proof -
  let ?s1 = "getWdot E x j s"
  have l1: "layout_of ?s1 = layout_of s" by (rule layout_getWdot)
  have d: "\<not> m_do_energy ?s1 ! j" using assms layout_accessors(5)[OF l1] by simp
  have e: "porous_energy_row E x rdt j ?s1
     = (?s1, (index s c_offset_T j, T s x j - T_fixed s j), (index s c_offset_T j, 0))"
    by (simp add: porous_energy_row_disabled[OF d] layout_index[OF l1] layout_accessors(1,2)[OF l1])
  have "snd (porous_interior_rows E x rdt j s) =
     ((fst (porous_continuity s x j) @ [momentum_row E x rdt j s] @ porous_species_rows E x rdt j ?s1)
        @ [(index s c_offset_T j, T s x j - T_fixed s j),
           (index s c_offset_L j, lambda ?s1 x j - lambda ?s1 x (j - 1))],
      (snd (porous_continuity s x j) @ [(index s c_offset_V j, 1)] @ species_flags j ?s1)
        @ [(index s c_offset_T j, 0), (index s c_offset_L j, 0)])"
    by (simp add: porous_interior_rows_def Let_def split_beta e layout_index[OF l1])
  then show ?thesis by blast
qed

lemma point_frame_porous_eval_point: "point_frame (porous_eval_point E x rdt)"
proof (rule point_frameI)
  fix j and s :: flow and rg :: "real list" and dg :: "int list"
  assume nv: "m_nv s = m_nsp s + 4" and sp: "0 < m_nsp s"
  show "\<exists>s' rw dw. porous_eval_point E x rdt j (s, rg, dg)
          = (s', apply_writes (loc s) rw rg, apply_writes (loc s) dw dg)
        \<and> layout_of s' = layout_of s
        \<and> writes_within (m_nv s * j) (m_nv s * j + m_nv s) rw
        \<and> writes_within (m_nv s * j) (m_nv s * j + m_nv s) dw"
  proof (cases "j = 0")
    case True
    have "porous_eval_point E x rdt j (s, rg, dg)
          = (s, apply_writes (loc s) (evalLeftBoundary s x) rg, apply_writes (loc s) [] dg)"
      using True by (simp add: porous_eval_point_def apply_writes_Nil)
    then show ?thesis using left_within[OF nv sp, of x] True
      by (intro exI[of _ s] exI[of _ "evalLeftBoundary s x"] exI[of _ "[]"])
         (simp add: writes_within_Nil)
  next
    case False
    show ?thesis
    proof (cases "j = size_sub (m_points s) 1")
      case True
      have "porous_eval_point E x rdt j (s, rg, dg)
          = (s, apply_writes (loc s) (fst (evalRightBoundary AxiStagnFlow s x)) rg,
                apply_writes (loc s) (snd (evalRightBoundary AxiStagnFlow s x)) dg)"
        using False True by (simp add: porous_eval_point_def split_beta evalRightBoundary_def)
      then show ?thesis using right_within[OF nv sp True, of AxiStagnFlow x]
        by (intro exI[of _ s] exI[of _ "fst (evalRightBoundary AxiStagnFlow s x)"]
            exI[of _ "snd (evalRightBoundary AxiStagnFlow s x)"]) simp
    next
      case j: False
      have "porous_eval_point E x rdt j (s, rg, dg)
          = (fst (porous_interior_rows E x rdt j s),
             apply_writes (loc s) (fst (snd (porous_interior_rows E x rdt j s))) rg,
             apply_writes (loc s) (snd (snd (porous_interior_rows E x rdt j s))) dg)"
        using False j by (simp add: porous_eval_point_def split_beta)
      then show ?thesis using porous_interior_rows_within[OF nv, of j E x rdt]
        by (intro exI[of _ "fst (porous_interior_rows E x rdt j s)"]
            exI[of _ "fst (snd (porous_interior_rows E x rdt j s))"]
            exI[of _ "snd (snd (porous_interior_rows E x rdt j s))"])
           (simp add: porous_interior_rows_layout)
    qed
  qed
qed

lemma porous_eval_point_target:
  assumes "0 < j" "\<not> m_do_energy s ! j" "j \<noteq> size_sub (m_points s) 1"
    "loc s + index s c_offset_T j < length rg" "loc s + index s c_offset_T j < length dg"
  shows "case porous_eval_point E x rdt j (s, rg, dg) of (s', rg', dg') \<Rightarrow>
           rg' ! (loc s + index s c_offset_T j) = T s x j - T_fixed s j
         \<and> dg' ! (loc s + index s c_offset_T j) = 0"
proof -
  from porous_interior_rows_disabled[OF assms(2), of E x rdt] obtain rw dw lv where
    r: "snd (porous_interior_rows E x rdt j s) =
     (rw @ [(index s c_offset_T j, T s x j - T_fixed s j), (index s c_offset_L j, lv)],
      dw @ [(index s c_offset_T j, 0), (index s c_offset_L j, 0)])"
    by blast
  have ne: "index s c_offset_L j \<noteq> index s c_offset_T j"
    by (simp add: index_def offset_defs)
  have e: "porous_eval_point E x rdt j (s, rg, dg)
          = (fst (porous_interior_rows E x rdt j s),
             apply_writes (loc s) (fst (snd (porous_interior_rows E x rdt j s))) rg,
             apply_writes (loc s) (snd (snd (porous_interior_rows E x rdt j s))) dg)"
    using assms(1,3) by (simp add: porous_eval_point_def split_beta)
  show ?thesis
    using apply_writes_final[OF assms(4), of "[(index s c_offset_L j, lv)]" rw "T s x j - T_fixed s j"]
      apply_writes_final[OF assms(5), of "[(index s c_offset_L j, 0)]" dw 0] ne
    by (simp add: e r)
qed

section \<open>The temperature row of a point with the energy equation disabled\<close>

lemma updateDiffFluxes_ok:
  assumes "m_transport_option s = c_Mixav_Transport \<or> m_transport_option s = c_Multi_Transport"
  shows "\<exists>s'. updateDiffFluxes x j0 j1 s = Inr s'"
  using assms by (auto simp: updateDiffFluxes_def)

lemma update_properties_ok:
  assumes "m_transport_option s = c_Mixav_Transport \<or> m_transport_option s = c_Multi_Transport"
  shows "\<exists>s'. update_properties E jg x s = Inr s'"
proof -
  let ?s1 = "updateThermo E x (eval_j0 s jg) (eval_j1 s jg) s"
  let ?s2 = "if jg = npos then updateTransport E x (eval_j0 s jg) (eval_j1 s jg) ?s1 else ?s1"
  have "layout_of ?s2 = layout_of s"
    by (simp add: layout_updateThermo layout_updateTransport)
  then have "m_transport_option ?s2 = m_transport_option s" by (rule layout_accessors)
  with assms have "m_transport_option ?s2 = c_Mixav_Transport
      \<or> m_transport_option ?s2 = c_Multi_Transport" by (simp only:)
  then have "\<exists>s'. updateDiffFluxes x (eval_j0 s jg) (eval_j1 s jg) ?s2 = Inr s'"
    by (rule updateDiffFluxes_ok)
  then show ?thesis unfolding update_properties_def Let_def .
qed

lemma fold_points_target_upt:
  assumes f: "point_frame f"
    and tgt: "\<And>s rg dg. \<not> m_do_energy s ! j \<Longrightarrow> j \<noteq> size_sub (m_points s) 1 \<Longrightarrow>
        loc s + index s c_offset_T j < length rg \<Longrightarrow>
        loc s + index s c_offset_T j < length dg \<Longrightarrow>
        case f j (s, rg, dg) of (s', rg', dg') \<Rightarrow>
           rg' ! (loc s + index s c_offset_T j) = T s x j - T_fixed s j
         \<and> dg' ! (loc s + index s c_offset_T j) = 0"
    and l: "layout_of s1 = layout_of s"
    and wf: "m_nv s = m_nsp s + 4" "0 < m_nsp s"
    and j: "jmin \<le> j" "j \<le> jmax"
    and en: "\<not> m_do_energy s ! j" "j \<noteq> size_sub (m_points s) 1"
    and len: "loc s + index s c_offset_T j < length rg" "loc s + index s c_offset_T j < length dg"
  shows "\<exists>s' rg' dg'. fold f [jmin..<jmax + 1] (s1, rg, dg) = (s', rg', dg')
         \<and> rg' ! (loc s + index s c_offset_T j) = T s x j - T_fixed s j
         \<and> dg' ! (loc s + index s c_offset_T j) = 0"
proof -
  note la = layout_accessors[OF l]
  note li = layout_index[OF l]
  have wf1: "m_nv s1 = m_nsp s1 + 4" "0 < m_nsp s1" using wf la by simp_all
  have js: "j \<in> set [jmin..<jmax + 1]" "distinct [jmin..<jmax + 1]" using j by auto
  have en1: "\<not> m_do_energy s1 ! j" "j \<noteq> size_sub (m_points s1) 1" using en la by simp_all
  have len1: "loc s1 + index s1 c_offset_T j < length rg" "loc s1 + index s1 c_offset_T j < length dg"
    using len la li by simp_all
  obtain s' rg' dg' where r: "fold f [jmin..<jmax + 1] (s1, rg, dg) = (s', rg', dg')"
    by (cases "fold f [jmin..<jmax + 1] (s1, rg, dg)")
  from fold_points_target[of f j x, OF f tgt wf1 js en1 len1, unfolded r]
  have "rg' ! (loc s1 + index s1 c_offset_T j) = T s1 x j - T_fixed s1 j
         \<and> dg' ! (loc s1 + index s1 c_offset_T j) = 0"
    by simp
  then have "rg' ! (loc s + index s c_offset_T j) = T s x j - T_fixed s j
         \<and> dg' ! (loc s + index s c_offset_T j) = 0"
    by (simp only: la li)
  with r show ?thesis by blast
qed

text \<open>
  Claim C6. On a domain with \<open>m_nv = m_nsp + 4\<close> and a transport model selected, let
  \<open>j\<close> be an interior grid point among the points \<open>jmin, ..., jmax\<close> that the call
  evaluates, with the energy-enable flag cleared. Then \<^verbatim>\<open>eval\<close> returns, the residual
  entry of the temperature row of \<open>j\<close> is \<open>T(x,j) - T_fixed(j)\<close>, and its flag entry is
  \<open>0\<close> (algebraic). This holds for \<^verbatim>\<open>StFlow::eval\<close> with either continuity strategy and
  for \<^verbatim>\<open>PorousFlow::eval\<close>.
\<close>

theorem eval_energy_disabled:
  assumes "m_nv s = m_nsp s + 4" "0 < m_nsp s"
    and "m_transport_option s = c_Mixav_Transport \<or> m_transport_option s = c_Multi_Transport"
    and "\<not> outside_influence s jg"
    and "eval_jmin s jg \<le> j" "j \<le> eval_jmax s jg" "0 < j" "j \<noteq> size_sub (m_points s) 1"
    and "\<not> m_do_energy s ! j"
    and "loc s + index s c_offset_T j < length rg" "loc s + index s c_offset_T j < length diagg"
  shows "(\<exists>s' rg' diagg'. StFlow_eval E kind jg xg rg diagg rdt s = Inr (s', rg', diagg')
            \<and> rg' ! (loc s + index s c_offset_T j) = T s (drop (loc s) xg) j - T_fixed s j
            \<and> diagg' ! (loc s + index s c_offset_T j) = 0)
       \<and> (\<exists>s' rg' diagg'. PorousFlow_eval E jg xg rg diagg rdt s = Inr (s', rg', diagg')
            \<and> rg' ! (loc s + index s c_offset_T j) = T s (drop (loc s) xg) j - T_fixed s j
            \<and> diagg' ! (loc s + index s c_offset_T j) = 0)"
proof
  let ?x = "drop (loc s) xg"
  let ?rdt = "if jg \<noteq> npos then 0 else rdt"
  from update_properties_ok[OF assms(3), of E jg ?x] obtain s1 where
    s1: "update_properties E jg ?x s = Inr s1" by blast
  let ?s2 = "update_radiation E ?x (eval_jmin s jg) (eval_jmax s jg) s1"
  have l: "layout_of ?s2 = layout_of s"
    by (simp add: layout_update_radiation layout_update_properties[OF s1])
  have e: "StFlow_eval E kind jg xg rg diagg rdt s
      = Inr (fold (eval_point E kind ?x ?rdt) [eval_jmin s jg..<eval_jmax s jg + 1] (?s2, rg, diagg))"
    unfolding StFlow_eval_def Let_def s1 using assms(4) by simp
  have tgt: "\<And>s rg dg. \<not> m_do_energy s ! j \<Longrightarrow> j \<noteq> size_sub (m_points s) 1 \<Longrightarrow>
        loc s + index s c_offset_T j < length rg \<Longrightarrow>
        loc s + index s c_offset_T j < length dg \<Longrightarrow>
        case eval_point E kind ?x ?rdt j (s, rg, dg) of (s', rg', dg') \<Rightarrow>
           rg' ! (loc s + index s c_offset_T j) = T s ?x j - T_fixed s j
         \<and> dg' ! (loc s + index s c_offset_T j) = 0"
    by (rule eval_point_target[OF assms(7)])
  have "\<exists>s' rg' dg'. fold (eval_point E kind ?x ?rdt) [eval_jmin s jg..<eval_jmax s jg + 1]
            (?s2, rg, diagg) = (s', rg', dg')
         \<and> rg' ! (loc s + index s c_offset_T j) = T s ?x j - T_fixed s j
         \<and> dg' ! (loc s + index s c_offset_T j) = 0"
    by (rule fold_points_target_upt[OF point_frame_eval_point tgt l assms(1,2,5,6,9,8,10,11)])
  then show "\<exists>s' rg' diagg'. StFlow_eval E kind jg xg rg diagg rdt s = Inr (s', rg', diagg')
            \<and> rg' ! (loc s + index s c_offset_T j) = T s (drop (loc s) xg) j - T_fixed s j
            \<and> diagg' ! (loc s + index s c_offset_T j) = 0"
    unfolding e by (simp only: sum.inject)
next
  let ?x = "drop (loc s) xg"
  let ?rdt = "if jg \<noteq> npos then 0 else rdt"
  let ?s0 = "s\<lparr>m_dovisc := True\<rparr>"
  have l0: "layout_of ?s0 = layout_of s" by (simp add: layout_of_def)
  have "m_transport_option ?s0 = c_Mixav_Transport \<or> m_transport_option ?s0 = c_Multi_Transport"
    using assms(3) by simp
  from update_properties_ok[OF this, of E jg ?x] obtain s1 where
    s1: "update_properties E jg ?x ?s0 = Inr s1" by blast
  let ?s2 = "porous_solid ?x ?rdt (porous_hconv ?x (eval_jmin s jg) (eval_jmax s jg)
               (porous_profiles s1))"
  have l: "layout_of ?s2 = layout_of s"
    by (simp add: layout_porous_prepare layout_update_properties[OF s1] l0)
  have e: "PorousFlow_eval E jg xg rg diagg rdt s
      = Inr (fold (porous_eval_point E ?x ?rdt) [eval_jmin s jg..<eval_jmax s jg + 1] (?s2, rg, diagg))"
    unfolding PorousFlow_eval_def Let_def s1 using assms(4) by simp
  have tgt: "\<And>s rg dg. \<not> m_do_energy s ! j \<Longrightarrow> j \<noteq> size_sub (m_points s) 1 \<Longrightarrow>
        loc s + index s c_offset_T j < length rg \<Longrightarrow>
        loc s + index s c_offset_T j < length dg \<Longrightarrow>
        case porous_eval_point E ?x ?rdt j (s, rg, dg) of (s', rg', dg') \<Rightarrow>
           rg' ! (loc s + index s c_offset_T j) = T s ?x j - T_fixed s j
         \<and> dg' ! (loc s + index s c_offset_T j) = 0"
    by (rule porous_eval_point_target[OF assms(7)])
  have "\<exists>s' rg' dg'. fold (porous_eval_point E ?x ?rdt) [eval_jmin s jg..<eval_jmax s jg + 1]
            (?s2, rg, diagg) = (s', rg', dg')
         \<and> rg' ! (loc s + index s c_offset_T j) = T s ?x j - T_fixed s j
         \<and> dg' ! (loc s + index s c_offset_T j) = 0"
    by (rule fold_points_target_upt[OF point_frame_porous_eval_point tgt l assms(1,2,5,6,9,8,10,11)])
  then show "\<exists>s' rg' diagg'. PorousFlow_eval E jg xg rg diagg rdt s = Inr (s', rg', diagg')
            \<and> rg' ! (loc s + index s c_offset_T j) = T s (drop (loc s) xg) j - T_fixed s j
            \<and> diagg' ! (loc s + index s c_offset_T j) = 0"
    unfolding e by (simp only: sum.inject)
qed

lemma porous3_simps:
  "m_nv porous3 = 6" "m_nsp porous3 = 2" "m_points porous3 = 3" "m_iloc porous3 = 0"
  "m_jstart porous3 = 0" "m_do_energy porous3 = [False, False, False]"
  "m_fixedtemp porous3 = [300, 350, 500]" "m_transport_option porous3 = c_Mixav_Transport"
  by (simp_all add: porous3_def flow3_def flow0_def)

lemma npos_value: "npos = 18446744073709551615"
  by (simp add: npos_def size_t_mod_def)

text \<open>The theorem at the interior point \<open>1\<close> of the three-point domain, in a pass over
  the whole domain: the temperature there is \<open>400\<close>, the fixed profile \<open>350\<close>, and the
  entry of the row is at position \<open>8\<close> of the buffers.\<close>

theorem eval_energy_disabled_witness:
  "m_nv porous3 = m_nsp porous3 + 4 \<and> 0 < m_nsp porous3
   \<and> \<not> outside_influence porous3 npos \<and> \<not> m_do_energy porous3 ! 1
   \<and> (\<exists>s' rg' diagg'.
         StFlow_eval env0 AxiStagnFlow npos soln3 (replicate 18 0) (replicate 18 1) 1 porous3
           = Inr (s', rg', diagg')
         \<and> rg' ! 8 = 50 \<and> diagg' ! 8 = 0)
   \<and> (\<exists>s' rg' diagg'.
         PorousFlow_eval env0 npos soln3 (replicate 18 0) (replicate 18 1) 1 porous3
           = Inr (s', rg', diagg')
         \<and> rg' ! 8 = 50 \<and> diagg' ! 8 = 0)"
proof -
  have a: "m_nv porous3 = m_nsp porous3 + 4" "0 < m_nsp porous3"
    "m_transport_option porous3 = c_Mixav_Transport
       \<or> m_transport_option porous3 = c_Multi_Transport"
    "\<not> m_do_energy porous3 ! 1"
    by (simp_all add: porous3_simps)
  have b: "\<not> outside_influence porous3 npos" by (simp add: outside_influence_def)
  have c: "eval_jmin porous3 npos \<le> 1" "1 \<le> eval_jmax porous3 npos"
    "(1::nat) \<noteq> size_sub (m_points porous3) 1"
    by (simp_all add: eval_jmin_def eval_jmax_def size_sub_def porous3_simps)
  have d: "loc porous3 + index porous3 c_offset_T (Suc 0) = 8"
    by (simp add: loc_def index_def c_offset_T_def porous3_simps)
  have e: "T porous3 (drop (loc porous3) soln3) (Suc 0) - T_fixed porous3 (Suc 0) = 50"
    by (simp add: loc_def T_def T_fixed_def index_def c_offset_T_def porous3_simps soln3_def)
  from eval_energy_disabled[OF a(1,2,3) b c(1,2) _ c(3) a(4), of "replicate 18 0"
      "replicate 18 1" env0 AxiStagnFlow soln3 1]
  show ?thesis using a b by (simp add: d e)
qed

section \<open>Jacobian evaluation outside the domain of influence\<close>

text \<open>
  Claim C10. If \<^verbatim>\<open>eval\<close> is called in Jacobian mode (\<open>jg \<noteq> npos\<close>) with a global index
  outside the domain of influence of this domain (\<open>jg + 1 < firstPoint()\<close> or
  \<open>jg > lastPoint() + 1\<close>), it returns at once: the residual and flag buffers and the
  whole state of the engine are what they were. This holds for \<^verbatim>\<open>StFlow::eval\<close> and
  for \<^verbatim>\<open>PorousFlow::eval\<close>.
\<close>

theorem eval_outside_unchanged:
  assumes "jg \<noteq> npos"
    and "size_add jg 1 < firstPoint s \<or> jg > size_add (lastPoint s) 1"
  shows "StFlow_eval E kind jg xg rg diagg rdt s = Inr (s, rg, diagg)
       \<and> PorousFlow_eval E jg xg rg diagg rdt s = Inr (s, rg, diagg)"
  using assms by (simp add: StFlow_eval_def PorousFlow_eval_def outside_influence_def)

text \<open>The theorem for the three-point domain placed at the global points \<open>5, 6, 7\<close>
  and the global index \<open>2\<close>.\<close>

theorem eval_outside_unchanged_witness:
  "(2::nat) \<noteq> npos \<and> size_add 2 1 < firstPoint (porous3\<lparr>m_jstart := 5\<rparr>)
   \<and> StFlow_eval env0 FreeFlame 2 soln3 (replicate 18 0) (replicate 18 1) 1
         (porous3\<lparr>m_jstart := 5\<rparr>)
       = Inr (porous3\<lparr>m_jstart := 5\<rparr>, replicate 18 0, replicate 18 1)
   \<and> PorousFlow_eval env0 2 soln3 (replicate 18 0) (replicate 18 1) 1
         (porous3\<lparr>m_jstart := 5\<rparr>)
       = Inr (porous3\<lparr>m_jstart := 5\<rparr>, replicate 18 0, replicate 18 1)"
proof -
  have a: "(2::nat) \<noteq> npos" by (simp add: npos_value)
  have b: "size_add 2 1 < firstPoint (porous3\<lparr>m_jstart := 5\<rparr>)"
    by (simp add: size_add_def size_t_mod_def firstPoint_def)
  from eval_outside_unchanged[OF a disjI1[OF b]] a b show ?thesis by blast
qed

section \<open>Evaluation restricted to one global grid index\<close>












lemma eval_point_rdt_free:
  "jg \<noteq> npos \<Longrightarrow> eval_point E kind x (if jg \<noteq> npos then 0 else rdt) = eval_point E kind x 0"
  by simp





















section \<open>The conduction solve of the solid subsolver\<close>

lemma fold_upd_keeps:
  assumes "\<And>i l. i \<in> set js \<Longrightarrow> length (g i l) = length l \<and> (\<forall>k. k \<noteq> i \<longrightarrow> g i l ! k = l ! k)"
    and "k \<notin> set js"
  shows "length (fold g js l) = length l \<and> fold g js l ! k = l ! k"
  using assms
proof (induction js arbitrary: l)
  case Nil
  then show ?case by simp
next
  case (Cons a js)
  have a: "length (g a l) = length l \<and> (\<forall>k. k \<noteq> a \<longrightarrow> g a l ! k = l ! k)"
    by (rule Cons.prems(1)) simp
  have "length (fold g js (g a l)) = length (g a l) \<and> fold g js (g a l) ! k = g a l ! k"
    by (rule Cons.IH) (use Cons.prems in auto)
  with a Cons.prems(2) show ?case by simp
qed

lemma tri_forward_nth0: "tri_forward n edia rhs ! 0 = rhs ! 0"
  unfolding tri_forward_def
  by (rule fold_upd_keeps[THEN conjunct2]) simp_all

lemma tri_decomp_fdia_nth0: "snd (tri_decomp n edia fdia gdia) ! 0 = fdia ! 0"
proof -
  have "\<And>js e f. 0 \<notin> set js \<Longrightarrow>
      snd (fold (\<lambda>i (e, f). (let e = e[i := e ! i / f ! (i - 1)];
                                f = f[i := f ! i - e ! i * gdia ! (i - 1)]
                            in (e, f))) js (e, f)) ! 0 = f ! 0"
  proof -
    fix js :: "nat list" and e f :: "real list"
    show "0 \<notin> set js \<Longrightarrow>
      snd (fold (\<lambda>i (e, f). (let e = e[i := e ! i / f ! (i - 1)];
                                f = f[i := f ! i - e ! i * gdia ! (i - 1)]
                            in (e, f))) js (e, f)) ! 0 = f ! 0"
      by (induction js arbitrary: e f) (simp_all add: Let_def)
  qed
  then show ?thesis unfolding tri_decomp_def by simp
qed

lemma tri_back_left:
  assumes "2 \<le> n" "0 < length tw"
  shows "tri_back n fdia gdia rhs tw ! 0
       = (rhs ! 0 - gdia ! 0 * tri_back n fdia gdia rhs tw ! 1) / fdia ! 0"
proof -
  let ?g = "\<lambda>i t. t[i := (rhs ! i - gdia ! i * t ! (i + 1)) / fdia ! i]"
  let ?t0 = "tw[n - 1 := rhs ! (n - 1) / fdia ! (n - 1)]"
  let ?t1 = "fold ?g (rev [1..<n - 1]) ?t0"
  have u: "[0..<n - 1] = 0 # [1..<n - 1]" using assms(1) by (simp add: upt_conv_Cons)
  have b: "tri_back n fdia gdia rhs tw = ?g 0 ?t1"
    unfolding tri_back_def u by simp
  have l: "length ?t1 = length tw"
    using fold_preserves[of length ?g "rev [1..<n - 1]" ?t0] by simp
  show ?thesis using l assms(2) by (simp add: b)
qed

lemma tri_row_ends:
  assumes "2 \<le> m_points s"
  shows "tri_row s x hc sc rho_s cp_s rdt 0 = (0, 1, - 1, 0)"
    and "tri_row s x hc sc rho_s cp_s rdt (m_points s - 1) = (- 1, 1, 0, 0)"
  using assms by (simp_all add: tri_row_def)

lemma solid_conduction_left:
  assumes "2 \<le> m_points s" "0 < length (Tw s)"
  shows "solid_conduction s x hc sc rho_s cp_s rdt ! 0 = solid_conduction s x hc sc rho_s cp_s rdt ! 1"
proof -
  let ?n = "m_points s"
  let ?g = "tri_gdia s x hc sc rho_s cp_s rdt"
  let ?d = "tri_decomp ?n (tri_edia s x hc sc rho_s cp_s rdt) (tri_fdia s x hc sc rho_s cp_s rdt) ?g"
  let ?r = "tri_forward ?n (fst ?d) (tri_rhs s x hc sc rho_s cp_s rdt)"
  have c: "solid_conduction s x hc sc rho_s cp_s rdt = tri_back ?n (snd ?d) ?g ?r (Tw s)"
    by (simp add: solid_conduction_def Let_def split_beta)
  have z: "0 < ?n" using assms(1) by simp
  have f0: "snd ?d ! 0 = 1"
    using z by (simp add: tri_decomp_fdia_nth0 tri_fdia_def tri_row_def nth_map_upt)
  have g0: "?g ! 0 = - 1"
    using z by (simp add: tri_gdia_def tri_row_def nth_map_upt)
  have r0: "?r ! 0 = 0"
    using z by (simp add: tri_forward_nth0 tri_rhs_def tri_row_def nth_map_upt)
  from tri_back_left[OF assms, of "snd ?d" ?g ?r] show ?thesis
    by (simp add: c f0 g0 r0)
qed

lemma balance_identity:
  fixes e g h k :: real
  shows "e * a + (- g - e - h - k) * b + g * c - (- h * t + d - k * p)
       = e * (a - b) + g * (c - b) - h * (b - t) - k * (b - p) - d"
  by (simp add: algebra_simps)

lemma tri_row_interior:
  assumes "0 < i" "i < m_points s - 1"
  shows "case tri_row s x hc sc rho_s cp_s rdt i of (e, f, g, r) \<Rightarrow>
           e = (2 * sc ! i) / ((grid s i - grid s (i - 1)) * (grid s (i + 1) - grid s (i - 1)))
         \<and> g = (2 * sc ! i) / ((grid s (i + 1) - grid s i) * (grid s (i + 1) - grid s (i - 1)))
         \<and> (\<forall>a b c. e * a + f * b + g * c - r
               = e * (a - b) + g * (c - b) - hc ! i * (b - T s x i)
                 - rho_s * cp_s * rdt * (b - Twprev s ! i) - dq s ! i)"
proof -
  let ?e = "(2 * sc ! i) / ((grid s i - grid s (i - 1)) * (grid s (i + 1) - grid s (i - 1)))"
  let ?g = "(2 * sc ! i) / ((grid s (i + 1) - grid s i) * (grid s (i + 1) - grid s (i - 1)))"
  have r: "tri_row s x hc sc rho_s cp_s rdt i
     = (?e, - ?g - ?e - hc ! i - rho_s * cp_s * rdt, ?g,
        - hc ! i * T s x i + dq s ! i - rho_s * cp_s * rdt * Twprev s ! i)"
    using assms by (simp add: tri_row_def)
  show ?thesis
    unfolding r prod.case
    using balance_identity[of ?e _ ?g "hc ! i" "rho_s * cp_s * rdt" _ _ "T s x i" "dq s ! i"
        "Twprev s ! i"]
    by (simp add: mult.assoc)
qed

text \<open>
  Claim C4, as amended. In every pass of the outer loop of the solid subsolver, on a
  domain of at least two points, the tridiagonal system for the solid temperature has
  the end rows \<open>Tw[0] - Tw[1] = 0\<close> and \<open>Tw[n-1] - Tw[n-2] = 0\<close>: zero-gradient
  conditions, in which no gas temperature occurs; accordingly the solved field has
  \<open>Tw[0] = Tw[1]\<close>. An interior row \<open>i\<close> balances conduction (the off-diagonal
  coefficients times the differences to the neighbours), convection to the gas
  (\<open>hconv[i] * (Tw[i] - T(x,i))\<close>), a capacitive term scaled by the transient rate
  (\<open>srho * sCp * rdt * (Tw[i] - Twprev[i])\<close>) and the net radiative flux \<open>dq[i]\<close>.
\<close>

theorem solid_tridiagonal_system:
  assumes "2 \<le> m_points s"
  shows "tri_row s x hc sc rho_s cp_s rdt 0 = (0, 1, - 1, 0)
       \<and> tri_row s x hc sc rho_s cp_s rdt (m_points s - 1) = (- 1, 1, 0, 0)
       \<and> (0 < i \<and> i < m_points s - 1 \<longrightarrow>
            (case tri_row s x hc sc rho_s cp_s rdt i of (e, f, g, r) \<Rightarrow>
               e = (2 * sc ! i) / ((grid s i - grid s (i - 1)) * (grid s (i + 1) - grid s (i - 1)))
             \<and> g = (2 * sc ! i) / ((grid s (i + 1) - grid s i) * (grid s (i + 1) - grid s (i - 1)))
             \<and> (\<forall>a b c. e * a + f * b + g * c - r
                   = e * (a - b) + g * (c - b) - hc ! i * (b - T s x i)
                     - rho_s * cp_s * rdt * (b - Twprev s ! i) - dq s ! i)))
       \<and> (0 < length (Tw s) \<longrightarrow>
            solid_conduction s x hc sc rho_s cp_s rdt ! 0
              = solid_conduction s x hc sc rho_s cp_s rdt ! 1)"
proof (intro conjI impI)
  show "tri_row s x hc sc rho_s cp_s rdt 0 = (0, 1, - 1, 0)"
    by (rule tri_row_ends(1)[OF assms])
  show "tri_row s x hc sc rho_s cp_s rdt (m_points s - 1) = (- 1, 1, 0, 0)"
    by (rule tri_row_ends(2)[OF assms])
next
  assume "0 < i \<and> i < m_points s - 1"
  then have i: "0 < i" "i < m_points s - 1" by simp_all
  show "case tri_row s x hc sc rho_s cp_s rdt i of (e, f, g, r) \<Rightarrow>
               e = (2 * sc ! i) / ((grid s i - grid s (i - 1)) * (grid s (i + 1) - grid s (i - 1)))
             \<and> g = (2 * sc ! i) / ((grid s (i + 1) - grid s i) * (grid s (i + 1) - grid s (i - 1)))
             \<and> (\<forall>a b c. e * a + f * b + g * c - r
                   = e * (a - b) + g * (c - b) - hc ! i * (b - T s x i)
                     - rho_s * cp_s * rdt * (b - Twprev s ! i) - dq s ! i)"
    by (rule tri_row_interior[OF i])
next
  assume "0 < length (Tw s)"
  then show "solid_conduction s x hc sc rho_s cp_s rdt ! 0
              = solid_conduction s x hc sc rho_s cp_s rdt ! 1"
    by (rule solid_conduction_left[OF assms])
qed

lemma porous3_fields:
  "m_z porous3 = [0, 1, 2]" "Tw porous3 = [300, 300, 300]" "dq porous3 = [0, 0, 0]"
  "Twprev porous3 = [300, 300, 300]"
  by (simp_all add: porous3_def flow3_def flow0_def)

text \<open>The theorem on the three-point porous domain, with a convective coefficient at
  the interior point only and unit solid conductivity.\<close>

theorem solid_tridiagonal_system_witness:
  "2 \<le> m_points porous3 \<and> 0 < (1::nat) \<and> 1 < m_points porous3 - 1
   \<and> 0 < length (Tw porous3)
   \<and> tri_row porous3 soln3 [0, 1, 0] [1, 1, 1] 0 0 0 0 = (0, 1, - 1, 0)
   \<and> tri_row porous3 soln3 [0, 1, 0] [1, 1, 1] 0 0 0 (m_points porous3 - 1) = (- 1, 1, 0, 0)
   \<and> fst (tri_row porous3 soln3 [0, 1, 0] [1, 1, 1] 0 0 0 1) = 1
   \<and> solid_conduction porous3 soln3 [0, 1, 0] [1, 1, 1] 0 0 0 ! 0
       = solid_conduction porous3 soln3 [0, 1, 0] [1, 1, 1] 0 0 0 ! 1"
proof -
  have a: "2 \<le> m_points porous3" "0 < (1::nat)" "1 < m_points porous3 - 1"
    "0 < length (Tw porous3)"
    by (simp_all add: porous3_simps porous3_fields)
  have g: "(2 * [1, 1, 1::real] ! 1)
      / ((grid porous3 1 - grid porous3 (1 - 1)) * (grid porous3 (1 + 1) - grid porous3 (1 - 1))) = 1"
    by (simp add: grid_def porous3_fields)
  from solid_tridiagonal_system[OF a(1), of soln3 "[0, 1, 0]" "[1, 1, 1]" 0 0 0 1] a g
  show ?thesis by (simp add: split_beta)
qed

text \<open>
  Claim C4 as stated fails: with the gas temperatures \<open>300, 400, 500\<close> the solved solid
  temperature is \<open>400\<close> at both ends, not the gas temperatures \<open>300\<close> and \<open>500\<close> there.
\<close>

theorem solid_ends_not_pinned_counterexample:
  "solid_conduction porous3 soln3 [0, 1, 0] [1, 1, 1] 0 0 0 = [400, 400, 400]
   \<and> T porous3 soln3 0 = 300 \<and> T porous3 soln3 2 = 500"
  by (simp add: solid_conduction_def tri_back_def tri_forward_def tri_decomp_def tri_rhs_def
      tri_edia_def tri_fdia_def tri_gdia_def tri_row_def porous3_simps porous3_fields Let_def
      upt_conv_Cons grid_def T_def index_def c_offset_T_def soln3_def)

section \<open>The fields that the solid subsolver carries over\<close>

lemma vec_upd_nth:
  "length (vec_upd n f v) = length v
   \<and> (\<forall>i<length v. vec_upd n f v ! i = (if i < n then f i (v ! i) else v ! i))"
proof (induction n)
  case 0
  show ?case by (simp add: vec_upd_def)
next
  case (Suc n)
  have "vec_upd (Suc n) f v = (vec_upd n f v)[n := f n (vec_upd n f v ! n)]"
    by (simp add: vec_upd_def)
  with Suc show ?case by (auto simp: nth_list_update less_Suc_eq)
qed

lemma length_vec_upd: "length (vec_upd n f v) = length v"
  by (simp add: vec_upd_nth)

lemma nth_vec_upd:
  "i < length v \<Longrightarrow> vec_upd n f v ! i = (if i < n then f i (v ! i) else v ! i)"
  using vec_upd_nth[of n f v] by blast

lemma vec_upd_const: "length v = n \<Longrightarrow> vec_upd n (\<lambda>i d. c) v = replicate n c"
  by (rule nth_equalityI) (simp_all add: length_vec_upd nth_vec_upd)



lemma solid_dq_reset:
  assumes "length d1 = m_points s" "length d2 = m_points s"
  shows "solid x hc sc rk om rho_s cp_s rdt (s\<lparr>dq := d1\<rparr>)
       = solid x hc sc rk om rho_s cp_s rdt (s\<lparr>dq := d2\<rparr>)"
  using assms by (simp add: solid_def vec_upd_const)

lemma solid_Twprev: "Twprev (solid x hc sc rk om rho_s cp_s rdt s) = Tw s"
proof -
  let ?s1 = "s\<lparr>Twprev := Tw s, dq := vec_upd (m_points s) (\<lambda>i d. 0) (dq s)\<rparr>"
  obtain s2 fail1 where l: "solid_loop x hc sc rk om rho_s cp_s rdt 0 ?s1 = (s2, fail1)"
    by (cases "solid_loop x hc sc rk om rho_s cp_s rdt 0 ?s1")
  from solid_loop_frame[of x hc sc rk om rho_s cp_s rdt 0 ?s1] l obtain tw d lg where
    s2: "s2 = ?s1\<lparr>Tw := tw, dq := d, logged := lg\<rparr>" by auto
  show ?thesis by (simp add: solid_def Let_def l s2)
qed

text \<open>
  Claim C3, as amended. The solid temperature field is carried over from the previous
  evaluation: an invocation of the solid subsolver saves it in \<^verbatim>\<open>Twprev\<close>, and it
  enters the right-hand side of the interior rows of the first conduction solve through
  the capacitive term. The net radiative-flux field is not: it is set to zero before
  the first pass, so its previous values do not enter the right-hand side, and two
  invocations that differ only in the previous values of \<^verbatim>\<open>dq\<close> (both of the length
  of the grid) give the same result.
\<close>

theorem solid_previous_fields:
  assumes "length d1 = m_points s" "length d2 = m_points s"
    and "0 < i" "i < m_points s - 1" "i < length (dq s)"
  shows "solid x hc sc rk om rho_s cp_s rdt (s\<lparr>dq := d1\<rparr>)
           = solid x hc sc rk om rho_s cp_s rdt (s\<lparr>dq := d2\<rparr>)
       \<and> Twprev (solid x hc sc rk om rho_s cp_s rdt s) = Tw s
       \<and> tri_rhs (s\<lparr>Twprev := Tw s, dq := vec_upd (m_points s) (\<lambda>i d. 0) (dq s)\<rparr>)
            x hc sc rho_s cp_s rdt ! i
           = - hc ! i * T s x i - rho_s * cp_s * rdt * Tw s ! i"
proof (intro conjI)
  show "solid x hc sc rk om rho_s cp_s rdt (s\<lparr>dq := d1\<rparr>)
           = solid x hc sc rk om rho_s cp_s rdt (s\<lparr>dq := d2\<rparr>)"
    by (rule solid_dq_reset[OF assms(1,2)])
  show "Twprev (solid x hc sc rk om rho_s cp_s rdt s) = Tw s" by (rule solid_Twprev)
  have "i < m_points s" using assms(4) by simp
  then show "tri_rhs (s\<lparr>Twprev := Tw s, dq := vec_upd (m_points s) (\<lambda>i d. 0) (dq s)\<rparr>)
            x hc sc rho_s cp_s rdt ! i
           = - hc ! i * T s x i - rho_s * cp_s * rdt * Tw s ! i"
    using assms(3,4,5)
    by (simp add: tri_rhs_def tri_row_def nth_map_upt nth_vec_upd T_def index_def)
qed

text \<open>The theorem on the three-point porous domain, for the previous flux fields
  \<open>5, 7, 9\<close> and \<open>0, 0, 0\<close>.\<close>

theorem solid_previous_fields_witness:
  "length [5, 7, 9 :: real] = m_points porous3 \<and> length [0, 0, 0 :: real] = m_points porous3
   \<and> 0 < (1::nat) \<and> 1 < m_points porous3 - 1 \<and> 1 < length (dq porous3)
   \<and> solid soln3 [0, 1, 0] [1, 1, 1] [1, 1, 1] [1/2, 1/2, 1/2] 510 824 (1/10)
        (porous3\<lparr>dq := [5, 7, 9]\<rparr>)
       = solid soln3 [0, 1, 0] [1, 1, 1] [1, 1, 1] [1/2, 1/2, 1/2] 510 824 (1/10)
           (porous3\<lparr>dq := [0, 0, 0]\<rparr>)
   \<and> Twprev (solid soln3 [0, 1, 0] [1, 1, 1] [1, 1, 1] [1/2, 1/2, 1/2] 510 824 (1/10) porous3)
       = [300, 300, 300]"
proof -
  have a: "length [5, 7, 9 :: real] = m_points porous3"
    "length [0, 0, 0 :: real] = m_points porous3"
    "0 < (1::nat)" "1 < m_points porous3 - 1" "1 < length (dq porous3)"
    by (simp_all add: porous3_simps porous3_fields)
  from solid_previous_fields[OF a, of soln3 "[0, 1, 0]" "[1, 1, 1]" "[1, 1, 1]"
      "[1/2, 1/2, 1/2]" 510 824 "1/10"] a
  show ?thesis by (simp add: porous3_fields)
qed

text \<open>
  Claim C3 as stated fails for the net radiative-flux field: the previous values
  \<open>5, 7, 9\<close> of \<^verbatim>\<open>dq\<close> are overwritten with zeros before the first pass, and the
  result is the one for the previous values \<open>0, 0, 0\<close>.
\<close>

theorem solid_dq_not_seeded_counterexample:
  "vec_upd (m_points porous3) (\<lambda>i d. 0) [5, 7, 9 :: real] = [0, 0, 0]
   \<and> solid soln3 [0, 1, 0] [1, 1, 1] [1, 1, 1] [1/2, 1/2, 1/2] 510 824 (1/10)
        (porous3\<lparr>dq := [5, 7, 9]\<rparr>)
       = solid soln3 [0, 1, 0] [1, 1, 1] [1, 1, 1] [1/2, 1/2, 1/2] 510 824 (1/10)
           (porous3\<lparr>dq := [0, 0, 0]\<rparr>)"
proof -
  have a: "length [5, 7, 9 :: real] = m_points porous3"
    "length [0, 0, 0 :: real] = m_points porous3"
    by (simp_all add: porous3_simps)
  have "vec_upd (m_points porous3) (\<lambda>i d. 0) [5, 7, 9 :: real] = replicate 3 0"
    using vec_upd_const[OF a(1), of 0] by (simp add: porous3_simps)
  then show ?thesis using solid_dq_reset[OF a] by (simp add: numeral_3_eq_3)
qed

section \<open>Non-convergence of the solid subsolver\<close>




























section \<open>Length checks of the restored arrays\<close>

lemma restore_energy_mismatch:
  assumes "restore_import sg E base doc soln loglevel s0 = Inr (s, soln')"
    and "dom_energy_enabled doc = Some x" and "x \<noteq> []" and "length x \<noteq> nPoints s"
  shows "StFlow_restore sg E base doc soln loglevel s0
           = Inl (CanteraError ''StFlow::restore''
                    (''energy_enabled is length '' @ int2str (length x)
                     @ ''but should be length '' @ int2str (nPoints s)))"
  using assms by (simp add: StFlow_restore_def restore_energy_enabled_def)

lemma restore_energy_enabled_frame:
  assumes "restore_energy_enabled doc s = Inr s1"
  shows "m_nsp s1 = m_nsp s" "m_do_species s1 = m_do_species s" "nPoints s1 = nPoints s"
  using assms
  by (auto simp: restore_energy_enabled_def nPoints_def split: option.splits if_splits)

lemma restore_species_mismatch:
  assumes "restore_import sg E base doc soln loglevel s0 = Inr (s, soln')"
    and "restore_energy_enabled doc s = Inr s1"
    and "dom_species_enabled doc = Some y" and "y \<noteq> []" and "length y \<noteq> m_nsp s"
  shows "\<exists>s'. StFlow_restore sg E base doc soln loglevel s0 = Inr (s', soln')
              \<and> m_do_species s' = replicate (m_nsp s) True"
proof -
  have "m_do_species (restore_refine_criteria doc (restore_species_enabled loglevel doc s1))
          = replicate (m_nsp s) True"
    using assms(3,4,5) restore_energy_enabled_frame(1)[OF assms(2)]
    by (simp add: restore_refine_criteria_def restore_species_enabled_def debuglog_def
        writelog_def split: option.splits prod.splits)
  then show ?thesis using assms(1,2) by (simp add: StFlow_restore_def)
qed

lemma restore_solid_array_cases:
  "(restore_solid_array nm x s v = Inl (CanteraError ''PorousFlow::restore''
       (nm @ '' is of length'' @ int2str (length x) @ ''but should be length''
        @ int2str (nPoints s)))
     \<and> x \<noteq> [] \<and> length x \<noteq> nPoints s)
   \<or> ((\<exists>v'. restore_solid_array nm x s v = Inr v') \<and> (x = [] \<or> length x = nPoints s))"
  by (simp add: restore_solid_array_def Let_def)

lemma restore_solid_array_Inr:
  assumes "restore_solid_array nm x s v = Inr v'"
  shows "x = [] \<or> length x = nPoints s"
  using assms by (simp add: restore_solid_array_def Let_def split: if_splits)

lemma restore_solid_array_Inl:
  assumes "restore_solid_array nm x s v = Inl e"
  shows "\<exists>msg. e = CanteraError ''PorousFlow::restore'' msg"
  using assms by (auto simp: restore_solid_array_def Let_def split: if_splits)

lemma nPoints_solid_fields [simp]:
  "nPoints (s\<lparr>Tw := a\<rparr>) = nPoints s" "nPoints (s\<lparr>dq := a\<rparr>) = nPoints s"
  "nPoints (s\<lparr>pore := a\<rparr>) = nPoints s" "nPoints (s\<lparr>diam := a\<rparr>) = nPoints s"
  "nPoints (s\<lparr>scond := a\<rparr>) = nPoints s" "nPoints (s\<lparr>hconv := a\<rparr>) = nPoints s"
  by (simp_all add: nPoints_def)

lemma restore_Solid_Inl:
  assumes "restore_Solid ref s = Inl e"
  shows "\<exists>msg. e = CanteraError ''PorousFlow::restore'' msg"
  using assms unfolding restore_Solid_def Let_def
  by (auto split: sum.splits dest: restore_solid_array_Inl)

lemma restore_Solid_Inr:
  assumes "restore_Solid ref s = Inr s'"
  shows "(so_Tsolid ref = [] \<or> length (so_Tsolid ref) = nPoints s)
       \<and> (so_Radiation ref = [] \<or> length (so_Radiation ref) = nPoints s)
       \<and> (so_Porosity ref = [] \<or> length (so_Porosity ref) = nPoints s)
       \<and> (so_Diameter ref = [] \<or> length (so_Diameter ref) = nPoints s)
       \<and> (so_SolidConductivity ref = [] \<or> length (so_SolidConductivity ref) = nPoints s)
       \<and> (so_Hconv ref = [] \<or> length (so_Hconv ref) = nPoints s)"
  using assms unfolding restore_Solid_def Let_def
  by (auto split: sum.splits dest!: restore_solid_array_Inr simp: nPoints_def)

lemma restore_porous_mismatch:
  assumes "StFlow_restore PorousFlow_setupGrid E base doc soln loglevel s0 = Inr (s, soln')"
    and "dom_Solid doc = Some ref"
    and "(so_Tsolid ref \<noteq> [] \<and> length (so_Tsolid ref) \<noteq> nPoints s)
       \<or> (so_Radiation ref \<noteq> [] \<and> length (so_Radiation ref) \<noteq> nPoints s)
       \<or> (so_Porosity ref \<noteq> [] \<and> length (so_Porosity ref) \<noteq> nPoints s)
       \<or> (so_Diameter ref \<noteq> [] \<and> length (so_Diameter ref) \<noteq> nPoints s)
       \<or> (so_SolidConductivity ref \<noteq> [] \<and> length (so_SolidConductivity ref) \<noteq> nPoints s)
       \<or> (so_Hconv ref \<noteq> [] \<and> length (so_Hconv ref) \<noteq> nPoints s)"
  shows "\<exists>msg. PorousFlow_restore E base doc soln loglevel s0
                 = Inl (CanteraError ''PorousFlow::restore'' msg)"
proof (cases "restore_Solid ref s")
  case (Inl e)
  from restore_Solid_Inl[OF Inl] obtain msg where "e = CanteraError ''PorousFlow::restore'' msg"
    by blast
  then show ?thesis using assms(1,2) Inl by (simp add: PorousFlow_restore_def)
next
  case (Inr s')
  from restore_Solid_Inr[OF Inr] assms(3) show ?thesis by blast
qed

lemma restore_dataset_mismatch:
  assumes "length x \<noteq> np"
  shows "restore_dataset E loglevel np (''u'', x) st
           = Inl (CanteraError ''StFlow::restore'' ''axial velocity array size error'')"
    and "restore_dataset E loglevel np (''V'', x) st
           = Inl (CanteraError ''StFlow::restore'' ''radial velocity array size error'')"
    and "restore_dataset E loglevel np (''T'', x) st
           = Inl (CanteraError ''StFlow::restore'' ''temperature array size error'')"
    and "restore_dataset E loglevel np (''L'', x) st
           = Inl (CanteraError ''StFlow::restore'' ''lambda arary size error'')"
  using assms by (simp_all add: restore_dataset_def Let_def split_beta)

lemma restore_dataset_species_skipped:
  assumes "length x \<noteq> np" and "nm \<notin> {''u'', ''z'', ''V'', ''T'', ''L''}"
    and "speciesIndex E nm \<noteq> npos"
  shows "restore_dataset E loglevel np (nm, x) (s, soln, did_species, ignored)
           = Inr (debuglog (nm @ ''   '') (loglevel \<ge> 2) s, soln, did_species, ignored)"
  using assms by (simp add: restore_dataset_def Let_def)

lemma setupGrid_loop_frame:
  "setupGrid_loop z js s = Inr s' \<Longrightarrow> \<exists>zs dzs. s' = s\<lparr>m_z := zs, m_dz := dzs\<rparr>"
proof (induction js arbitrary: s)
  case Nil
  then have "s' = s\<lparr>m_z := m_z s, m_dz := m_dz s\<rparr>" by simp
  then show ?case by (intro exI)
next
  case (Cons j js)
  let ?s1 = "s\<lparr>m_z := (m_z s)[j := z ! j],
               m_dz := (m_dz s)[j - 1 := (m_z s)[j := z ! j] ! j - (m_z s)[j := z ! j] ! (j - 1)]\<rparr>"
  from Cons.prems have "setupGrid_loop z js ?s1 = Inr s'"
    by (simp add: Let_def split: if_splits)
  from Cons.IH[OF this] obtain zs dzs where "s' = ?s1\<lparr>m_z := zs, m_dz := dzs\<rparr>" by blast
  then have "s' = s\<lparr>m_z := zs, m_dz := dzs\<rparr>" by simp
  then show ?case by (intro exI)
qed

lemma resize_frame:
  assumes "resize nv n s = Inr s1"
  shows "m_points s1 = n" "m_nsp s1 = m_nsp s" "m_do_species s1 = m_do_species s"
    "length (m_do_energy s1) = n" "logged s1 = logged s"
  using assms
  by (auto simp: resize_def Domain1D_resize_def Let_def length_vresize split: if_splits)

lemma setupGrid_frame:
  assumes "setupGrid n z s = Inr s'"
  shows "nPoints s' = n" "m_nsp s' = m_nsp s" "m_do_species s' = m_do_species s"
    "length (m_do_energy s') = n"
proof -
  from assms obtain s1 where r: "resize (m_nv s) n s = Inr s1"
    and l: "setupGrid_loop z [1..<m_points s1] (s1\<lparr>m_z := (m_z s1)[0 := z ! 0]\<rparr>) = Inr s'"
    by (auto simp: setupGrid_def split: sum.splits)
  from setupGrid_loop_frame[OF l] obtain zs dzs where
    s': "s' = s1\<lparr>m_z := zs, m_dz := dzs\<rparr>" by auto
  show "nPoints s' = n" "m_nsp s' = m_nsp s" "m_do_species s' = m_do_species s"
    "length (m_do_energy s') = n"
    using resize_frame[OF r] by (simp_all add: s' nPoints_def)
qed

lemma setupGrid_succeeds:
  assumes "n = length z" "0 < n" "n \<le> vector_max_size"
    and "\<forall>j\<in>set [1..<n]. z ! (j - 1) < z ! j"
  shows "\<exists>s'. setupGrid n z s = Inr s'"
proof -
  from resize_ok[OF assms(2,3), of "m_nv s" s] obtain s1 where
    r: "resize (m_nv s) n s = Inr s1" and p: "m_points s1 = n" by blast
  from setupGrid_loop_ok[OF assms(4), of "s1\<lparr>m_z := (m_z s1)[0 := z ! 0]\<rparr>"]
  show ?thesis by (auto simp: setupGrid_def r p)
qed

lemma restore_import_doc3:
  assumes "dom_strings doc = []" and "dom_pressure doc = 101325"
    and "dom_grid_data doc = [(''z'', [0, 1, 2]), (''T'', [300, 400, 500])]"
    and "sg 3 [0, 1, 2] (setPressure 101325 s0) = Inr s1" and "loglevel < 2"
  shows "\<exists>lg zf tf so. restore_import sg env0 base0 doc soln loglevel s0
           = Inr (s1\<lparr>logged := lg, m_zfix := zf, m_tfix := tf\<rparr>, so)"
proof -
  have sg: "sg (Suc (Suc (Suc 0))) [0, 1, 2] (setPressure 101325 s0) = Inr s1"
    using assms(4) by (simp add: numeral_3_eq_3)
  have names: "th_speciesNames env0 = [''H2'', ''O2'']" by (simp add: env0_def)
  have "\<exists>so. restore_import sg env0 base0 doc soln loglevel s0
      = Inr (s1\<lparr>logged := logged (fst (projr (restore_import sg env0 base0 doc soln loglevel s0))),
               m_zfix := m_zfix (fst (projr (restore_import sg env0 base0 doc soln loglevel s0))),
               m_tfix := m_tfix (fst (projr (restore_import sg env0 base0 doc soln loglevel s0)))\<rparr>,
             so)"
    using assms(1,2,3,5) sg
    by (simp add: restore_import_def restore_grid_stage_def base0_def debuglog_def writelog_def restore_dataset_def
        setFixedTempProfile_def restore_log_ignored_def restore_log_missing_def
        speciesIndex_def names npos_def size_t_mod_def Let_def upt_conv_Cons)
  then show ?thesis by blast
qed

lemma restore_energy_enabled_ok:
  assumes "dom_energy_enabled doc = Some x" and "length x = nPoints s"
  shows "\<exists>s1. restore_energy_enabled doc s = Inr s1"
  using assms by (simp add: restore_energy_enabled_def)

lemma StFlow_restore_points:
  assumes "restore_import sg E base doc soln loglevel s0 = Inr (s, soln')"
    and "restore_energy_enabled doc s = Inr s1"
  shows "\<exists>s'. StFlow_restore sg E base doc soln loglevel s0 = Inr (s', soln')
              \<and> nPoints s' = nPoints s"
proof -
  have "nPoints (restore_refine_criteria doc (restore_species_enabled loglevel doc s1))
          = nPoints s1"
    by (simp add: restore_refine_criteria_def restore_species_enabled_def debuglog_def
        writelog_def nPoints_def split: option.splits prod.splits)
  then show ?thesis
    using assms restore_energy_enabled_frame(3)[OF assms(2)] by (simp add: StFlow_restore_def)
qed

lemma PorousFlow_search_found:
  assumes "\<not> zi > m_z s ! (j + 1)"
  shows "PorousFlow_search s zi j = Inr j"
  by (subst PorousFlow_search.simps) (use assms in simp)

lemma PorousFlow_setupGrid_doc3:
  assumes "m_z s = [0, 1, 2]" and "m_points s = 3"
  shows "\<exists>s'. PorousFlow_setupGrid 3 [0, 1, 2] s = Inr s' \<and> nPoints s' = 3
              \<and> m_nsp s' = m_nsp s"
proof -
  have "\<exists>tw d j. PorousFlow_interpolate s [0, 1, 2] [0..<3]
                    (vresize 3 0 (Tw s), vresize 3 0 (dq s), 0) = Inr (tw, d, j)"
    by (simp add: assms upt_conv_Cons size_sub_def PorousFlow_search_found)
  then obtain tw d j where
    i: "PorousFlow_interpolate s [0, 1, 2] [0..<3]
          (vresize 3 0 (Tw s), vresize 3 0 (dq s), 0) = Inr (tw, d, j)" by blast
  have "\<exists>s'. setupGrid 3 [0, 1, 2] (s\<lparr>Tw := tw, dq := d\<rparr>) = Inr s'"
    by (rule setupGrid_succeeds)
       (simp_all add: vector_max_size_def upt_conv_Cons numeral_3_eq_3)
  then obtain s' where g: "setupGrid 3 [0, 1, 2] (s\<lparr>Tw := tw, dq := d\<rparr>) = Inr s'" by blast
  from setupGrid_frame(1,2)[OF g] i g show ?thesis
    by (simp add: PorousFlow_setupGrid_def)
qed

lemma setupGrid_doc3:
  "\<exists>s'. setupGrid 3 [0, 1, 2] s = Inr s' \<and> nPoints s' = 3 \<and> m_nsp s' = m_nsp s"
proof -
  have "\<exists>s'. setupGrid 3 [0, 1, 2] s = Inr s'"
    by (rule setupGrid_succeeds)
       (simp_all add: vector_max_size_def upt_conv_Cons numeral_3_eq_3)
  then obtain s' where g: "setupGrid 3 [0, 1, 2] s = Inr s'" by blast
  from setupGrid_frame(1,2)[OF g] g show ?thesis by simp
qed

lemma doc3_fields:
  "dom_strings doc3 = []" "dom_pressure doc3 = 101325"
  "dom_grid_data doc3 = [(''z'', [0, 1, 2]), (''T'', [300, 400, 500])]"
  "dom_energy_enabled doc3 = Some [1, 1, 1]" "dom_species_enabled doc3 = Some [1, 0, 1]"
  "dom_strings doc3_energy = []" "dom_pressure doc3_energy = 101325"
  "dom_grid_data doc3_energy = [(''z'', [0, 1, 2]), (''T'', [300, 400, 500])]"
  "dom_energy_enabled doc3_energy = Some [1, 0]"
  "dom_strings doc3_solid = []" "dom_pressure doc3_solid = 101325"
  "dom_grid_data doc3_solid = [(''z'', [0, 1, 2]), (''T'', [300, 400, 500])]"
  "dom_energy_enabled doc3_solid = Some [1, 1, 1]" "dom_Solid doc3_solid = Some solid3"
  "so_Tsolid solid3 = [300, 300]"
  by (simp_all add: doc3_def doc3_energy_def doc3_solid_def solid3_def)

lemma doc3_import:
  assumes "dom_strings doc = []" and "dom_pressure doc = 101325"
    and "dom_grid_data doc = [(''z'', [0, 1, 2]), (''T'', [300, 400, 500])]"
    and "loglevel < 2"
  shows "\<exists>s so. restore_import setupGrid env0 base0 doc soln loglevel flow0 = Inr (s, so)
                \<and> nPoints s = 3 \<and> m_nsp s = 2"
proof -
  from setupGrid_doc3[of "setPressure 101325 flow0"] obtain s1 where
    g: "setupGrid 3 [0, 1, 2] (setPressure 101325 flow0) = Inr s1"
    and p: "nPoints s1 = 3" "m_nsp s1 = 2"
    by (auto simp: setPressure_def flow0_def)
  from restore_import_doc3[where sg=setupGrid and ?s0.0=flow0 and soln=soln,
      OF assms(1,2,3) g assms(4)] p
  show ?thesis by (auto simp: nPoints_def)
qed

lemma doc3_import_porous:
  assumes "dom_strings doc = []" and "dom_pressure doc = 101325"
    and "dom_grid_data doc = [(''z'', [0, 1, 2]), (''T'', [300, 400, 500])]"
    and "loglevel < 2"
  shows "\<exists>s so. restore_import PorousFlow_setupGrid env0 base0 doc soln loglevel porous3
                  = Inr (s, so) \<and> nPoints s = 3"
proof -
  have "m_z (setPressure 101325 porous3) = [0, 1, 2]" "m_points (setPressure 101325 porous3) = 3"
    by (simp_all add: setPressure_def porous3_def flow3_def flow0_def)
  from PorousFlow_setupGrid_doc3[OF this] obtain s1 where
    g: "PorousFlow_setupGrid 3 [0, 1, 2] (setPressure 101325 porous3) = Inr s1"
    and p: "nPoints s1 = 3" by blast
  from restore_import_doc3[where sg=PorousFlow_setupGrid and ?s0.0=porous3 and soln=soln,
      OF assms(1,2,3) g assms(4)] p
  show ?thesis by (auto simp: nPoints_def)
qed


lemma restore_dataset_Inl:
  assumes "restore_dataset E loglevel np fa st = Inl e"
  shows "e \<in> restore_size_errors"
  using assms
  by (cases fa; cases st)
     (auto simp: restore_dataset_def restore_size_errors_def Let_def split: if_splits)

lemma restore_datasets_raises:
  assumes "(nm, x) \<in> set d" and "nm \<in> {''u'', ''V'', ''T'', ''L''}" and "length x \<noteq> np"
  shows "\<exists>e. restore_datasets E loglevel np d st = Inl e
           \<and> e \<in> restore_size_errors"
  using assms(1)
proof (induction d arbitrary: st)
  case Nil
  then show ?case by simp
next
  case (Cons fa d)
  show ?case
  proof (cases "restore_dataset E loglevel np fa st")
    case (Inl e)
    from restore_dataset_Inl[OF Inl] Inl show ?thesis by simp
  next
    case (Inr st')
    have "fa \<noteq> (nm, x)"
    proof
      assume "fa = (nm, x)"
      with assms(2,3) restore_dataset_mismatch[OF assms(3), of E loglevel st] Inr
      show False by auto
    qed
    with Cons.prems have "(nm, x) \<in> set d" by simp
    from Cons.IH[OF this, of st'] Inr show ?thesis by simp
  qed
qed

lemma restore_size_error:
  assumes "restore_grid_stage sg base doc loglevel s0 = Inr (s1, np, True)"
    and "(nm, x) \<in> set (dom_grid_data doc)" and "nm \<in> {''u'', ''V'', ''T'', ''L''}"
    and "length x \<noteq> np"
  shows "\<exists>e. StFlow_restore sg E base doc soln loglevel s0 = Inl e
           \<and> e \<in> restore_size_errors"
proof -
  from restore_datasets_raises[OF assms(2,3,4), of E loglevel
      "(debuglog ''Importing datasets:\<newline>'' (loglevel \<ge> 2) s1, soln,
        replicate (length (th_speciesNames E)) 0, [])"]
  obtain e where e: "restore_datasets E loglevel np (dom_grid_data doc)
      (debuglog ''Importing datasets:\<newline>'' (loglevel \<ge> 2) s1, soln,
       replicate (length (th_speciesNames E)) 0, []) = Inl e"
    and m: "e \<in> restore_size_errors"
    by blast
  have "StFlow_restore sg E base doc soln loglevel s0 = Inl e"
    by (simp add: StFlow_restore_def restore_import_def assms(1) e)
  with m show ?thesis by blast
qed

lemma restore_grid_skip:
  assumes "nm \<noteq> ''z''"
  shows "restore_grid sg loglevel (d1 @ (nm, x) # d2) st = restore_grid sg loglevel (d1 @ d2) st"
proof (induction d1 arbitrary: st)
  case Nil
  show ?case using assms by (cases st) simp
next
  case (Cons fa d1)
  show ?case
    by (cases fa; cases st) (simp add: Cons.IH Let_def split: sum.splits)
qed

lemma restore_datasets_skip:
  assumes "length x \<noteq> np" and "nm \<notin> {''u'', ''z'', ''V'', ''T'', ''L''}"
    and "speciesIndex E nm \<noteq> npos" and "loglevel < 2"
  shows "restore_datasets E loglevel np (d1 @ (nm, x) # d2) st
           = restore_datasets E loglevel np (d1 @ d2) st"
proof (induction d1 arbitrary: st)
  case Nil
  obtain s soln did_species ignored where st: "st = (s, soln, did_species, ignored)"
    by (cases st)
  show ?case
    using restore_dataset_species_skipped[OF assms(1,2,3), of loglevel s soln did_species ignored]
      assms(4)
    by (simp add: st debuglog_def)
next
  case (Cons fa d1)
  show ?case by (simp add: Cons.IH split: sum.splits)
qed

lemma restore_species_array_skipped:
  assumes "restore_grid_stage sg base doc loglevel s0 = Inr (s1, np, readgrid)"
    and "dom_grid_data doc = d1 @ (nm, x) # d2"
    and "length x \<noteq> np" and "nm \<notin> {''u'', ''z'', ''V'', ''T'', ''L''}"
    and "speciesIndex E nm \<noteq> npos" and "loglevel < 2"
    and "base (doc\<lparr>dom_grid_data := d1 @ d2\<rparr>) loglevel s0 = base doc loglevel s0"
  shows "StFlow_restore sg E base doc soln loglevel s0
           = StFlow_restore sg E base (doc\<lparr>dom_grid_data := d1 @ d2\<rparr>) soln loglevel s0"
proof -
  let ?doc' = "doc\<lparr>dom_grid_data := d1 @ d2\<rparr>"
  have nz: "nm \<noteq> ''z''" using assms(4) by simp
  have g: "restore_grid_stage sg base ?doc' loglevel s0
             = restore_grid_stage sg base doc loglevel s0"
    by (cases "base doc loglevel s0")
       (simp_all add: restore_grid_stage_def assms(2,7) restore_grid_skip[OF nz])
  have i: "restore_import sg E base ?doc' soln loglevel s0
             = restore_import sg E base doc soln loglevel s0"
    by (simp add: restore_import_def g assms(1,2)
        restore_datasets_skip[OF assms(3,4,5,6)])
  have e: "restore_energy_enabled ?doc' = restore_energy_enabled doc"
    "restore_species_enabled loglevel ?doc' = restore_species_enabled loglevel doc"
    "restore_refine_criteria ?doc' = restore_refine_criteria doc"
    by (rule ext, simp add: restore_energy_enabled_def restore_species_enabled_def
        restore_refine_criteria_def)+
  show ?thesis unfolding StFlow_restore_def i e ..
qed

lemma restore_variants_propagate:
  "StFlow_restore setupGrid E base doc soln loglevel s0 = Inl e
     \<Longrightarrow> FreeFlame_restore E base doc soln loglevel s0 = Inl e"
  "StFlow_restore PorousFlow_setupGrid E base doc soln loglevel s0 = Inl e
     \<Longrightarrow> PorousFlow_restore E base doc soln loglevel s0 = Inl e"
  by (simp_all add: FreeFlame_restore_def PorousFlow_restore_def)

lemma restore_grid_no_z:
  assumes "\<forall>fa\<in>set d. fst fa \<noteq> ''z''"
  shows "restore_grid sg loglevel d st = Inr st"
  using assms
proof (induction d)
  case Nil
  show ?case by simp
next
  case (Cons fa d)
  then show ?case by (cases fa; cases st) simp
qed

lemma restore_grid_stage_doc3:
  assumes "dom_strings doc = []" and "dom_pressure doc = 101325"
    and "dom_grid_data doc = (''z'', [0, 1, 2]) # d" and "\<forall>fa\<in>set d. fst fa \<noteq> ''z''"
    and "sg 3 [0, 1, 2] (setPressure 101325 s0) = Inr s1" and "loglevel < 2"
  shows "restore_grid_stage sg base0 doc loglevel s0 = Inr (s1, 3, True)"
proof -
  have sg: "sg (Suc (Suc (Suc 0))) [0, 1, 2] (setPressure 101325 s0) = Inr s1"
    using assms(5) by (simp add: numeral_3_eq_3)
  show ?thesis
    using assms(1,2,3,6) sg restore_grid_no_z[OF assms(4), of sg loglevel "(s1, 3, True)"]
    by (simp add: restore_grid_stage_def base0_def debuglog_def numeral_3_eq_3)
qed

text \<open>
  Claim C9, as amended. In an invocation of \<^verbatim>\<open>restore\<close> whose earlier steps have not
  raised, a length mismatch of a restored array has the following effect, and an error
  that is raised is the result of the call, also for the free-flame and the porous
  variant.

  \<^item> An energy-enable array that is not empty and whose length differs from the point
    count raises the \<^verbatim>\<open>CanteraError\<close> of \<^verbatim>\<open>StFlow::restore\<close> that names both lengths.
  \<^item> In the porous variant a solid-field array (\<^verbatim>\<open>Tsolid\<close>, \<^verbatim>\<open>Radiation\<close>,
    \<^verbatim>\<open>Porosity\<close>, \<^verbatim>\<open>Diameter\<close>, \<^verbatim>\<open>SolidConductivity\<close>, \<^verbatim>\<open>Hconv\<close>) that is not empty and
    whose length differs from the point count raises a \<^verbatim>\<open>CanteraError\<close> of
    \<^verbatim>\<open>PorousFlow::restore\<close>.
  \<^item> An array \<^verbatim>\<open>u\<close>, \<^verbatim>\<open>V\<close>, \<^verbatim>\<open>T\<close> or \<^verbatim>\<open>L\<close> of \<^verbatim>\<open>grid_data\<close> whose length differs from the
    point count that the grid of the document has set makes \<^verbatim>\<open>restore\<close> raise one of the
    four size errors; the pass of the loop for that array raises the size error of that
    array.
  \<^item> A species-enable array that is not empty and whose length differs from the species
    count raises nothing: the call returns with every species equation enabled.
  \<^item> A species array of \<^verbatim>\<open>grid_data\<close> whose length differs from the point count raises
    nothing: its pass of the loop leaves the solution array as it was, and below the
    debug log level \<^verbatim>\<open>restore\<close> has the result that it has for the document without
    that array (the base-class part is assumed not to depend on the array).
\<close>

theorem restore_length_mismatch:
  "(restore_import sg E base doc soln loglevel s0 = Inr (s, soln')
      \<and> dom_energy_enabled doc = Some x \<and> x \<noteq> [] \<and> length x \<noteq> nPoints s \<longrightarrow>
      StFlow_restore sg E base doc soln loglevel s0
        = Inl (CanteraError ''StFlow::restore''
                 (''energy_enabled is length '' @ int2str (length x)
                  @ ''but should be length '' @ int2str (nPoints s))))
   \<and> (restore_import sg E base doc soln loglevel s0 = Inr (s, soln')
      \<and> restore_energy_enabled doc s = Inr s1
      \<and> dom_species_enabled doc = Some y \<and> y \<noteq> [] \<and> length y \<noteq> m_nsp s \<longrightarrow>
      (\<exists>s'. StFlow_restore sg E base doc soln loglevel s0 = Inr (s', soln')
           \<and> m_do_species s' = replicate (m_nsp s) True))
   \<and> (StFlow_restore PorousFlow_setupGrid E base doc soln loglevel s0 = Inr (sp, solnp)
      \<and> dom_Solid doc = Some ref
      \<and> ((so_Tsolid ref \<noteq> [] \<and> length (so_Tsolid ref) \<noteq> nPoints sp)
         \<or> (so_Radiation ref \<noteq> [] \<and> length (so_Radiation ref) \<noteq> nPoints sp)
         \<or> (so_Porosity ref \<noteq> [] \<and> length (so_Porosity ref) \<noteq> nPoints sp)
         \<or> (so_Diameter ref \<noteq> [] \<and> length (so_Diameter ref) \<noteq> nPoints sp)
         \<or> (so_SolidConductivity ref \<noteq> [] \<and> length (so_SolidConductivity ref) \<noteq> nPoints sp)
         \<or> (so_Hconv ref \<noteq> [] \<and> length (so_Hconv ref) \<noteq> nPoints sp)) \<longrightarrow>
      (\<exists>msg. PorousFlow_restore E base doc soln loglevel s0
                = Inl (CanteraError ''PorousFlow::restore'' msg)))
   \<and> (restore_grid_stage sg base doc loglevel s0 = Inr (sg1, np, True)
      \<and> (nm, xa) \<in> set (dom_grid_data doc) \<and> nm \<in> {''u'', ''V'', ''T'', ''L''}
      \<and> length xa \<noteq> np \<longrightarrow>
      (\<exists>e. StFlow_restore sg E base doc soln loglevel s0 = Inl e \<and> e \<in> restore_size_errors))
   \<and> (length xa \<noteq> np \<longrightarrow>
        restore_dataset E loglevel np (''u'', xa) st
          = Inl (CanteraError ''StFlow::restore'' ''axial velocity array size error'')
      \<and> restore_dataset E loglevel np (''V'', xa) st
          = Inl (CanteraError ''StFlow::restore'' ''radial velocity array size error'')
      \<and> restore_dataset E loglevel np (''T'', xa) st
          = Inl (CanteraError ''StFlow::restore'' ''temperature array size error'')
      \<and> restore_dataset E loglevel np (''L'', xa) st
          = Inl (CanteraError ''StFlow::restore'' ''lambda arary size error''))
   \<and> (length xa \<noteq> np \<and> nk \<notin> {''u'', ''z'', ''V'', ''T'', ''L''} \<and> speciesIndex E nk \<noteq> npos \<longrightarrow>
        restore_dataset E loglevel np (nk, xa) (sd, solnd, did_species, ignored)
          = Inr (debuglog (nk @ ''   '') (loglevel \<ge> 2) sd, solnd, did_species, ignored))
   \<and> (restore_grid_stage sg base doc loglevel s0 = Inr (sg1, np, readgrid)
      \<and> dom_grid_data doc = d1 @ (nk, xa) # d2
      \<and> length xa \<noteq> np \<and> nk \<notin> {''u'', ''z'', ''V'', ''T'', ''L''} \<and> speciesIndex E nk \<noteq> npos
      \<and> loglevel < 2
      \<and> base (doc\<lparr>dom_grid_data := d1 @ d2\<rparr>) loglevel s0 = base doc loglevel s0 \<longrightarrow>
      StFlow_restore sg E base doc soln loglevel s0
        = StFlow_restore sg E base (doc\<lparr>dom_grid_data := d1 @ d2\<rparr>) soln loglevel s0)
   \<and> (StFlow_restore setupGrid E base doc soln loglevel s0 = Inl err \<longrightarrow>
        FreeFlame_restore E base doc soln loglevel s0 = Inl err)
   \<and> (StFlow_restore PorousFlow_setupGrid E base doc soln loglevel s0 = Inl err \<longrightarrow>
        PorousFlow_restore E base doc soln loglevel s0 = Inl err)"
proof (intro conjI impI)
  assume "restore_import sg E base doc soln loglevel s0 = Inr (s, soln')
      \<and> dom_energy_enabled doc = Some x \<and> x \<noteq> [] \<and> length x \<noteq> nPoints s"
  then show "StFlow_restore sg E base doc soln loglevel s0
        = Inl (CanteraError ''StFlow::restore''
                 (''energy_enabled is length '' @ int2str (length x)
                  @ ''but should be length '' @ int2str (nPoints s)))"
    by (intro restore_energy_mismatch) simp_all
next
  assume "restore_import sg E base doc soln loglevel s0 = Inr (s, soln')
      \<and> restore_energy_enabled doc s = Inr s1
      \<and> dom_species_enabled doc = Some y \<and> y \<noteq> [] \<and> length y \<noteq> m_nsp s"
  then show "\<exists>s'. StFlow_restore sg E base doc soln loglevel s0 = Inr (s', soln')
           \<and> m_do_species s' = replicate (m_nsp s) True"
    by (intro restore_species_mismatch[where ?s1.0=s1 and y=y]) simp_all
next
  assume a: "StFlow_restore PorousFlow_setupGrid E base doc soln loglevel s0 = Inr (sp, solnp)
      \<and> dom_Solid doc = Some ref
      \<and> ((so_Tsolid ref \<noteq> [] \<and> length (so_Tsolid ref) \<noteq> nPoints sp)
         \<or> (so_Radiation ref \<noteq> [] \<and> length (so_Radiation ref) \<noteq> nPoints sp)
         \<or> (so_Porosity ref \<noteq> [] \<and> length (so_Porosity ref) \<noteq> nPoints sp)
         \<or> (so_Diameter ref \<noteq> [] \<and> length (so_Diameter ref) \<noteq> nPoints sp)
         \<or> (so_SolidConductivity ref \<noteq> [] \<and> length (so_SolidConductivity ref) \<noteq> nPoints sp)
         \<or> (so_Hconv ref \<noteq> [] \<and> length (so_Hconv ref) \<noteq> nPoints sp))"
  show "\<exists>msg. PorousFlow_restore E base doc soln loglevel s0
                = Inl (CanteraError ''PorousFlow::restore'' msg)"
    by (rule restore_porous_mismatch[where s=sp and soln'=solnp and ref=ref])
       (use a in simp_all)
next
  assume "restore_grid_stage sg base doc loglevel s0 = Inr (sg1, np, True)
      \<and> (nm, xa) \<in> set (dom_grid_data doc) \<and> nm \<in> {''u'', ''V'', ''T'', ''L''}
      \<and> length xa \<noteq> np"
  then show "\<exists>e. StFlow_restore sg E base doc soln loglevel s0 = Inl e
               \<and> e \<in> restore_size_errors"
    by (intro restore_size_error[where ?s1.0=sg1 and np=np and nm=nm and x=xa]) simp_all
next
  assume "length xa \<noteq> np"
  then show "restore_dataset E loglevel np (''u'', xa) st
          = Inl (CanteraError ''StFlow::restore'' ''axial velocity array size error'')"
    and "restore_dataset E loglevel np (''V'', xa) st
          = Inl (CanteraError ''StFlow::restore'' ''radial velocity array size error'')"
    and "restore_dataset E loglevel np (''T'', xa) st
          = Inl (CanteraError ''StFlow::restore'' ''temperature array size error'')"
    and "restore_dataset E loglevel np (''L'', xa) st
          = Inl (CanteraError ''StFlow::restore'' ''lambda arary size error'')"
    by (rule restore_dataset_mismatch)+
next
  assume "length xa \<noteq> np \<and> nk \<notin> {''u'', ''z'', ''V'', ''T'', ''L''} \<and> speciesIndex E nk \<noteq> npos"
  then show "restore_dataset E loglevel np (nk, xa) (sd, solnd, did_species, ignored)
          = Inr (debuglog (nk @ ''   '') (loglevel \<ge> 2) sd, solnd, did_species, ignored)"
    by (intro restore_dataset_species_skipped) simp_all
next
  assume "restore_grid_stage sg base doc loglevel s0 = Inr (sg1, np, readgrid)
      \<and> dom_grid_data doc = d1 @ (nk, xa) # d2
      \<and> length xa \<noteq> np \<and> nk \<notin> {''u'', ''z'', ''V'', ''T'', ''L''} \<and> speciesIndex E nk \<noteq> npos
      \<and> loglevel < 2
      \<and> base (doc\<lparr>dom_grid_data := d1 @ d2\<rparr>) loglevel s0 = base doc loglevel s0"
  then show "StFlow_restore sg E base doc soln loglevel s0
        = StFlow_restore sg E base (doc\<lparr>dom_grid_data := d1 @ d2\<rparr>) soln loglevel s0"
    by (intro restore_species_array_skipped[where ?s1.0=sg1 and np=np and readgrid=readgrid
          and nm=nk and x=xa]) simp_all
next
  assume "StFlow_restore setupGrid E base doc soln loglevel s0 = Inl err"
  then show "FreeFlame_restore E base doc soln loglevel s0 = Inl err"
    by (rule restore_variants_propagate)
next
  assume "StFlow_restore PorousFlow_setupGrid E base doc soln loglevel s0 = Inl err"
  then show "PorousFlow_restore E base doc soln loglevel s0 = Inl err"
    by (rule restore_variants_propagate)
qed

lemma int2str_2_3: "int2str (Suc (Suc 0)) = ''2''" "int2str 3 = ''3''"
  by (simp_all add: int2str.simps)

lemma doc3_more_fields:
  "dom_strings doc3_u = []" "dom_pressure doc3_u = 101325"
  "dom_grid_data doc3_u = (''z'', [0, 1, 2]) # [(''u'', [1, 1]), (''T'', [300, 400, 500])]"
  "dom_strings doc3_H2 = []" "dom_pressure doc3_H2 = 101325"
  "dom_grid_data doc3_H2 = (''z'', [0, 1, 2]) # [(''H2'', [1, 1]), (''T'', [300, 400, 500])]"
  "dom_grid_data doc3_H2 = [(''z'', [0, 1, 2])] @ (''H2'', [1, 1]) # [(''T'', [300, 400, 500])]"
  "doc3_H2\<lparr>dom_grid_data := [(''z'', [0, 1, 2]), (''T'', [300, 400, 500])]\<rparr> = doc3"
  by (simp_all add: doc3_u_def doc3_H2_def doc3_def)

text \<open>The theorem for the documents with the grid \<open>0, 1, 2\<close>, restored into the
  two-species domain and into the three-point porous domain.\<close>

theorem restore_length_mismatch_witness:
  "StFlow_restore setupGrid env0 base0 doc3_energy soln3 1 flow0
     = Inl (CanteraError ''StFlow::restore''
              ''energy_enabled is length 2but should be length 3'')
   \<and> FreeFlame_restore env0 base0 doc3_energy soln3 1 flow0
     = Inl (CanteraError ''StFlow::restore''
              ''energy_enabled is length 2but should be length 3'')
   \<and> (\<exists>s' so. StFlow_restore setupGrid env0 base0 doc3 soln3 0 flow0 = Inr (s', so)
          \<and> m_do_species s' = [True, True])
   \<and> (\<exists>msg. PorousFlow_restore env0 base0 doc3_solid soln3 1 porous3
          = Inl (CanteraError ''PorousFlow::restore'' msg))
   \<and> (\<exists>e. StFlow_restore setupGrid env0 base0 doc3_u soln3 1 flow0 = Inl e
          \<and> e \<in> restore_size_errors
          \<and> PorousFlow_restore env0 base0 doc3_u soln3 1 porous3 = Inl e)
   \<and> restore_dataset env0 1 3 (''u'', [1, 1]) (flow3, soln3, [0, 0], [])
       = Inl (CanteraError ''StFlow::restore'' ''axial velocity array size error'')
   \<and> restore_dataset env0 1 3 (''H2'', [1, 1]) (flow3, soln3, [0, 0], [])
       = Inr (flow3, soln3, [0, 0], [])
   \<and> StFlow_restore setupGrid env0 base0 doc3_H2 soln3 1 flow0
       = StFlow_restore setupGrid env0 base0 doc3 soln3 1 flow0"
proof (intro conjI)
  from doc3_import[OF doc3_fields(6,7,8), of 1 soln3] obtain s so where
    i: "restore_import setupGrid env0 base0 doc3_energy soln3 1 flow0 = Inr (s, so)"
    and p: "nPoints s = 3" by auto
  from restore_length_mismatch[where sg=setupGrid and E=env0 and base=base0
      and doc=doc3_energy and soln=soln3 and loglevel=1 and ?s0.0=flow0 and s=s and soln'=so
      and x="[1, 0]", THEN conjunct1] i p doc3_fields(9)
  show e: "StFlow_restore setupGrid env0 base0 doc3_energy soln3 1 flow0
     = Inl (CanteraError ''StFlow::restore''
              ''energy_enabled is length 2but should be length 3'')"
    by (simp add: int2str_2_3)
  from restore_length_mismatch[where E=env0 and base=base0
      and doc=doc3_energy and soln=soln3 and loglevel=1 and ?s0.0=flow0
      and err="CanteraError ''StFlow::restore''
              ''energy_enabled is length 2but should be length 3''",
      THEN conjunct2, THEN conjunct2, THEN conjunct2, THEN conjunct2, THEN conjunct2,
      THEN conjunct2, THEN conjunct2, THEN conjunct1] e
  show "FreeFlame_restore env0 base0 doc3_energy soln3 1 flow0
     = Inl (CanteraError ''StFlow::restore''
              ''energy_enabled is length 2but should be length 3'')"
    by simp
next
  from doc3_import[OF doc3_fields(1,2,3), of 0 soln3] obtain s so where
    i: "restore_import setupGrid env0 base0 doc3 soln3 0 flow0 = Inr (s, so)"
    and p: "nPoints s = 3" "m_nsp s = 2" by auto
  from restore_energy_enabled_ok[OF doc3_fields(4), of s] p obtain s1 where
    e: "restore_energy_enabled doc3 s = Inr s1" by auto
  from restore_length_mismatch[where sg=setupGrid and E=env0 and base=base0
      and doc=doc3 and soln=soln3 and loglevel=0 and ?s0.0=flow0 and s=s and soln'=so
      and ?s1.0=s1 and y="[1, 0, 1]", THEN conjunct2, THEN conjunct1] i p e doc3_fields(5)
  show "\<exists>s' so. StFlow_restore setupGrid env0 base0 doc3 soln3 0 flow0 = Inr (s', so)
          \<and> m_do_species s' = [True, True]"
    by (auto simp: numeral_2_eq_2)
next
  from doc3_import_porous[OF doc3_fields(10,11,12), of 1 soln3] obtain s so where
    i: "restore_import PorousFlow_setupGrid env0 base0 doc3_solid soln3 1 porous3 = Inr (s, so)"
    and p: "nPoints s = 3" by auto
  from restore_energy_enabled_ok[OF doc3_fields(13), of s] p obtain s1 where
    e: "restore_energy_enabled doc3_solid s = Inr s1" by auto
  from StFlow_restore_points[OF i e] p obtain sp where
    r: "StFlow_restore PorousFlow_setupGrid env0 base0 doc3_solid soln3 1 porous3 = Inr (sp, so)"
    and q: "nPoints sp = 3" by auto
  from restore_length_mismatch[where E=env0 and base=base0
      and doc=doc3_solid and soln=soln3 and loglevel=1 and ?s0.0=porous3 and sp=sp
      and solnp=so and ref=solid3, THEN conjunct2, THEN conjunct2, THEN conjunct1]
    r q doc3_fields(14,15)
  show "\<exists>msg. PorousFlow_restore env0 base0 doc3_solid soln3 1 porous3
          = Inl (CanteraError ''PorousFlow::restore'' msg)"
    by simp
next
  have m: "m_z (setPressure 101325 porous3) = [0, 1, 2]" "m_points (setPressure 101325 porous3) = 3"
    by (simp_all add: setPressure_def porous3_def flow3_def flow0_def)
  from PorousFlow_setupGrid_doc3[OF m] obtain sq where
    q: "PorousFlow_setupGrid 3 [0, 1, 2] (setPressure 101325 porous3) = Inr sq" by blast
  from setupGrid_doc3[of "setPressure 101325 flow0"] obtain sf where
    f: "setupGrid 3 [0, 1, 2] (setPressure 101325 flow0) = Inr sf" by blast
  have nz: "\<forall>fa\<in>set [(''u'', [1, 1::real]), (''T'', [300, 400, 500])]. fst fa \<noteq> ''z''"
    by simp
  have gf: "restore_grid_stage setupGrid base0 doc3_u 1 flow0 = Inr (sf, 3, True)"
    by (rule restore_grid_stage_doc3[where sg=setupGrid and ?s0.0=flow0,
          OF doc3_more_fields(1,2,3) nz f]) simp
  have gq: "restore_grid_stage PorousFlow_setupGrid base0 doc3_u 1 porous3 = Inr (sq, 3, True)"
    by (rule restore_grid_stage_doc3[where sg=PorousFlow_setupGrid and ?s0.0=porous3,
          OF doc3_more_fields(1,2,3) nz q]) simp
  have u: "(''u'', [1, 1]) \<in> set (dom_grid_data doc3_u)" by (simp add: doc3_more_fields(3))
  from restore_length_mismatch[where sg=setupGrid and E=env0 and base=base0
      and doc=doc3_u and soln=soln3 and loglevel=1 and ?s0.0=flow0 and ?sg1.0=sf and np=3
      and nm="''u''" and xa="[1, 1]",
      THEN conjunct2, THEN conjunct2, THEN conjunct2, THEN conjunct1] gf u
  obtain e where e: "StFlow_restore setupGrid env0 base0 doc3_u soln3 1 flow0 = Inl e"
    "e \<in> restore_size_errors" by auto
  have "restore_datasets env0 1 3 (dom_grid_data doc3_u) st
          = Inl (CanteraError ''StFlow::restore'' ''axial velocity array size error'')" for st
    by (cases st) (simp add: doc3_more_fields(3) restore_dataset_def Let_def)
  then have pe: "StFlow_restore sg env0 base0 doc3_u soln3 1 s0
          = Inl (CanteraError ''StFlow::restore'' ''axial velocity array size error'')"
    if "restore_grid_stage sg base0 doc3_u 1 s0 = Inr (s1, 3, True)" for sg s0 s1
    using that by (simp add: StFlow_restore_def restore_import_def)
  from pe[OF gf] e have ee: "e = CanteraError ''StFlow::restore'' ''axial velocity array size error''"
    by simp
  from restore_length_mismatch[where E=env0 and base=base0
      and doc=doc3_u and soln=soln3 and loglevel=1 and ?s0.0=porous3 and err=e,
      THEN conjunct2, THEN conjunct2, THEN conjunct2, THEN conjunct2, THEN conjunct2,
      THEN conjunct2, THEN conjunct2, THEN conjunct2] pe[OF gq] ee
  have "PorousFlow_restore env0 base0 doc3_u soln3 1 porous3 = Inl e" by simp
  with e show "\<exists>e. StFlow_restore setupGrid env0 base0 doc3_u soln3 1 flow0 = Inl e
          \<and> e \<in> restore_size_errors
          \<and> PorousFlow_restore env0 base0 doc3_u soln3 1 porous3 = Inl e"
    by blast
next
  from restore_length_mismatch[where E=env0 and loglevel=1 and np=3 and xa="[1, 1]"
      and st="(flow3, soln3, [0, 0], [])",
      THEN conjunct2, THEN conjunct2, THEN conjunct2, THEN conjunct2, THEN conjunct1]
  show "restore_dataset env0 1 3 (''u'', [1, 1]) (flow3, soln3, [0, 0], [])
       = Inl (CanteraError ''StFlow::restore'' ''axial velocity array size error'')"
    by simp
next
  have n: "speciesIndex env0 ''H2'' \<noteq> npos"
    by (simp add: speciesIndex_def env0_def npos_def size_t_mod_def upt_conv_Cons)
  from restore_length_mismatch[where E=env0 and loglevel=1 and np=3 and xa="[1, 1]"
      and nk="''H2''" and sd=flow3 and solnd=soln3 and did_species="[0, 0]" and ignored="[]",
      THEN conjunct2, THEN conjunct2, THEN conjunct2, THEN conjunct2, THEN conjunct2,
      THEN conjunct1] n
  show "restore_dataset env0 1 3 (''H2'', [1, 1]) (flow3, soln3, [0, 0], [])
       = Inr (flow3, soln3, [0, 0], [])"
    by (simp add: debuglog_def)
next
  have n: "speciesIndex env0 ''H2'' \<noteq> npos"
    by (simp add: speciesIndex_def env0_def npos_def size_t_mod_def upt_conv_Cons)
  from setupGrid_doc3[of "setPressure 101325 flow0"] obtain sf where
    f: "setupGrid 3 [0, 1, 2] (setPressure 101325 flow0) = Inr sf" by blast
  have nz: "\<forall>fa\<in>set [(''H2'', [1, 1::real]), (''T'', [300, 400, 500])]. fst fa \<noteq> ''z''"
    by simp
  have g: "restore_grid_stage setupGrid base0 doc3_H2 1 flow0 = Inr (sf, 3, True)"
    by (rule restore_grid_stage_doc3[where sg=setupGrid and ?s0.0=flow0,
          OF doc3_more_fields(4,5,6) nz f]) simp
  from restore_length_mismatch[where sg=setupGrid and E=env0 and base=base0
      and doc=doc3_H2 and soln=soln3 and loglevel=1 and ?s0.0=flow0 and ?sg1.0=sf and np=3
      and readgrid=True and nk="''H2''" and xa="[1, 1]" and ?d1.0="[(''z'', [0, 1, 2])]"
      and ?d2.0="[(''T'', [300, 400, 500])]",
      THEN conjunct2, THEN conjunct2, THEN conjunct2, THEN conjunct2, THEN conjunct2,
      THEN conjunct2, THEN conjunct1] g n doc3_more_fields(7)
  show "StFlow_restore setupGrid env0 base0 doc3_H2 soln3 1 flow0
       = StFlow_restore setupGrid env0 base0 doc3 soln3 1 flow0"
    by (simp add: doc3_more_fields(8) base0_def)
qed

text \<open>
  Claim C9 as stated fails for the species-enable array: restoring the two-species domain
  from a document whose \<^verbatim>\<open>species_enabled\<close> array has three entries returns, with both
  species equations enabled.
\<close>

theorem restore_species_enabled_counterexample:
  "dom_species_enabled doc3 = Some [1, 0, 1] \<and> m_nsp flow0 = 2
   \<and> (\<exists>s' so. StFlow_restore setupGrid env0 base0 doc3 soln3 1 flow0 = Inr (s', so)
          \<and> m_do_species s' = [True, True])"
proof -
  from doc3_import[OF doc3_fields(1,2,3), of 1 soln3] obtain s so where
    i: "restore_import setupGrid env0 base0 doc3 soln3 1 flow0 = Inr (s, so)"
    and p: "nPoints s = 3" "m_nsp s = 2" by auto
  from restore_energy_enabled_ok[OF doc3_fields(4), of s] p obtain s1 where
    e: "restore_energy_enabled doc3 s = Inr s1" by auto
  from restore_species_mismatch[OF i e doc3_fields(5)] p
  have "\<exists>s' so. StFlow_restore setupGrid env0 base0 doc3 soln3 1 flow0 = Inr (s', so)
          \<and> m_do_species s' = [True, True]"
    by (auto simp: numeral_2_eq_2)
  then show ?thesis by (simp add: doc3_fields flow0_def)
qed

end
